theory Spec2Isabelle
  imports Main
begin

section \<open>The realtime subscription client (RealtimeResource)\<close>

text \<open>
  A shallow embedding of the class \<open>RealtimeResource\<close> of the SDK's realtime module.
  The object's private fields become the fields of one record; everything the object
  touches outside itself (timers, promises, sockets, listeners' invocations) is kept in
  the same record as an explicit store, so that each method is a function from state to
  state.  JavaScript runs one task at a time: a function of this theory is one task
  together with the promise continuations it makes runnable, which the event loop runs
  before the next task.

  Numbers are modelled as unbounded integers (milliseconds) and naturals (counters).
\<close>

subsection \<open>Data model\<close>

datatype ConnectionState = Disconnected | Connecting | Connected | Reconnecting

datatype CommandType = Subscribe | Unsubscribe

datatype SubscriptionType = EventType | Channel | All

text \<open>The command sent to the server; the two lists are optional properties.\<close>

record SubscriptionCommand =
  cmdType :: CommandType
  cmdSubscriptionType :: SubscriptionType
  cmdEventTypes :: "string list option"
  cmdChannels :: "string list option"

text \<open>
  A confirmation frame as it comes out of \<open>JSON.parse\<close>: \<open>confError\<close> tells
  \<open>subscription_error\<close> from \<open>subscription_confirmed\<close>; \<open>action\<close> and
  \<open>subscriptionType\<close> are whatever the server wrote, as text.
\<close>

record SubscriptionConfirmation =
  confError :: bool
  action :: string
  subscriptionType :: string
  items :: "string list"
  error :: "string option"

text \<open>
  The result of parsing an inbound frame and looking at its \<open>type\<close>.  \<open>Unparseable\<close>
  carries the text of the exception thrown inside the \<open>try\<close> block; the normalised
  event is kept opaque; \<open>EventFrame None\<close> is an event frame whose \<open>data\<close> is falsy.
\<close>

datatype frame =
    Unparseable string
  | ConnectedFrame
  | ConfirmationFrame SubscriptionConfirmation
  | EventFrame "string option"
  | OtherFrame

datatype 'a promise = Pending | Fulfilled 'a | Rejected string

text \<open>What a timer does when it fires.\<close>

datatype timer_callback =
    SubscriptionTimeout string nat
  | ReconnectTimer
  | HeartbeatTimer

text \<open>Where a run of \<open>resubscribe\<close> is suspended: the \<open>await\<close> it will resume after.\<close>

datatype resubscribe_await = AfterAll | AfterChannels | AfterEventTypes

text \<open>Where the executor of \<open>connect\<close> is suspended.\<close>

datatype connect_await = AwaitToken | AwaitWebSocket string

datatype runtime = Browser | Node bool

text \<open>
  The \<open>readyState\<close> of a socket.  The WebSocket implementation is not part of this
  repository; what is modelled of it is its documented life cycle: a socket is
  \<open>CONNECTING\<close> from its construction until its open event, \<open>CLOSING\<close> once
  \<open>close\<close> has been called on it, \<open>CLOSED\<close> at its close event, and \<open>send\<close>
  throws on a socket that is still \<open>CONNECTING\<close>.
\<close>

datatype ReadyState = CONNECTING | OPEN | CLOSING | CLOSED

record socket =
  sockUrl :: string
  sockToken :: string
  sockConnect :: nat
  sockPing :: bool

record RealtimeConfig =
  cfgUrl :: "string option"
  cfgAutoReconnect :: "bool option"
  cfgReconnectInterval :: "int option"
  cfgMaxReconnectAttempts :: "nat option"
  cfgHeartbeatInterval :: "int option"

record RealtimeResource =
  \<comment> \<open>config\<close>
  url :: string
  autoReconnect :: bool
  reconnectInterval :: int
  maxReconnectAttempts :: nat
  heartbeatIntervalMs :: int
  \<comment> \<open>private fields\<close>
  ws :: "nat option"
  state :: ConnectionState
  reconnectAttempts :: nat
  reconnectTimeout :: "nat option"
  heartbeatInterval :: "nat option"
  eventHandlers :: "nat list"
  stateHandlers :: "nat list"
  errorHandlers :: "nat list"
  \<comment> \<open>activeSubscriptions; a JavaScript Set keeps insertion order\<close>
  eventTypes :: "string list"
  channels :: "string list"
  subscribedToAll :: bool
  \<comment> \<open>pendingSubscriptions: key to (timer of the entry, promise of the entry)\<close>
  pendingSubscriptions :: "string \<rightharpoonup> nat \<times> nat"
  \<comment> \<open>the world around the object\<close>
  runtimeEnv :: runtime
  nextId :: nat
  timers :: "nat \<rightharpoonup> int \<times> timer_callback"
  subPromises :: "nat \<rightharpoonup> SubscriptionConfirmation promise"
  awaiters :: "nat \<rightharpoonup> resubscribe_await"
  connectPromises :: "nat \<rightharpoonup> unit promise"
  connects :: "nat \<rightharpoonup> connect_await"
  sockets :: "nat \<rightharpoonup> socket"
  readyState :: "nat \<rightharpoonup> ReadyState"
  opened :: "nat list"
  tokenFetches :: nat
  sent :: "(nat \<times> SubscriptionCommand) list"
  closeCalls :: "(nat \<times> nat \<times> string) list"
  pings :: "nat list"
  stateLog :: "(nat \<times> ConnectionState) list"
  errorLog :: "(nat \<times> string) list"
  eventLog :: "(nat \<times> string) list"

subsection \<open>Constants and construction\<close>

definition DEFAULT_REALTIME_URL :: string where
  "DEFAULT_REALTIME_URL = ''wss://wss.veroai.dev/ws''"

definition DEFAULT_RECONNECT_INTERVAL :: int where
  "DEFAULT_RECONNECT_INTERVAL = 1000"

definition MAX_RECONNECT_INTERVAL :: int where
  "MAX_RECONNECT_INTERVAL = 30000"

definition DEFAULT_MAX_RECONNECT_ATTEMPTS :: nat where
  "DEFAULT_MAX_RECONNECT_ATTEMPTS = 10"

definition DEFAULT_HEARTBEAT_INTERVAL :: int where
  "DEFAULT_HEARTBEAT_INTERVAL = 30000"

definition SUBSCRIPTION_TIMEOUT :: int where
  "SUBSCRIPTION_TIMEOUT = 10000"

text \<open>What \<open>send\<close> throws on a socket that has not opened (the text is the implementation's).\<close>

definition SEND_WHILE_CONNECTING :: string where
  "SEND_WHILE_CONNECTING = ''WebSocket is not open: readyState 0 (CONNECTING)''"

text \<open>\<open>a ?? b\<close>\<close>

definition orDefault :: "'a option \<Rightarrow> 'a \<Rightarrow> 'a" where
  "orDefault x d = (case x of None \<Rightarrow> d | Some v \<Rightarrow> v)"

text \<open>The constructor, in the runtime \<open>env\<close>.\<close>

definition createRealtimeResource :: "runtime \<Rightarrow> RealtimeConfig \<Rightarrow> RealtimeResource" where
  "createRealtimeResource env config =
     \<lparr> url = orDefault (cfgUrl config) DEFAULT_REALTIME_URL,
       autoReconnect = orDefault (cfgAutoReconnect config) True,
       reconnectInterval = orDefault (cfgReconnectInterval config) DEFAULT_RECONNECT_INTERVAL,
       maxReconnectAttempts =
         orDefault (cfgMaxReconnectAttempts config) DEFAULT_MAX_RECONNECT_ATTEMPTS,
       heartbeatIntervalMs = orDefault (cfgHeartbeatInterval config) DEFAULT_HEARTBEAT_INTERVAL,
       ws = None,
       state = Disconnected,
       reconnectAttempts = 0,
       reconnectTimeout = None,
       heartbeatInterval = None,
       eventHandlers = [],
       stateHandlers = [],
       errorHandlers = [],
       eventTypes = [],
       channels = [],
       subscribedToAll = False,
       pendingSubscriptions = Map.empty,
       runtimeEnv = env,
       nextId = 0,
       timers = Map.empty,
       subPromises = Map.empty,
       awaiters = Map.empty,
       connectPromises = Map.empty,
       connects = Map.empty,
       sockets = Map.empty,
       readyState = Map.empty,
       opened = [],
       tokenFetches = 0,
       sent = [],
       closeCalls = [],
       pings = [],
       stateLog = [],
       errorLog = [],
       eventLog = [] \<rparr>"

definition defaultConfig :: RealtimeConfig where
  "defaultConfig =
     \<lparr> cfgUrl = None, cfgAutoReconnect = None, cfgReconnectInterval = None,
       cfgMaxReconnectAttempts = None, cfgHeartbeatInterval = None \<rparr>"

subsection \<open>Sets with insertion order\<close>

definition setAdd :: "'a \<Rightarrow> 'a list \<Rightarrow> 'a list" where
  "setAdd x xs = (if x \<in> set xs then xs else xs @ [x])"

definition setDelete :: "'a \<Rightarrow> 'a list \<Rightarrow> 'a list" where
  "setDelete x xs = removeAll x xs"

subsection \<open>Listeners\<close>

definition getState :: "RealtimeResource \<Rightarrow> ConnectionState" where
  "getState s = state s"

definition onEvent :: "nat \<Rightarrow> RealtimeResource \<Rightarrow> RealtimeResource" where
  "onEvent h s = s\<lparr>eventHandlers := setAdd h (eventHandlers s)\<rparr>"

definition onStateChange :: "nat \<Rightarrow> RealtimeResource \<Rightarrow> RealtimeResource" where
  "onStateChange h s = s\<lparr>stateHandlers := setAdd h (stateHandlers s)\<rparr>"

definition onError :: "nat \<Rightarrow> RealtimeResource \<Rightarrow> RealtimeResource" where
  "onError h s = s\<lparr>errorHandlers := setAdd h (errorHandlers s)\<rparr>"

definition removeAllHandlers :: "RealtimeResource \<Rightarrow> RealtimeResource" where
  "removeAllHandlers s = s\<lparr>eventHandlers := [], stateHandlers := [], errorHandlers := []\<rparr>"

text \<open>
  A listener is called inside its own \<open>try\<close>, so what it throws stops nothing: the
  call is recorded, one entry per registered listener, in registration order.
\<close>

definition setState :: "ConnectionState \<Rightarrow> RealtimeResource \<Rightarrow> RealtimeResource" where
  "setState st s =
     (if state s = st then s
      else s\<lparr>state := st, stateLog := stateLog s @ map (\<lambda>h. (h, st)) (stateHandlers s)\<rparr>)"

definition emitError :: "string \<Rightarrow> RealtimeResource \<Rightarrow> RealtimeResource" where
  "emitError msg s = s\<lparr>errorLog := errorLog s @ map (\<lambda>h. (h, msg)) (errorHandlers s)\<rparr>"

definition emitEvent :: "string \<Rightarrow> RealtimeResource \<Rightarrow> RealtimeResource" where
  "emitEvent ev s = s\<lparr>eventLog := eventLog s @ map (\<lambda>h. (h, ev)) (eventHandlers s)\<rparr>"

subsection \<open>Timers: heartbeat and reconnect\<close>

definition stopHeartbeat :: "RealtimeResource \<Rightarrow> RealtimeResource" where
  "stopHeartbeat s =
     (case heartbeatInterval s of
        None \<Rightarrow> s
      | Some t \<Rightarrow> s\<lparr>timers := (timers s)(t := None), heartbeatInterval := None\<rparr>)"

definition startHeartbeat :: "RealtimeResource \<Rightarrow> RealtimeResource" where
  "startHeartbeat s =
     (let s1 = stopHeartbeat s; t = nextId s1
      in s1\<lparr>heartbeatInterval := Some t,
             timers := (timers s1)(t \<mapsto> (heartbeatIntervalMs s1, HeartbeatTimer)),
             nextId := t + 1\<rparr>)"

definition clearReconnectTimeout :: "RealtimeResource \<Rightarrow> RealtimeResource" where
  "clearReconnectTimeout s =
     (case reconnectTimeout s of
        None \<Rightarrow> s
      | Some t \<Rightarrow> s\<lparr>timers := (timers s)(t := None), reconnectTimeout := None\<rparr>)"

definition shouldReconnect :: "RealtimeResource \<Rightarrow> bool" where
  "shouldReconnect s =
     (if maxReconnectAttempts s = 0 then True
      else reconnectAttempts s < maxReconnectAttempts s)"

text \<open>The delay of the exponential backoff, from the base interval and the counter.\<close>

definition reconnectDelay :: "int \<Rightarrow> nat \<Rightarrow> int" where
  "reconnectDelay b n = min (b * 2 ^ (n - 1)) MAX_RECONNECT_INTERVAL"

definition scheduleReconnect :: "RealtimeResource \<Rightarrow> RealtimeResource" where
  "scheduleReconnect s =
     (if reconnectTimeout s \<noteq> None then s
      else
        let s1 = setState Reconnecting s;
            s2 = s1\<lparr>reconnectAttempts := reconnectAttempts s1 + 1\<rparr>;
            delay = reconnectDelay (reconnectInterval s2) (reconnectAttempts s2);
            t = nextId s2
        in s2\<lparr>reconnectTimeout := Some t,
               timers := (timers s2)(t \<mapsto> (delay, ReconnectTimer)),
               nextId := t + 1\<rparr>)"

subsection \<open>Sending a command\<close>

definition commandTypeText :: "CommandType \<Rightarrow> string" where
  "commandTypeText c = (case c of Subscribe \<Rightarrow> ''subscribe'' | Unsubscribe \<Rightarrow> ''unsubscribe'')"

definition subscriptionTypeText :: "SubscriptionType \<Rightarrow> string" where
  "subscriptionTypeText t =
     (case t of EventType \<Rightarrow> ''event_type'' | Channel \<Rightarrow> ''channel'' | All \<Rightarrow> ''all'')"

definition getSubscriptionKey :: "string \<Rightarrow> string \<Rightarrow> string" where
  "getSubscriptionKey act sub = act @ '':'' @ sub"

definition commandKey :: "SubscriptionCommand \<Rightarrow> string" where
  "commandKey command =
     getSubscriptionKey (commandTypeText (cmdType command))
       (subscriptionTypeText (cmdSubscriptionType command))"

text \<open>
  \<open>sendSubscription\<close> returns the promise it made.  Not connected: the \<open>async\<close>
  function throws, so the promise is born rejected and nothing else happens.
  Connected: a timer of 10 seconds is armed, the entry (timer, promise) is stored under
  the key, replacing what was there, and the command is handed to \<open>send\<close> of the socket
  in \<open>this.ws\<close>.  That is the last statement of the promise's executor: when \<open>send\<close>
  throws, because that socket has not opened, the promise is rejected at once, and the
  timer and the entry stay as they are.
\<close>

definition sendSubscription ::
  "SubscriptionCommand \<Rightarrow> RealtimeResource \<Rightarrow> nat \<times> RealtimeResource" where
  "sendSubscription command s =
     (if ws s = None \<or> state s \<noteq> Connected
      then
        (let p = nextId s
         in (p, s\<lparr>subPromises := (subPromises s)(p \<mapsto> Rejected ''Not connected''),
                  nextId := p + 1\<rparr>))
      else
        (let key = commandKey command; t = nextId s; p = nextId s + 1;
             s1 = s\<lparr>timers := (timers s)(t \<mapsto> (SUBSCRIPTION_TIMEOUT, SubscriptionTimeout key p)),
                    pendingSubscriptions := (pendingSubscriptions s)(key \<mapsto> (t, p)),
                    subPromises := (subPromises s)(p \<mapsto> Pending),
                    nextId := p + 1\<rparr>
         in if readyState s (the (ws s)) = Some CONNECTING
            then (p, s1\<lparr>subPromises := (subPromises s1)(p \<mapsto> Rejected SEND_WHILE_CONNECTING)\<rparr>)
            else (p, s1\<lparr>sent := sent s1 @ [(the (ws s), command)]\<rparr>)))"

subsection \<open>The subscription operations\<close>

definition subscribeAll :: "RealtimeResource \<Rightarrow> nat \<times> RealtimeResource" where
  "subscribeAll s =
     sendSubscription
       \<lparr>cmdType = Subscribe, cmdSubscriptionType = All, cmdEventTypes = None, cmdChannels = None\<rparr>
       (s\<lparr>subscribedToAll := True\<rparr>)"

definition unsubscribeAll :: "RealtimeResource \<Rightarrow> nat \<times> RealtimeResource" where
  "unsubscribeAll s =
     sendSubscription
       \<lparr>cmdType = Unsubscribe, cmdSubscriptionType = All, cmdEventTypes = None, cmdChannels = None\<rparr>
       (s\<lparr>subscribedToAll := False\<rparr>)"

definition subscribeChannels :: "string list \<Rightarrow> RealtimeResource \<Rightarrow> nat \<times> RealtimeResource" where
  "subscribeChannels channelIds s =
     sendSubscription
       \<lparr>cmdType = Subscribe, cmdSubscriptionType = Channel, cmdEventTypes = None,
        cmdChannels = Some channelIds\<rparr>
       (s\<lparr>channels := fold setAdd channelIds (channels s)\<rparr>)"

definition unsubscribeChannels :: "string list \<Rightarrow> RealtimeResource \<Rightarrow> nat \<times> RealtimeResource" where
  "unsubscribeChannels channelIds s =
     sendSubscription
       \<lparr>cmdType = Unsubscribe, cmdSubscriptionType = Channel, cmdEventTypes = None,
        cmdChannels = Some channelIds\<rparr>
       (s\<lparr>channels := fold setDelete channelIds (channels s)\<rparr>)"

definition subscribeEventTypes :: "string list \<Rightarrow> RealtimeResource \<Rightarrow> nat \<times> RealtimeResource" where
  "subscribeEventTypes types s =
     sendSubscription
       \<lparr>cmdType = Subscribe, cmdSubscriptionType = EventType, cmdEventTypes = Some types,
        cmdChannels = None\<rparr>
       (s\<lparr>eventTypes := fold setAdd types (eventTypes s)\<rparr>)"

definition unsubscribeEventTypes :: "string list \<Rightarrow> RealtimeResource \<Rightarrow> nat \<times> RealtimeResource" where
  "unsubscribeEventTypes types s =
     sendSubscription
       \<lparr>cmdType = Unsubscribe, cmdSubscriptionType = EventType, cmdEventTypes = Some types,
        cmdChannels = None\<rparr>
       (s\<lparr>eventTypes := fold setDelete types (eventTypes s)\<rparr>)"

record SubscribeOptions =
  optEventTypes :: "string list option"
  optChannels :: "string list option"

text \<open>\<open>xs?.length\<close> as a condition: the list is there and not empty.\<close>

definition hasLength :: "'a list option \<Rightarrow> bool" where
  "hasLength xs = (case xs of None \<Rightarrow> False | Some l \<Rightarrow> l \<noteq> [])"

text \<open>
  \<open>subscribe\<close> and \<open>unsubscribe\<close> start the operations one after the other without
  waiting in between and then wait for all of them: the result is the list of promises
  waited for, or the error thrown before waiting.
\<close>

definition subscribe ::
  "SubscribeOptions \<Rightarrow> RealtimeResource \<Rightarrow> (string + nat list) \<times> RealtimeResource" where
  "subscribe options s =
     (let (ps1, s1) =
            (if hasLength (optChannels options)
             then (case subscribeChannels (the (optChannels options)) s of (p, s') \<Rightarrow> ([p], s'))
             else ([], s));
          (ps2, s2) =
            (if hasLength (optEventTypes options)
             then (case subscribeEventTypes (the (optEventTypes options)) s1 of
                     (p, s') \<Rightarrow> (ps1 @ [p], s'))
             else (ps1, s1))
      in if ps2 = [] then (Inl ''Must specify at least one channel or event type'', s2)
         else (Inr ps2, s2))"

definition unsubscribe ::
  "SubscribeOptions \<Rightarrow> RealtimeResource \<Rightarrow> nat list \<times> RealtimeResource" where
  "unsubscribe options s =
     (let (ps1, s1) =
            (if hasLength (optChannels options)
             then (case unsubscribeChannels (the (optChannels options)) s of (p, s') \<Rightarrow> ([p], s'))
             else ([], s));
          (ps2, s2) =
            (if hasLength (optEventTypes options)
             then (case unsubscribeEventTypes (the (optEventTypes options)) s1 of
                     (p, s') \<Rightarrow> (ps1 @ [p], s'))
             else (ps1, s1))
      in (ps2, s2))"

subsection \<open>resubscribe\<close>

text \<open>
  \<open>resubscribe\<close> is one \<open>try\<close> block around three awaited calls.  \<open>awaitResubscribe\<close>
  is an \<open>await\<close> inside it: a promise already rejected goes to the \<open>catch\<close>, which
  emits the error and ends the run; a pending promise suspends the run, which is
  recorded as the promise's awaiter; \<open>k\<close> is the rest of the \<open>try\<close> block.
\<close>

definition resubscribeError :: "string \<Rightarrow> string" where
  "resubscribeError e = ''Failed to resubscribe: Error: '' @ e"

definition awaitResubscribe ::
  "resubscribe_await \<Rightarrow> (RealtimeResource \<Rightarrow> RealtimeResource) \<Rightarrow>
     nat \<times> RealtimeResource \<Rightarrow> RealtimeResource" where
  "awaitResubscribe a k r =
     (case r of (p, s) \<Rightarrow>
        (case subPromises s p of
           Some (Rejected e) \<Rightarrow> emitError (resubscribeError e) s
         | Some (Fulfilled c) \<Rightarrow> k s
         | _ \<Rightarrow> s\<lparr>awaiters := (awaiters s)(p \<mapsto> a)\<rparr>))"

definition resubscribeEventTypes :: "RealtimeResource \<Rightarrow> RealtimeResource" where
  "resubscribeEventTypes s =
     (if eventTypes s \<noteq> []
      then awaitResubscribe AfterEventTypes (\<lambda>s'. s') (subscribeEventTypes (eventTypes s) s)
      else s)"

definition resubscribeChannels :: "RealtimeResource \<Rightarrow> RealtimeResource" where
  "resubscribeChannels s =
     (if channels s \<noteq> []
      then awaitResubscribe AfterChannels resubscribeEventTypes (subscribeChannels (channels s) s)
      else resubscribeEventTypes s)"

definition resubscribe :: "RealtimeResource \<Rightarrow> RealtimeResource" where
  "resubscribe s =
     (if subscribedToAll s
      then awaitResubscribe AfterAll resubscribeChannels (subscribeAll s)
      else resubscribeChannels s)"

definition resumeResubscribe :: "resubscribe_await \<Rightarrow> RealtimeResource \<Rightarrow> RealtimeResource" where
  "resumeResubscribe a s =
     (case a of
        AfterAll \<Rightarrow> resubscribeChannels s
      | AfterChannels \<Rightarrow> resubscribeEventTypes s
      | AfterEventTypes \<Rightarrow> s)"

subsection \<open>Settling promises\<close>

text \<open>
  A promise settles once; later calls of its \<open>resolve\<close> or \<open>reject\<close> do nothing.
  Settling the promise a \<open>resubscribe\<close> run waits for resumes that run: on with the
  \<open>try\<close> block, or into its \<open>catch\<close>.
\<close>

definition resolveSubscription ::
  "nat \<Rightarrow> SubscriptionConfirmation \<Rightarrow> RealtimeResource \<Rightarrow> RealtimeResource" where
  "resolveSubscription p c s =
     (case subPromises s p of
        Some Pending \<Rightarrow>
          (let s1 = s\<lparr>subPromises := (subPromises s)(p \<mapsto> Fulfilled c)\<rparr>
           in case awaiters s1 p of
                None \<Rightarrow> s1
              | Some a \<Rightarrow> resumeResubscribe a (s1\<lparr>awaiters := (awaiters s1)(p := None)\<rparr>))
      | _ \<Rightarrow> s)"

definition rejectSubscription :: "nat \<Rightarrow> string \<Rightarrow> RealtimeResource \<Rightarrow> RealtimeResource" where
  "rejectSubscription p e s =
     (case subPromises s p of
        Some Pending \<Rightarrow>
          (let s1 = s\<lparr>subPromises := (subPromises s)(p \<mapsto> Rejected e)\<rparr>
           in case awaiters s1 p of
                None \<Rightarrow> s1
              | Some a \<Rightarrow>
                  emitError (resubscribeError e) (s1\<lparr>awaiters := (awaiters s1)(p := None)\<rparr>))
      | _ \<Rightarrow> s)"

definition resolveConnect :: "nat \<Rightarrow> RealtimeResource \<Rightarrow> RealtimeResource" where
  "resolveConnect c s =
     (case connectPromises s c of
        Some Pending \<Rightarrow> s\<lparr>connectPromises := (connectPromises s)(c \<mapsto> Fulfilled ())\<rparr>
      | _ \<Rightarrow> s)"

definition rejectConnect :: "nat \<Rightarrow> string \<Rightarrow> RealtimeResource \<Rightarrow> RealtimeResource" where
  "rejectConnect c e s =
     (case connectPromises s c of
        Some Pending \<Rightarrow> s\<lparr>connectPromises := (connectPromises s)(c \<mapsto> Rejected e)\<rparr>
      | _ \<Rightarrow> s)"

text \<open>The two callbacks of a pending entry: each clears the entry's own timer first.\<close>

definition pendingResolve ::
  "nat \<times> nat \<Rightarrow> SubscriptionConfirmation \<Rightarrow> RealtimeResource \<Rightarrow> RealtimeResource" where
  "pendingResolve entry c s =
     (case entry of (t, p) \<Rightarrow> resolveSubscription p c (s\<lparr>timers := (timers s)(t := None)\<rparr>))"

definition pendingReject ::
  "nat \<times> nat \<Rightarrow> string \<Rightarrow> RealtimeResource \<Rightarrow> RealtimeResource" where
  "pendingReject entry e s =
     (case entry of (t, p) \<Rightarrow> rejectSubscription p e (s\<lparr>timers := (timers s)(t := None)\<rparr>))"

subsection \<open>Inbound frames\<close>

text \<open>\<open>x || d\<close> on an optional string: absent and empty are both falsy.\<close>

definition orElse :: "string option \<Rightarrow> string \<Rightarrow> string" where
  "orElse x d = (case x of None \<Rightarrow> d | Some v \<Rightarrow> if v = [] then d else v)"

definition handleMessage :: "frame \<Rightarrow> RealtimeResource \<Rightarrow> RealtimeResource" where
  "handleMessage data s =
     (case data of
        Unparseable e \<Rightarrow> emitError (''Failed to parse message: '' @ e) s
      | ConnectedFrame \<Rightarrow> s
      | ConfirmationFrame confirmation \<Rightarrow>
          (let key = getSubscriptionKey (action confirmation) (subscriptionType confirmation)
           in case pendingSubscriptions s key of
                None \<Rightarrow> s
              | Some entry \<Rightarrow>
                  (let s1 = s\<lparr>pendingSubscriptions := (pendingSubscriptions s)(key := None)\<rparr>
                   in if confError confirmation
                      then pendingReject entry (orElse (error confirmation) ''Subscription failed'') s1
                      else pendingResolve entry confirmation s1))
      | EventFrame None \<Rightarrow> s
      | EventFrame (Some ev) \<Rightarrow> emitEvent ev s
      | OtherFrame \<Rightarrow> s)"

subsection \<open>connect and disconnect\<close>

text \<open>
  \<open>getWebSocket\<close>: the browser has its own implementation; Node imports the \<open>ws\<close>
  package, which \<open>Node b\<close> has when \<open>b\<close> holds.  The result tells whether the sockets
  made from the implementation have a \<open>ping\<close> method (those of \<open>ws\<close> do).
\<close>

definition isBrowser :: "runtime \<Rightarrow> bool" where
  "isBrowser env = (case env of Browser \<Rightarrow> True | Node b \<Rightarrow> False)"

definition getWebSocket :: "runtime \<Rightarrow> string + bool" where
  "getWebSocket env =
     (if isBrowser env then Inr False
      else case env of
             Node True \<Rightarrow> Inr True
           | _ \<Rightarrow>
             Inl ''WebSocket is not available. In Node.js, install the \"ws\" package: npm install ws'')"

text \<open>
  \<open>connect\<close> returns \<open>None\<close> when it returns at once, and the promise it made
  otherwise; the executor of that promise then waits for the token fetcher.
\<close>

definition connect :: "RealtimeResource \<Rightarrow> nat option \<times> RealtimeResource" where
  "connect s =
     (if state s = Connected \<or> state s = Connecting then (None, s)
      else
        let s1 = setState Connecting s; c = nextId s1
        in (Some c, s1\<lparr>connectPromises := (connectPromises s1)(c \<mapsto> Pending),
                       connects := (connects s1)(c \<mapsto> AwaitToken),
                       tokenFetches := tokenFetches s1 + 1,
                       nextId := c + 1\<rparr>))"

text \<open>The \<open>catch\<close> of the executor.\<close>

definition connectCatch :: "nat \<Rightarrow> string \<Rightarrow> RealtimeResource \<Rightarrow> RealtimeResource" where
  "connectCatch c e s = rejectConnect c e (setState Disconnected s)"

text \<open>The token fetcher of the connect call \<open>c\<close> settles: thrown error or token.\<close>

definition tokenFetched :: "nat \<Rightarrow> string + string \<Rightarrow> RealtimeResource \<Rightarrow> RealtimeResource" where
  "tokenFetched c r s =
     (case connects s c of
        Some AwaitToken \<Rightarrow>
          (case r of
             Inl e \<Rightarrow> connectCatch c e (s\<lparr>connects := (connects s)(c := None)\<rparr>)
           | Inr token \<Rightarrow> s\<lparr>connects := (connects s)(c \<mapsto> AwaitWebSocket token)\<rparr>)
      | _ \<Rightarrow> s)"

text \<open>
  \<open>getWebSocket\<close> settles for the connect call \<open>c\<close>, and the socket is constructed;
  \<open>ctor = Some e\<close> when \<open>new URL\<close> or \<open>new WS\<close> throws \<open>e\<close>.
\<close>

definition webSocketReady :: "nat \<Rightarrow> string option \<Rightarrow> RealtimeResource \<Rightarrow> RealtimeResource" where
  "webSocketReady c ctor s =
     (case connects s c of
        Some (AwaitWebSocket token) \<Rightarrow>
          (let s0 = s\<lparr>connects := (connects s)(c := None)\<rparr>
           in case getWebSocket (runtimeEnv s0) of
                Inl e \<Rightarrow> connectCatch c e s0
              | Inr ping \<Rightarrow>
                  (case ctor of
                     Some e \<Rightarrow> connectCatch c e s0
                   | None \<Rightarrow>
                       (let k = nextId s0
                        in s0\<lparr>ws := Some k,
                               sockets := (sockets s0)(k \<mapsto>
                                 \<lparr>sockUrl = url s0, sockToken = token, sockConnect = c,
                                  sockPing = ping\<rparr>),
                               readyState := (readyState s0)(k \<mapsto> CONNECTING),
                               opened := opened s0 @ [k],
                               nextId := k + 1\<rparr>)))
      | _ \<Rightarrow> s)"

text \<open>
  The four handlers of the socket \<open>k\<close>.  The open event finds the socket \<open>OPEN\<close>, the
  close event finds it \<open>CLOSED\<close>.
\<close>

definition onopen :: "nat \<Rightarrow> RealtimeResource \<Rightarrow> RealtimeResource" where
  "onopen k s =
     (case sockets s k of
        None \<Rightarrow> s
      | Some info \<Rightarrow>
          (let s0 = s\<lparr>readyState := (readyState s)(k \<mapsto> OPEN)\<rparr>;
               s1 = setState Connected s0;
               s2 = s1\<lparr>reconnectAttempts := 0\<rparr>;
               s3 = startHeartbeat s2;
               s4 = resubscribe s3
           in resolveConnect (sockConnect info) s4))"

definition onclose :: "nat \<Rightarrow> string option \<Rightarrow> RealtimeResource \<Rightarrow> RealtimeResource" where
  "onclose k reason s =
     (case sockets s k of
        None \<Rightarrow> s
      | Some info \<Rightarrow>
          (let s0 = s\<lparr>readyState := (readyState s)(k \<mapsto> CLOSED)\<rparr>;
               s1 = stopHeartbeat s0;
               s2 = s1\<lparr>ws := None\<rparr>
           in if state s2 = Connecting
              then setState Disconnected
                     (rejectConnect (sockConnect info)
                        (''Connection failed: '' @ orElse reason ''Unknown reason'') s2)
              else
                (let s3 = setState Disconnected s2
                 in if autoReconnect s3 \<and> shouldReconnect s3 then scheduleReconnect s3 else s3)))"

definition onerror :: "nat \<Rightarrow> string option \<Rightarrow> RealtimeResource \<Rightarrow> RealtimeResource" where
  "onerror k message s =
     (case sockets s k of
        None \<Rightarrow> s
      | Some info \<Rightarrow>
          (let err = ''WebSocket error'' @
                 (case message of None \<Rightarrow> [] | Some m \<Rightarrow> if m = [] then [] else '': '' @ m);
               s1 = emitError err s
           in if state s1 = Connecting then rejectConnect (sockConnect info) err s1 else s1))"

definition onmessage :: "nat \<Rightarrow> frame \<Rightarrow> RealtimeResource \<Rightarrow> RealtimeResource" where
  "onmessage k data s = (case sockets s k of None \<Rightarrow> s | Some info \<Rightarrow> handleMessage data s)"

definition disconnect :: "RealtimeResource \<Rightarrow> RealtimeResource" where
  "disconnect s =
     (let s1 = s\<lparr>autoReconnect := False\<rparr>;
          s2 = clearReconnectTimeout s1;
          s3 = stopHeartbeat s2;
          s4 = (case ws s3 of
                  None \<Rightarrow> s3
                | Some k \<Rightarrow>
                    s3\<lparr>closeCalls := closeCalls s3 @ [(k, 1000, ''Client disconnect'')],
                       readyState := (readyState s3)(k \<mapsto> CLOSING),
                       ws := None\<rparr>)
      in setState Disconnected s4)"

subsection \<open>Timers firing\<close>

text \<open>
  A timer fires only while it is armed.  A timeout is gone once fired; the heartbeat is
  an interval and stays.  The reconnect timer's callback calls \<open>connect\<close> and swallows
  what it throws.
\<close>

definition fireTimer :: "nat \<Rightarrow> RealtimeResource \<Rightarrow> RealtimeResource" where
  "fireTimer t s =
     (case timers s t of
        None \<Rightarrow> s
      | Some (delay, SubscriptionTimeout key p) \<Rightarrow>
          rejectSubscription p ''Subscription timeout''
            (s\<lparr>timers := (timers s)(t := None),
               pendingSubscriptions := (pendingSubscriptions s)(key := None)\<rparr>)
      | Some (delay, ReconnectTimer) \<Rightarrow>
          snd (connect (s\<lparr>timers := (timers s)(t := None), reconnectTimeout := None\<rparr>))
      | Some (delay, HeartbeatTimer) \<Rightarrow>
          (case ws s of
             None \<Rightarrow> s
           | Some k \<Rightarrow>
               if state s = Connected \<and> (case sockets s k of None \<Rightarrow> False | Some info \<Rightarrow> sockPing info)
               then s\<lparr>pings := pings s @ [k]\<rparr>
               else s))"

subsection \<open>Runs\<close>

text \<open>
  What can happen to the object: calls from the application, and tasks of the event loop.
  A run is any list of events.  Nothing ties the events of a socket to the order in
  which a WebSocket implementation delivers them, so what holds of every run holds of
  the runs that can happen; the runs evaluated below follow that order.
\<close>

datatype event =
    Connect
  | Disconnect
  | SubscribeAll
  | UnsubscribeAll
  | SubscribeChannels "string list"
  | UnsubscribeChannels "string list"
  | SubscribeEventTypes "string list"
  | UnsubscribeEventTypes "string list"
  | TokenFetched nat "string + string"
  | WebSocketReady nat "string option"
  | OnOpen nat
  | OnClose nat "string option"
  | OnError nat "string option"
  | OnMessage nat frame
  | FireTimer nat

definition step :: "event \<Rightarrow> RealtimeResource \<Rightarrow> RealtimeResource" where
  "step e s =
     (case e of
        Connect \<Rightarrow> snd (connect s)
      | Disconnect \<Rightarrow> disconnect s
      | SubscribeAll \<Rightarrow> snd (subscribeAll s)
      | UnsubscribeAll \<Rightarrow> snd (unsubscribeAll s)
      | SubscribeChannels ids \<Rightarrow> snd (subscribeChannels ids s)
      | UnsubscribeChannels ids \<Rightarrow> snd (unsubscribeChannels ids s)
      | SubscribeEventTypes ts \<Rightarrow> snd (subscribeEventTypes ts s)
      | UnsubscribeEventTypes ts \<Rightarrow> snd (unsubscribeEventTypes ts s)
      | TokenFetched c r \<Rightarrow> tokenFetched c r s
      | WebSocketReady c ctor \<Rightarrow> webSocketReady c ctor s
      | OnOpen k \<Rightarrow> onopen k s
      | OnClose k reason \<Rightarrow> onclose k reason s
      | OnError k message \<Rightarrow> onerror k message s
      | OnMessage k data \<Rightarrow> onmessage k data s
      | FireTimer t \<Rightarrow> fireTimer t s)"

fun run :: "event list \<Rightarrow> RealtimeResource \<Rightarrow> RealtimeResource" where
  "run [] s = s"
| "run (e # es) s = run es (step e s)"

subsection \<open>Views used by the properties\<close>

text \<open>The object \<open>activeSubscriptions\<close> as one value: the flag and the two sets.\<close>

definition activeSubscriptions :: "RealtimeResource \<Rightarrow> bool \<times> string list \<times> string list" where
  "activeSubscriptions s = (subscribedToAll s, channels s, eventTypes s)"

text \<open>The events that are calls of a subscribe or unsubscribe method.\<close>

definition isSubscriptionCall :: "event \<Rightarrow> bool" where
  "isSubscriptionCall e =
     (case e of
        SubscribeAll \<Rightarrow> True
      | UnsubscribeAll \<Rightarrow> True
      | SubscribeChannels ids \<Rightarrow> True
      | UnsubscribeChannels ids \<Rightarrow> True
      | SubscribeEventTypes ts \<Rightarrow> True
      | UnsubscribeEventTypes ts \<Rightarrow> True
      | _ \<Rightarrow> False)"

text \<open>
  How timers and entries hang together in every state the object can reach: a
  subscription timer has the delay of 10 seconds and belongs to the promise made with
  it; an entry's timer is armed, for the entry's key and promise; timer handles are older
  than the next fresh handle; the heartbeat handle and the reconnect handle, when set,
  are armed timers of their kind.
\<close>

definition wellFormed :: "RealtimeResource \<Rightarrow> bool" where
  "wellFormed s =
     ((\<forall>t d key p. timers s t = Some (d, SubscriptionTimeout key p) \<longrightarrow>
          d = SUBSCRIPTION_TIMEOUT \<and> p = t + 1 \<and> p < nextId s) \<and>
      (\<forall>key t p. pendingSubscriptions s key = Some (t, p) \<longrightarrow>
          timers s t = Some (SUBSCRIPTION_TIMEOUT, SubscriptionTimeout key p)) \<and>
      (\<forall>t x. timers s t = Some x \<longrightarrow> t < nextId s) \<and>
      (\<forall>h. heartbeatInterval s = Some h \<longrightarrow> (\<exists>d. timers s h = Some (d, HeartbeatTimer))) \<and>
      (\<forall>r. reconnectTimeout s = Some r \<longrightarrow> (\<exists>d. timers s r = Some (d, ReconnectTimer))))"

text \<open>The event is a confirmation frame (of either kind) for the key.\<close>

definition confirms :: "string \<Rightarrow> event \<Rightarrow> bool" where
  "confirms key e =
     (case e of
        OnMessage k (ConfirmationFrame c) \<Rightarrow>
          getSubscriptionKey (action c) (subscriptionType c) = key
      | _ \<Rightarrow> False)"

text \<open>
  The events in which a command may be handed to the socket: a call of a subscribe or
  unsubscribe method, a socket opening (\<open>resubscribe\<close> starts) and a confirmation frame
  (a \<open>resubscribe\<close> run waiting for it goes on).
\<close>

definition maySend :: "event \<Rightarrow> bool" where
  "maySend e =
     (isSubscriptionCall e \<or>
      (case e of
         OnOpen k \<Rightarrow> True
       | OnMessage k (ConfirmationFrame c) \<Rightarrow> True
       | _ \<Rightarrow> False))"

text \<open>
  A connect call that is still waiting has a pending promise, and a socket exists only
  once its connect call has stopped waiting.
\<close>

definition connectsPending :: "RealtimeResource \<Rightarrow> bool" where
  "connectsPending s =
     ((\<forall>c a. connects s c = Some a \<longrightarrow> connectPromises s c = Some Pending \<and> c < nextId s) \<and>
      (\<forall>k info. sockets s k = Some info \<longrightarrow>
          connects s (sockConnect info) = None \<and> sockConnect info < nextId s))"

text \<open>Operations that leave the connect calls, their promises and the sockets alone.\<close>

definition aside :: "RealtimeResource \<Rightarrow> RealtimeResource \<Rightarrow> bool" where
  "aside s s' =
     (connects s' = connects s \<and> connectPromises s' = connectPromises s \<and>
      sockets s' = sockets s \<and> nextId s \<le> nextId s')"

section \<open>Properties\<close>

subsection \<open>What the small operations leave alone\<close>

lemma setState_frame [simp]:
  "state (setState st s) = st"
  "ws (setState st s) = ws s"
  "nextId (setState st s) = nextId s"
  "timers (setState st s) = timers s"
  "sockets (setState st s) = sockets s"
  "opened (setState st s) = opened s"
  "connects (setState st s) = connects s"
  "connectPromises (setState st s) = connectPromises s"
  "tokenFetches (setState st s) = tokenFetches s"
  "heartbeatInterval (setState st s) = heartbeatInterval s"
  "reconnectTimeout (setState st s) = reconnectTimeout s"
  "reconnectAttempts (setState st s) = reconnectAttempts s"
  "reconnectInterval (setState st s) = reconnectInterval s"
  "runtimeEnv (setState st s) = runtimeEnv s"
  by (simp_all add: setState_def)

lemma stopHeartbeat_frame [simp]:
  "state (stopHeartbeat s) = state s"
  "ws (stopHeartbeat s) = ws s"
  "stateLog (stopHeartbeat s) = stateLog s"
  "stateHandlers (stopHeartbeat s) = stateHandlers s"
  "reconnectTimeout (stopHeartbeat s) = reconnectTimeout s"
  "heartbeatInterval (stopHeartbeat s) = None"
  by (simp_all add: stopHeartbeat_def split: option.splits)

lemma clearReconnectTimeout_frame [simp]:
  "state (clearReconnectTimeout s) = state s"
  "ws (clearReconnectTimeout s) = ws s"
  "stateLog (clearReconnectTimeout s) = stateLog s"
  "stateHandlers (clearReconnectTimeout s) = stateHandlers s"
  "heartbeatInterval (clearReconnectTimeout s) = heartbeatInterval s"
  "reconnectTimeout (clearReconnectTimeout s) = None"
  by (simp_all add: clearReconnectTimeout_def split: option.splits)

subsection \<open>State-change notifications\<close>

lemma setState_same: "state s = st \<Longrightarrow> setState st s = s"
  by (simp add: setState_def)

lemma stateLog_setState:
  "stateLog (setState st s) =
     stateLog s @ (if state s = st then [] else map (\<lambda>h. (h, st)) (stateHandlers s))"
  by (simp add: setState_def)

lemma stateLog_disconnect_idle: "state s = Disconnected \<Longrightarrow> stateLog (disconnect s) = stateLog s"
  by (simp add: disconnect_def Let_def stateLog_setState split: option.splits)

text \<open>
  C10.  \<open>setState\<close> with the state the object is already in changes nothing and calls no
  state-change listener; in general it calls the listeners exactly when the state
  differs, once each.  So \<open>disconnect\<close> on an object that is already \<open>disconnected\<close>
  notifies nobody.
\<close>

theorem setState_same_state_silent:
  "(state s = st \<longrightarrow> setState st s = s) \<and>
   stateLog (setState st s) =
     stateLog s @ (if state s = st then [] else map (\<lambda>h. (h, st)) (stateHandlers s)) \<and>
   (state s = Disconnected \<longrightarrow> stateLog (disconnect s) = stateLog s)"
  using setState_same stateLog_setState stateLog_disconnect_idle by blast

theorem setState_same_state_silent_witness:
  "state (onStateChange 7 (createRealtimeResource Browser defaultConfig)) = Disconnected \<and>
   stateHandlers (onStateChange 7 (createRealtimeResource Browser defaultConfig)) = [7] \<and>
   setState Disconnected (onStateChange 7 (createRealtimeResource Browser defaultConfig)) =
     onStateChange 7 (createRealtimeResource Browser defaultConfig) \<and>
   stateLog (disconnect (onStateChange 7 (createRealtimeResource Browser defaultConfig))) = []"
  using setState_same_state_silent
    [of "onStateChange 7 (createRealtimeResource Browser defaultConfig)" Disconnected]
  by (simp add: onStateChange_def createRealtimeResource_def setAdd_def)

subsection \<open>Reconnect backoff\<close>

lemma scheduleReconnect_timer:
  "reconnectTimeout s = None \<Longrightarrow>
     reconnectAttempts (scheduleReconnect s) = reconnectAttempts s + 1 \<and>
     reconnectTimeout (scheduleReconnect s) = Some (nextId s) \<and>
     timers (scheduleReconnect s) (nextId s) =
       Some (min (reconnectInterval s * 2 ^ reconnectAttempts s) 30000, ReconnectTimer)"
  by (simp add: scheduleReconnect_def reconnectDelay_def MAX_RECONNECT_INTERVAL_def Let_def)

lemma backoff_table:
  "map (\<lambda>N. min ((1000::int) * 2 ^ (N - 1)) 30000) [1, 2, 3, 4, 5, 6, 7, 8, 9, 10::nat] =
     [1000, 2000, 4000, 8000, 16000, 30000, 30000, 30000, 30000, 30000]"
  by simp

text \<open>
  C3.  When \<open>scheduleReconnect\<close> arms a timer (none is outstanding), with base interval
  \<open>b\<close> and \<open>N\<close> the counter after its increment, then \<open>N \<ge> 1\<close> and the timer's delay is
  \<open>min (b * 2 ^ (N - 1)) 30000\<close>.  For \<open>b = 1000\<close> and \<open>N = 1..10\<close> the delays are
  1000, 2000, 4000, 8000, 16000 and then 30000 five times.
\<close>

theorem scheduleReconnect_backoff:
  "(reconnectTimeout s = None \<and> reconnectInterval s = b \<and>
    reconnectAttempts (scheduleReconnect s) = N \<longrightarrow>
      N = reconnectAttempts s + 1 \<and> 1 \<le> N \<and>
      reconnectTimeout (scheduleReconnect s) = Some (nextId s) \<and>
      timers (scheduleReconnect s) (nextId s) = Some (min (b * 2 ^ (N - 1)) 30000, ReconnectTimer)) \<and>
   map (\<lambda>N. reconnectDelay 1000 N) [1, 2, 3, 4, 5, 6, 7, 8, 9, 10] =
     [1000, 2000, 4000, 8000, 16000, 30000, 30000, 30000, 30000, 30000]"
proof -
  have "reconnectDelay 1000 = (\<lambda>N. min ((1000::int) * 2 ^ (N - 1)) 30000)"
    by (simp add: reconnectDelay_def MAX_RECONNECT_INTERVAL_def fun_eq_iff)
  then show ?thesis
    using scheduleReconnect_timer [of s] backoff_table by auto
qed

theorem scheduleReconnect_backoff_witness:
  "reconnectTimeout (createRealtimeResource Browser defaultConfig\<lparr>reconnectAttempts := 5\<rparr>) = None \<and>
   reconnectInterval (createRealtimeResource Browser defaultConfig\<lparr>reconnectAttempts := 5\<rparr>) = 1000 \<and>
   reconnectAttempts
     (scheduleReconnect (createRealtimeResource Browser defaultConfig\<lparr>reconnectAttempts := 5\<rparr>)) = 6 \<and>
   timers (scheduleReconnect (createRealtimeResource Browser defaultConfig\<lparr>reconnectAttempts := 5\<rparr>)) 0
     = Some (30000, ReconnectTimer)"
  using scheduleReconnect_backoff
    [of "createRealtimeResource Browser defaultConfig\<lparr>reconnectAttempts := 5\<rparr>" 1000 6]
  by (simp add: createRealtimeResource_def defaultConfig_def orDefault_def
      DEFAULT_RECONNECT_INTERVAL_def scheduleReconnect_def setState_def Let_def)

subsection \<open>connect\<close>

text \<open>
  C6.  \<open>connect\<close> on an object that is \<open>connected\<close> or \<open>connecting\<close> returns at once and
  leaves the whole state as it was: no token is fetched, no socket is made.  So of two
  calls in a row on an object that was neither, the second does nothing, one token is
  fetched, and once the token and the implementation are there exactly one socket has
  been constructed.
\<close>

theorem connect_idempotent:
  "(state s = Connected \<or> state s = Connecting \<longrightarrow> connect s = (None, s)) \<and>
   (state s \<noteq> Connected \<and> state s \<noteq> Connecting \<and> getWebSocket (runtimeEnv s) = Inr ping \<longrightarrow>
      fst (connect s) = Some (nextId s) \<and>
      connect (snd (connect s)) = (None, snd (connect s)) \<and>
      tokenFetches (run [Connect, Connect] s) = tokenFetches s + 1 \<and>
      tokenFetches
        (run [Connect, Connect, TokenFetched (nextId s) (Inr token),
              WebSocketReady (nextId s) None] s)
        = tokenFetches s + 1 \<and>
      opened
        (run [Connect, Connect, TokenFetched (nextId s) (Inr token),
              WebSocketReady (nextId s) None] s)
        = opened s @ [nextId s + 1])"
  by (simp add: connect_def step_def Let_def tokenFetched_def webSocketReady_def)

theorem connect_idempotent_witness:
  "state (createRealtimeResource (Node True) defaultConfig) = Disconnected \<and>
   getWebSocket (runtimeEnv (createRealtimeResource (Node True) defaultConfig)) = Inr True \<and>
   connect (snd (connect (createRealtimeResource (Node True) defaultConfig))) =
     (None, snd (connect (createRealtimeResource (Node True) defaultConfig))) \<and>
   state (snd (connect (createRealtimeResource (Node True) defaultConfig))) = Connecting \<and>
   tokenFetches
     (run [Connect, Connect, TokenFetched 0 (Inr ''tok''), WebSocketReady 0 None]
        (createRealtimeResource (Node True) defaultConfig)) = 1 \<and>
   opened
     (run [Connect, Connect, TokenFetched 0 (Inr ''tok''), WebSocketReady 0 None]
        (createRealtimeResource (Node True) defaultConfig)) = [1]"
  using connect_idempotent [of "createRealtimeResource (Node True) defaultConfig" True "''tok''"]
    connect_idempotent [of "snd (connect (createRealtimeResource (Node True) defaultConfig))"]
  by (simp add: createRealtimeResource_def getWebSocket_def isBrowser_def connect_def Let_def)

subsection \<open>connect failing before the socket exists\<close>

lemma rejectConnect_frame [simp]:
  "state (rejectConnect c e s) = state s"
  "ws (rejectConnect c e s) = ws s"
  "nextId (rejectConnect c e s) = nextId s"
  "timers (rejectConnect c e s) = timers s"
  "sockets (rejectConnect c e s) = sockets s"
  "opened (rejectConnect c e s) = opened s"
  "connects (rejectConnect c e s) = connects s"
  "heartbeatInterval (rejectConnect c e s) = heartbeatInterval s"
  "reconnectTimeout (rejectConnect c e s) = reconnectTimeout s"
  "reconnectAttempts (rejectConnect c e s) = reconnectAttempts s"
  "stateLog (rejectConnect c e s) = stateLog s"
  "stateHandlers (rejectConnect c e s) = stateHandlers s"
  "autoReconnect (rejectConnect c e s) = autoReconnect s"
  by (simp_all add: rejectConnect_def split: option.splits promise.splits)

lemma rejectConnect_pending:
  "connectPromises s c = Some Pending \<Longrightarrow> connectPromises (rejectConnect c e s) c = Some (Rejected e)"
  by (simp add: rejectConnect_def)

lemma connectCatch_effect:
  "connectPromises s c = Some Pending \<Longrightarrow>
     connectPromises (connectCatch c e s) c = Some (Rejected e) \<and>
     state (connectCatch c e s) = Disconnected \<and>
     ws (connectCatch c e s) = ws s \<and>
     sockets (connectCatch c e s) = sockets s \<and>
     opened (connectCatch c e s) = opened s \<and>
     heartbeatInterval (connectCatch c e s) = heartbeatInterval s \<and>
     reconnectTimeout (connectCatch c e s) = reconnectTimeout s \<and>
     reconnectAttempts (connectCatch c e s) = reconnectAttempts s \<and>
     timers (connectCatch c e s) = timers s"
  by (simp add: connectCatch_def rejectConnect_pending)

lemma connect_starts:
  "state s \<noteq> Connected \<Longrightarrow> state s \<noteq> Connecting \<Longrightarrow>
     fst (connect s) = Some (nextId s) \<and>
     connects (snd (connect s)) (nextId s) = Some AwaitToken \<and>
     connectPromises (snd (connect s)) (nextId s) = Some Pending"
  by (simp add: connect_def Let_def)

lemma tokenFetched_token:
  "connects s c = Some AwaitToken \<Longrightarrow>
     connects (tokenFetched c (Inr token) s) c = Some (AwaitWebSocket token) \<and>
     connectPromises (tokenFetched c (Inr token) s) = connectPromises s \<and>
     runtimeEnv (tokenFetched c (Inr token) s) = runtimeEnv s"
  by (simp add: tokenFetched_def)

lemma tokenFetched_throws:
  assumes "connects s c = Some AwaitToken" "connectPromises s c = Some Pending"
  shows "connectPromises (tokenFetched c (Inl e) s) c = Some (Rejected e) \<and>
     state (tokenFetched c (Inl e) s) = Disconnected \<and>
     ws (tokenFetched c (Inl e) s) = ws s \<and>
     sockets (tokenFetched c (Inl e) s) = sockets s \<and>
     opened (tokenFetched c (Inl e) s) = opened s \<and>
     heartbeatInterval (tokenFetched c (Inl e) s) = heartbeatInterval s \<and>
     reconnectTimeout (tokenFetched c (Inl e) s) = reconnectTimeout s \<and>
     reconnectAttempts (tokenFetched c (Inl e) s) = reconnectAttempts s \<and>
     timers (tokenFetched c (Inl e) s) = timers s"
proof -
  let ?s0 = "s\<lparr>connects := (connects s)(c := None)\<rparr>"
  have "tokenFetched c (Inl e) s = connectCatch c e ?s0"
    using assms by (simp add: tokenFetched_def)
  moreover have "connectPromises ?s0 c = Some Pending"
    using assms by simp
  ultimately show ?thesis
    using connectCatch_effect [of ?s0 c e] by simp
qed

lemma webSocketReady_throws:
  assumes "connects s c = Some (AwaitWebSocket token)" "connectPromises s c = Some Pending"
    and "getWebSocket (runtimeEnv s) = Inl e"
  shows "connectPromises (webSocketReady c ctor s) c = Some (Rejected e) \<and>
     state (webSocketReady c ctor s) = Disconnected \<and>
     ws (webSocketReady c ctor s) = ws s \<and>
     sockets (webSocketReady c ctor s) = sockets s \<and>
     opened (webSocketReady c ctor s) = opened s \<and>
     heartbeatInterval (webSocketReady c ctor s) = heartbeatInterval s \<and>
     reconnectTimeout (webSocketReady c ctor s) = reconnectTimeout s \<and>
     reconnectAttempts (webSocketReady c ctor s) = reconnectAttempts s \<and>
     timers (webSocketReady c ctor s) = timers s"
proof -
  let ?s0 = "s\<lparr>connects := (connects s)(c := None)\<rparr>"
  have "webSocketReady c ctor s = connectCatch c e ?s0"
    using assms by (simp add: webSocketReady_def)
  moreover have "connectPromises ?s0 c = Some Pending"
    using assms by simp
  ultimately show ?thesis
    using connectCatch_effect [of ?s0 c e] by simp
qed

subsection \<open>Sending, timing out and dropping: single steps\<close>

lemma emitError_frame [simp]:
  "state (emitError m s) = state s"
  "ws (emitError m s) = ws s"
  "nextId (emitError m s) = nextId s"
  "timers (emitError m s) = timers s"
  "subPromises (emitError m s) = subPromises s"
  "pendingSubscriptions (emitError m s) = pendingSubscriptions s"
  "awaiters (emitError m s) = awaiters s"
  "sent (emitError m s) = sent s"
  "closeCalls (emitError m s) = closeCalls s"
  "subscribedToAll (emitError m s) = subscribedToAll s"
  "channels (emitError m s) = channels s"
  "eventTypes (emitError m s) = eventTypes s"
  "errorHandlers (emitError m s) = errorHandlers s"
  "errorLog (emitError m s) = errorLog s @ map (\<lambda>h. (h, m)) (errorHandlers s)"
  by (simp_all add: emitError_def)

lemma rejectSubscription_frame [simp]:
  "state (rejectSubscription p e s) = state s"
  "ws (rejectSubscription p e s) = ws s"
  "nextId (rejectSubscription p e s) = nextId s"
  "timers (rejectSubscription p e s) = timers s"
  "pendingSubscriptions (rejectSubscription p e s) = pendingSubscriptions s"
  "sent (rejectSubscription p e s) = sent s"
  "closeCalls (rejectSubscription p e s) = closeCalls s"
  "subscribedToAll (rejectSubscription p e s) = subscribedToAll s"
  "channels (rejectSubscription p e s) = channels s"
  "eventTypes (rejectSubscription p e s) = eventTypes s"
  "errorHandlers (rejectSubscription p e s) = errorHandlers s"
  by (simp_all add: rejectSubscription_def Let_def split: option.splits promise.splits)

lemma rejectSubscription_pending:
  "subPromises s p = Some Pending \<Longrightarrow>
     subPromises (rejectSubscription p e s) = (subPromises s)(p \<mapsto> Rejected e)"
  by (simp add: rejectSubscription_def Let_def split: option.splits)

lemma sendSubscription_connected:
  assumes "ws s = Some k" "state s = Connected" "readyState s k \<noteq> Some CONNECTING"
  shows "fst (sendSubscription command s) = nextId s + 1"
    and "timers (snd (sendSubscription command s)) =
           (timers s)(nextId s \<mapsto> (10000, SubscriptionTimeout (commandKey command) (nextId s + 1)))"
    and "pendingSubscriptions (snd (sendSubscription command s)) =
           (pendingSubscriptions s)(commandKey command \<mapsto> (nextId s, nextId s + 1))"
    and "subPromises (snd (sendSubscription command s)) = (subPromises s)(nextId s + 1 \<mapsto> Pending)"
    and "sent (snd (sendSubscription command s)) = sent s @ [(k, command)]"
    and "nextId (snd (sendSubscription command s)) = nextId s + 2"
    and "ws (snd (sendSubscription command s)) = ws s"
    and "state (snd (sendSubscription command s)) = state s"
    and "readyState (snd (sendSubscription command s)) = readyState s"
  using assms by (simp_all add: sendSubscription_def Let_def SUBSCRIPTION_TIMEOUT_def)

lemma fireTimer_subscription:
  assumes "timers s t = Some (d, SubscriptionTimeout key p)" "subPromises s p = Some Pending"
  shows "subPromises (fireTimer t s) = (subPromises s)(p \<mapsto> Rejected ''Subscription timeout'')"
    and "pendingSubscriptions (fireTimer t s) = (pendingSubscriptions s)(key := None)"
    and "timers (fireTimer t s) = (timers s)(t := None)"
  using assms by (simp_all add: fireTimer_def rejectSubscription_pending)

lemma handleMessage_unmatched:
  "pendingSubscriptions s (getSubscriptionKey (action c) (subscriptionType c)) = None \<Longrightarrow>
     handleMessage (ConfirmationFrame c) s = s"
  by (simp add: handleMessage_def)

text \<open>Everything needed to run a concrete sequence of events.\<close>

lemmas run_defs =
  step_def connect_def tokenFetched_def webSocketReady_def onopen_def onclose_def onerror_def
  onmessage_def disconnect_def fireTimer_def handleMessage_def
  setState_def emitError_def emitEvent_def stopHeartbeat_def startHeartbeat_def
  SEND_WHILE_CONNECTING_def
  clearReconnectTimeout_def shouldReconnect_def scheduleReconnect_def reconnectDelay_def
  sendSubscription_def subscribeAll_def unsubscribeAll_def subscribeChannels_def
  unsubscribeChannels_def subscribeEventTypes_def unsubscribeEventTypes_def
  resubscribe_def resubscribeChannels_def resubscribeEventTypes_def awaitResubscribe_def
  resumeResubscribe_def resolveSubscription_def rejectSubscription_def resolveConnect_def
  rejectConnect_def connectCatch_def pendingResolve_def pendingReject_def
  getWebSocket_def isBrowser_def commandKey_def getSubscriptionKey_def commandTypeText_def
  subscriptionTypeText_def setAdd_def setDelete_def orElse_def orDefault_def resubscribeError_def
  createRealtimeResource_def defaultConfig_def
  DEFAULT_REALTIME_URL_def DEFAULT_RECONNECT_INTERVAL_def MAX_RECONNECT_INTERVAL_def
  DEFAULT_MAX_RECONNECT_ATTEMPTS_def DEFAULT_HEARTBEAT_INTERVAL_def SUBSCRIPTION_TIMEOUT_def
  Let_def

subsection \<open>The timer of an overwritten entry\<close>

text \<open>
  C8.  Two commands with the same key sent one after the other on a connected object
  whose socket is past \<open>CONNECTING\<close>, so that \<open>send\<close> returns and the first command
  is pending when the second is sent: the second entry replaces the first under the key, and the first command's timer stays
  armed.  When that timer fires it removes the entry now stored under the key, which is
  the second command's, and rejects the first promise; the second promise is still
  pending.  A confirmation for the key that arrives then is dropped (the state does not
  change), and the second command's own timer later rejects the second promise with
  \<open>Subscription timeout\<close> as well.
\<close>

theorem stale_timer_removes_later_entry:
  "ws s = Some k \<and> state s = Connected \<and> readyState s k \<noteq> Some CONNECTING \<and>
   commandKey c1 = commandKey c2 \<and>
   getSubscriptionKey (action conf) (subscriptionType conf) = commandKey c2 \<longrightarrow>
     pendingSubscriptions (snd (sendSubscription c1 s)) (commandKey c1) =
       Some (nextId s, nextId s + 1) \<and>
     pendingSubscriptions (snd (sendSubscription c2 (snd (sendSubscription c1 s)))) (commandKey c1) =
       Some (nextId s + 2, nextId s + 3) \<and>
     timers (snd (sendSubscription c2 (snd (sendSubscription c1 s)))) (nextId s) =
       Some (10000, SubscriptionTimeout (commandKey c1) (nextId s + 1)) \<and>
     pendingSubscriptions
       (fireTimer (nextId s) (snd (sendSubscription c2 (snd (sendSubscription c1 s)))))
       (commandKey c2) = None \<and>
     subPromises
       (fireTimer (nextId s) (snd (sendSubscription c2 (snd (sendSubscription c1 s)))))
       (nextId s + 1) = Some (Rejected ''Subscription timeout'') \<and>
     subPromises
       (fireTimer (nextId s) (snd (sendSubscription c2 (snd (sendSubscription c1 s)))))
       (nextId s + 3) = Some Pending \<and>
     handleMessage (ConfirmationFrame conf)
       (fireTimer (nextId s) (snd (sendSubscription c2 (snd (sendSubscription c1 s))))) =
       fireTimer (nextId s) (snd (sendSubscription c2 (snd (sendSubscription c1 s)))) \<and>
     subPromises
       (fireTimer (nextId s + 2)
         (handleMessage (ConfirmationFrame conf)
           (fireTimer (nextId s) (snd (sendSubscription c2 (snd (sendSubscription c1 s)))))))
       (nextId s + 3) = Some (Rejected ''Subscription timeout'')"
proof (intro impI, elim conjE)
  assume conn: "ws s = Some k" "state s = Connected" "readyState s k \<noteq> Some CONNECTING"
    and same: "commandKey c1 = commandKey c2"
    and conf: "getSubscriptionKey (action conf) (subscriptionType conf) = commandKey c2"
  let ?n = "nextId s"
  let ?s1 = "snd (sendSubscription c1 s)"
  let ?s2 = "snd (sendSubscription c2 ?s1)"
  let ?s3 = "fireTimer ?n ?s2"
  note one = sendSubscription_connected [OF conn, of c1]
  have conn1: "ws ?s1 = Some k" "state ?s1 = Connected" "readyState ?s1 k \<noteq> Some CONNECTING"
    using one conn by simp_all
  note two = sendSubscription_connected [OF conn1, of c2]
  have t1: "timers ?s2 ?n = Some (10000, SubscriptionTimeout (commandKey c1) (?n + 1))"
    using one two by simp
  have p1: "subPromises ?s2 (?n + 1) = Some Pending"
    using one two by simp
  note fire1 = fireTimer_subscription [OF t1 p1]
  have e3: "pendingSubscriptions ?s3 (commandKey c2) = None"
    using fire1 same by simp
  have t2: "timers ?s3 (?n + 2) = Some (10000, SubscriptionTimeout (commandKey c2) (?n + 3))"
    using fire1 one two by simp
  have p2: "subPromises ?s3 (?n + 3) = Some Pending"
    using fire1 one two by simp
  have drop: "handleMessage (ConfirmationFrame conf) ?s3 = ?s3"
    using e3 conf by (simp add: handleMessage_unmatched)
  note fire2 = fireTimer_subscription [OF t2 p2]
  show "pendingSubscriptions ?s1 (commandKey c1) = Some (?n, ?n + 1) \<and>
     pendingSubscriptions ?s2 (commandKey c1) = Some (?n + 2, ?n + 3) \<and>
     timers ?s2 ?n = Some (10000, SubscriptionTimeout (commandKey c1) (?n + 1)) \<and>
     pendingSubscriptions ?s3 (commandKey c2) = None \<and>
     subPromises ?s3 (?n + 1) = Some (Rejected ''Subscription timeout'') \<and>
     subPromises ?s3 (?n + 3) = Some Pending \<and>
     handleMessage (ConfirmationFrame conf) ?s3 = ?s3 \<and>
     subPromises (fireTimer (?n + 2) (handleMessage (ConfirmationFrame conf) ?s3)) (?n + 3) =
       Some (Rejected ''Subscription timeout'')"
    using one(3) two(3) one(6) same t1 e3 fire1(1) p2 drop fire2(1) by simp
qed

theorem stale_timer_removes_later_entry_witness:
  "commandKey \<lparr>cmdType = Subscribe, cmdSubscriptionType = Channel, cmdEventTypes = None,
          cmdChannels = Some [''a'']\<rparr> =
   commandKey \<lparr>cmdType = Subscribe, cmdSubscriptionType = Channel, cmdEventTypes = None,
          cmdChannels = Some [''b'']\<rparr> \<and>
   ws (run [Connect, TokenFetched 0 (Inr ''tok''), WebSocketReady 0 None, OnOpen 1]
         (createRealtimeResource (Node True) defaultConfig)) = Some 1 \<and>
   state (run [Connect, TokenFetched 0 (Inr ''tok''), WebSocketReady 0 None, OnOpen 1]
         (createRealtimeResource (Node True) defaultConfig)) = Connected \<and>
   readyState (run [Connect, TokenFetched 0 (Inr ''tok''), WebSocketReady 0 None, OnOpen 1]
         (createRealtimeResource (Node True) defaultConfig)) 1 = Some OPEN \<and>
   pendingSubscriptions
     (run [Connect, TokenFetched 0 (Inr ''tok''), WebSocketReady 0 None, OnOpen 1,
           SubscribeChannels [''a''], SubscribeChannels [''b'']]
        (createRealtimeResource (Node True) defaultConfig)) ''subscribe:channel'' = Some (5, 6) \<and>
   pendingSubscriptions
     (run [Connect, TokenFetched 0 (Inr ''tok''), WebSocketReady 0 None, OnOpen 1,
           SubscribeChannels [''a''], SubscribeChannels [''b''], FireTimer 3]
        (createRealtimeResource (Node True) defaultConfig)) ''subscribe:channel'' = None \<and>
   subPromises
     (run [Connect, TokenFetched 0 (Inr ''tok''), WebSocketReady 0 None, OnOpen 1,
           SubscribeChannels [''a''], SubscribeChannels [''b''], FireTimer 3,
           OnMessage 1 (ConfirmationFrame \<lparr>confError = False, action = ''subscribe'',
             subscriptionType = ''channel'', items = [''b''], error = None\<rparr>),
           FireTimer 5]
        (createRealtimeResource (Node True) defaultConfig)) 6 =
     Some (Rejected ''Subscription timeout'')"
  using stale_timer_removes_later_entry
    [of "run [Connect, TokenFetched 0 (Inr ''tok''), WebSocketReady 0 None, OnOpen 1]
           (createRealtimeResource (Node True) defaultConfig)" 1
        "\<lparr>cmdType = Subscribe, cmdSubscriptionType = Channel, cmdEventTypes = None,
          cmdChannels = Some [''a'']\<rparr>"
        "\<lparr>cmdType = Subscribe, cmdSubscriptionType = Channel, cmdEventTypes = None,
          cmdChannels = Some [''b'']\<rparr>"
        "\<lparr>confError = False, action = ''subscribe'',
             subscriptionType = ''channel'', items = [''b''], error = None\<rparr>"]
  by (simp add: run_defs)

subsection \<open>activeSubscriptions holds what was asked for\<close>

lemma fold_setAdd_known: "set xs \<subseteq> set ys \<Longrightarrow> fold setAdd xs ys = ys"
  by (induction xs arbitrary: ys) (simp_all add: setAdd_def)

lemma set_fold_setAdd: "set (fold setAdd xs ys) = set ys \<union> set xs"
  by (induction xs arbitrary: ys) (auto simp: setAdd_def)

lemma set_fold_setDelete: "set (fold setDelete xs ys) = set ys - set xs"
  by (induction xs arbitrary: ys) (auto simp: setDelete_def)

lemma distinct_fold_setAdd: "distinct ys \<Longrightarrow> distinct (fold setAdd xs ys)"
  by (induction xs arbitrary: ys) (simp_all add: setAdd_def)

lemma distinct_fold_setDelete: "distinct ys \<Longrightarrow> distinct (fold setDelete xs ys)"
  by (induction xs arbitrary: ys) (simp_all add: setDelete_def distinct_removeAll)

lemma active_sendSubscription [simp]:
  "activeSubscriptions (snd (sendSubscription c s)) = activeSubscriptions s"
  by (simp add: activeSubscriptions_def sendSubscription_def Let_def)

lemma active_emitError [simp]: "activeSubscriptions (emitError m s) = activeSubscriptions s"
  by (simp add: activeSubscriptions_def)

lemma active_update [simp]:
  "activeSubscriptions (s\<lparr>readyState := rs\<rparr>) = activeSubscriptions s"
  "activeSubscriptions (s\<lparr>url := x0\<rparr>) = activeSubscriptions s"
  "activeSubscriptions (s\<lparr>autoReconnect := x1\<rparr>) = activeSubscriptions s"
  "activeSubscriptions (s\<lparr>reconnectInterval := x2\<rparr>) = activeSubscriptions s"
  "activeSubscriptions (s\<lparr>maxReconnectAttempts := x3\<rparr>) = activeSubscriptions s"
  "activeSubscriptions (s\<lparr>heartbeatIntervalMs := x4\<rparr>) = activeSubscriptions s"
  "activeSubscriptions (s\<lparr>ws := x5\<rparr>) = activeSubscriptions s"
  "activeSubscriptions (s\<lparr>state := x6\<rparr>) = activeSubscriptions s"
  "activeSubscriptions (s\<lparr>reconnectAttempts := x7\<rparr>) = activeSubscriptions s"
  "activeSubscriptions (s\<lparr>reconnectTimeout := x8\<rparr>) = activeSubscriptions s"
  "activeSubscriptions (s\<lparr>heartbeatInterval := x9\<rparr>) = activeSubscriptions s"
  "activeSubscriptions (s\<lparr>eventHandlers := x10\<rparr>) = activeSubscriptions s"
  "activeSubscriptions (s\<lparr>stateHandlers := x11\<rparr>) = activeSubscriptions s"
  "activeSubscriptions (s\<lparr>errorHandlers := x12\<rparr>) = activeSubscriptions s"
  "activeSubscriptions (s\<lparr>pendingSubscriptions := x13\<rparr>) = activeSubscriptions s"
  "activeSubscriptions (s\<lparr>runtimeEnv := x14\<rparr>) = activeSubscriptions s"
  "activeSubscriptions (s\<lparr>nextId := x15\<rparr>) = activeSubscriptions s"
  "activeSubscriptions (s\<lparr>timers := x16\<rparr>) = activeSubscriptions s"
  "activeSubscriptions (s\<lparr>subPromises := x17\<rparr>) = activeSubscriptions s"
  "activeSubscriptions (s\<lparr>awaiters := x18\<rparr>) = activeSubscriptions s"
  "activeSubscriptions (s\<lparr>connectPromises := x19\<rparr>) = activeSubscriptions s"
  "activeSubscriptions (s\<lparr>connects := x20\<rparr>) = activeSubscriptions s"
  "activeSubscriptions (s\<lparr>sockets := x21\<rparr>) = activeSubscriptions s"
  "activeSubscriptions (s\<lparr>opened := x22\<rparr>) = activeSubscriptions s"
  "activeSubscriptions (s\<lparr>tokenFetches := x23\<rparr>) = activeSubscriptions s"
  "activeSubscriptions (s\<lparr>sent := x24\<rparr>) = activeSubscriptions s"
  "activeSubscriptions (s\<lparr>closeCalls := x25\<rparr>) = activeSubscriptions s"
  "activeSubscriptions (s\<lparr>pings := x26\<rparr>) = activeSubscriptions s"
  "activeSubscriptions (s\<lparr>stateLog := x27\<rparr>) = activeSubscriptions s"
  "activeSubscriptions (s\<lparr>errorLog := x28\<rparr>) = activeSubscriptions s"
  "activeSubscriptions (s\<lparr>eventLog := x29\<rparr>) = activeSubscriptions s"
  by (simp_all add: activeSubscriptions_def)

lemma active_awaitResubscribe:
  "(\<And>s'. activeSubscriptions (k s') = activeSubscriptions s') \<Longrightarrow>
     activeSubscriptions (awaitResubscribe a k r) = activeSubscriptions (snd r)"
  by (cases r) (simp add: awaitResubscribe_def split: option.splits promise.splits)

lemma active_resubscribeEventTypes [simp]:
  "activeSubscriptions (resubscribeEventTypes s) = activeSubscriptions s"
proof -
  have "activeSubscriptions (snd (subscribeEventTypes (eventTypes s) s)) = activeSubscriptions s"
    by (simp add: subscribeEventTypes_def fold_setAdd_known)
  then show ?thesis
    by (simp add: resubscribeEventTypes_def active_awaitResubscribe)
qed

lemma active_resubscribeChannels [simp]:
  "activeSubscriptions (resubscribeChannels s) = activeSubscriptions s"
proof -
  have "activeSubscriptions (snd (subscribeChannels (channels s) s)) = activeSubscriptions s"
    by (simp add: subscribeChannels_def fold_setAdd_known)
  then show ?thesis
    by (simp add: resubscribeChannels_def active_awaitResubscribe)
qed

lemma active_resubscribe [simp]:
  "subscribedToAll s \<Longrightarrow> activeSubscriptions (resubscribe s) = activeSubscriptions s"
  "\<not> subscribedToAll s \<Longrightarrow> activeSubscriptions (resubscribe s) = activeSubscriptions s"
proof -
  have "subscribedToAll s \<Longrightarrow> activeSubscriptions (snd (subscribeAll s)) = activeSubscriptions s"
    by (simp add: subscribeAll_def) (simp add: activeSubscriptions_def)
  then show "subscribedToAll s \<Longrightarrow> activeSubscriptions (resubscribe s) = activeSubscriptions s"
    by (simp add: resubscribe_def active_awaitResubscribe)
  show "\<not> subscribedToAll s \<Longrightarrow> activeSubscriptions (resubscribe s) = activeSubscriptions s"
    by (simp add: resubscribe_def)
qed

lemma active_resubscribe_any: "activeSubscriptions (resubscribe s) = activeSubscriptions s"
  by (cases "subscribedToAll s") simp_all

lemma active_resumeResubscribe [simp]:
  "activeSubscriptions (resumeResubscribe a s) = activeSubscriptions s"
  by (cases a) (simp_all add: resumeResubscribe_def)

lemma active_resolveSubscription [simp]:
  "activeSubscriptions (resolveSubscription p c s) = activeSubscriptions s"
  by (simp add: resolveSubscription_def Let_def split: option.splits promise.splits)

lemma active_rejectSubscription [simp]:
  "activeSubscriptions (rejectSubscription p e s) = activeSubscriptions s"
  by (simp add: activeSubscriptions_def)

lemma active_handleMessage [simp]:
  "activeSubscriptions (handleMessage f s) = activeSubscriptions s"
  by (simp add: handleMessage_def pendingResolve_def pendingReject_def Let_def emitEvent_def
      split: frame.splits option.splits prod.splits)

lemma active_setState [simp]: "activeSubscriptions (setState st s) = activeSubscriptions s"
  by (simp add: activeSubscriptions_def setState_def)

lemma active_connect [simp]: "activeSubscriptions (snd (connect s)) = activeSubscriptions s"
  by (simp add: connect_def Let_def)

lemma active_fireTimer [simp]: "activeSubscriptions (fireTimer t s) = activeSubscriptions s"
proof (cases "timers s t")
  case None
  then show ?thesis by (simp add: fireTimer_def)
next
  case (Some a)
  obtain d cb where a: "a = (d, cb)" by (cases a)
  show ?thesis
    using Some a
    by (cases cb) (simp_all add: fireTimer_def split: option.splits)
qed


lemma active_small [simp]:
  "activeSubscriptions (rejectConnect c e s) = activeSubscriptions s"
  "activeSubscriptions (resolveConnect c s) = activeSubscriptions s"
  "activeSubscriptions (stopHeartbeat s) = activeSubscriptions s"
  "activeSubscriptions (startHeartbeat s) = activeSubscriptions s"
  "activeSubscriptions (clearReconnectTimeout s) = activeSubscriptions s"
  "activeSubscriptions (scheduleReconnect s) = activeSubscriptions s"
  "activeSubscriptions (connectCatch c e s) = activeSubscriptions s"
  by (simp_all add: rejectConnect_def resolveConnect_def stopHeartbeat_def startHeartbeat_def
      clearReconnectTimeout_def scheduleReconnect_def connectCatch_def Let_def
      split: option.splits promise.splits)

lemma active_tokenFetched [simp]:
  "activeSubscriptions (tokenFetched c r s) = activeSubscriptions s"
  by (simp add: tokenFetched_def split: option.splits connect_await.splits sum.splits)

lemma active_webSocketReady [simp]:
  "activeSubscriptions (webSocketReady c ctor s) = activeSubscriptions s"
  by (simp add: webSocketReady_def Let_def split: option.splits connect_await.splits sum.splits)

lemma active_onopen [simp]: "activeSubscriptions (onopen k s) = activeSubscriptions s"
  by (simp add: onopen_def Let_def active_resubscribe_any split: option.splits)

lemma active_onclose [simp]: "activeSubscriptions (onclose k reason s) = activeSubscriptions s"
  by (simp add: onclose_def Let_def split: option.splits)

lemma active_onerror [simp]: "activeSubscriptions (onerror k message s) = activeSubscriptions s"
  by (simp add: onerror_def Let_def split: option.splits)

lemma active_onmessage [simp]: "activeSubscriptions (onmessage k data s) = activeSubscriptions s"
  by (simp add: onmessage_def split: option.splits)

lemma active_disconnect [simp]: "activeSubscriptions (disconnect s) = activeSubscriptions s"
  by (simp add: disconnect_def Let_def split: option.splits)

lemma active_step:
  "\<not> isSubscriptionCall e \<Longrightarrow> activeSubscriptions (step e s) = activeSubscriptions s"
  by (cases e) (simp_all add: step_def isSubscriptionCall_def)

lemma sendSubscription_not_connected:
  "ws s = None \<or> state s \<noteq> Connected \<Longrightarrow>
     subPromises (snd (sendSubscription c s)) (fst (sendSubscription c s)) =
       Some (Rejected ''Not connected'') \<and>
     sent (snd (sendSubscription c s)) = sent s"
  by (auto simp: sendSubscription_def Let_def)

lemma active_calls:
  "activeSubscriptions (snd (subscribeAll s)) = (True, channels s, eventTypes s)"
  "activeSubscriptions (snd (unsubscribeAll s)) = (False, channels s, eventTypes s)"
  "activeSubscriptions (snd (subscribeChannels ids s)) =
     (subscribedToAll s, fold setAdd ids (channels s), eventTypes s)"
  "activeSubscriptions (snd (unsubscribeChannels ids s)) =
     (subscribedToAll s, fold setDelete ids (channels s), eventTypes s)"
  "activeSubscriptions (snd (subscribeEventTypes ts s)) =
     (subscribedToAll s, channels s, fold setAdd ts (eventTypes s))"
  "activeSubscriptions (snd (unsubscribeEventTypes ts s)) =
     (subscribedToAll s, channels s, fold setDelete ts (eventTypes s))"
  by (simp_all add: subscribeAll_def unsubscribeAll_def subscribeChannels_def
      unsubscribeChannels_def subscribeEventTypes_def unsubscribeEventTypes_def)
    (simp_all add: activeSubscriptions_def)

lemma call_fields:
  "subscribedToAll (snd (subscribeAll s)) = True"
  "channels (snd (subscribeAll s)) = channels s"
  "eventTypes (snd (subscribeAll s)) = eventTypes s"
  "subscribedToAll (snd (unsubscribeAll s)) = False"
  "channels (snd (unsubscribeAll s)) = channels s"
  "eventTypes (snd (unsubscribeAll s)) = eventTypes s"
  "subscribedToAll (snd (subscribeChannels ids s)) = subscribedToAll s"
  "channels (snd (subscribeChannels ids s)) = fold setAdd ids (channels s)"
  "eventTypes (snd (subscribeChannels ids s)) = eventTypes s"
  "subscribedToAll (snd (unsubscribeChannels ids s)) = subscribedToAll s"
  "channels (snd (unsubscribeChannels ids s)) = fold setDelete ids (channels s)"
  "eventTypes (snd (unsubscribeChannels ids s)) = eventTypes s"
  "subscribedToAll (snd (subscribeEventTypes ts s)) = subscribedToAll s"
  "channels (snd (subscribeEventTypes ts s)) = channels s"
  "eventTypes (snd (subscribeEventTypes ts s)) = fold setAdd ts (eventTypes s)"
  "subscribedToAll (snd (unsubscribeEventTypes ts s)) = subscribedToAll s"
  "channels (snd (unsubscribeEventTypes ts s)) = channels s"
  "eventTypes (snd (unsubscribeEventTypes ts s)) = fold setDelete ts (eventTypes s)"
  using active_calls [where s = s] by (simp_all add: activeSubscriptions_def)

lemma calls_not_connected:
  assumes "ws s = None \<or> state s \<noteq> Connected"
  shows "subPromises (snd (subscribeAll s)) (fst (subscribeAll s)) = Some (Rejected ''Not connected'')"
    "subPromises (snd (unsubscribeAll s)) (fst (unsubscribeAll s)) = Some (Rejected ''Not connected'')"
    "subPromises (snd (subscribeChannels ids s)) (fst (subscribeChannels ids s)) =
       Some (Rejected ''Not connected'')"
    "subPromises (snd (unsubscribeChannels ids s)) (fst (unsubscribeChannels ids s)) =
       Some (Rejected ''Not connected'')"
    "subPromises (snd (subscribeEventTypes ts s)) (fst (subscribeEventTypes ts s)) =
       Some (Rejected ''Not connected'')"
    "subPromises (snd (unsubscribeEventTypes ts s)) (fst (unsubscribeEventTypes ts s)) =
       Some (Rejected ''Not connected'')"
    "sent (snd (subscribeAll s)) = sent s"
    "sent (snd (unsubscribeAll s)) = sent s"
    "sent (snd (subscribeChannels ids s)) = sent s"
    "sent (snd (unsubscribeChannels ids s)) = sent s"
    "sent (snd (subscribeEventTypes ts s)) = sent s"
    "sent (snd (unsubscribeEventTypes ts s)) = sent s"
  using assms
  by (simp_all add: subscribeAll_def unsubscribeAll_def subscribeChannels_def
      unsubscribeChannels_def subscribeEventTypes_def unsubscribeEventTypes_def
      sendSubscription_not_connected)


lemma fold_setAdd_option:
  "fold setAdd (if hasLength xs then the xs else []) ys = fold setAdd (orDefault xs []) ys"
  "fold setDelete (if hasLength xs then the xs else []) ys = fold setDelete (orDefault xs []) ys"
  by (cases xs; simp add: hasLength_def orDefault_def)+

lemma active_subscribe:
  "activeSubscriptions (snd (subscribe options s)) =
     (subscribedToAll s,
      fold setAdd (orDefault (optChannels options) []) (channels s),
      fold setAdd (orDefault (optEventTypes options) []) (eventTypes s))"
proof -
  have "activeSubscriptions (snd (subscribe options s)) =
     (subscribedToAll s,
      fold setAdd (if hasLength (optChannels options) then the (optChannels options) else [])
        (channels s),
      fold setAdd (if hasLength (optEventTypes options) then the (optEventTypes options) else [])
        (eventTypes s))"
    by (simp add: subscribe_def Let_def case_prod_unfold activeSubscriptions_def call_fields)
  then show ?thesis
    by (simp only: fold_setAdd_option)
qed

lemma active_unsubscribe:
  "activeSubscriptions (snd (unsubscribe options s)) =
     (subscribedToAll s,
      fold setDelete (orDefault (optChannels options) []) (channels s),
      fold setDelete (orDefault (optEventTypes options) []) (eventTypes s))"
proof -
  have "activeSubscriptions (snd (unsubscribe options s)) =
     (subscribedToAll s,
      fold setDelete (if hasLength (optChannels options) then the (optChannels options) else [])
        (channels s),
      fold setDelete (if hasLength (optEventTypes options) then the (optEventTypes options) else [])
        (eventTypes s))"
    by (simp add: unsubscribe_def Let_def case_prod_unfold activeSubscriptions_def call_fields)
  then show ?thesis
    by (simp only: fold_setAdd_option)
qed


text \<open>
  C7.  Each of the six operations leaves \<open>activeSubscriptions\<close> as requested: the flag
  set or cleared, the ids added to or removed from the set, the other parts unchanged;
  \<open>subscribe\<close> and \<open>unsubscribe\<close> do so for both sets.  This holds in every state:
  when the object is not connected the returned promise is rejected with
  \<open>Not connected\<close> and nothing is sent, and \<open>activeSubscriptions\<close> is as requested all
  the same.  Nothing else changes it afterwards: neither a confirmation frame (an error
  frame included), nor a timer firing, nor any event that is not itself a subscribe or
  unsubscribe call.
\<close>

theorem registry_is_desired_state:
  "activeSubscriptions (snd (subscribeAll s)) = (True, channels s, eventTypes s) \<and>
   activeSubscriptions (snd (unsubscribeAll s)) = (False, channels s, eventTypes s) \<and>
   subscribedToAll (snd (subscribeChannels ids s)) = subscribedToAll s \<and>
   set (channels (snd (subscribeChannels ids s))) = set (channels s) \<union> set ids \<and>
   eventTypes (snd (subscribeChannels ids s)) = eventTypes s \<and>
   subscribedToAll (snd (unsubscribeChannels ids s)) = subscribedToAll s \<and>
   set (channels (snd (unsubscribeChannels ids s))) = set (channels s) - set ids \<and>
   eventTypes (snd (unsubscribeChannels ids s)) = eventTypes s \<and>
   subscribedToAll (snd (subscribeEventTypes ts s)) = subscribedToAll s \<and>
   channels (snd (subscribeEventTypes ts s)) = channels s \<and>
   set (eventTypes (snd (subscribeEventTypes ts s))) = set (eventTypes s) \<union> set ts \<and>
   subscribedToAll (snd (unsubscribeEventTypes ts s)) = subscribedToAll s \<and>
   channels (snd (unsubscribeEventTypes ts s)) = channels s \<and>
   set (eventTypes (snd (unsubscribeEventTypes ts s))) = set (eventTypes s) - set ts \<and>
   subscribedToAll (snd (subscribe options s)) = subscribedToAll s \<and>
   set (channels (snd (subscribe options s))) =
     set (channels s) \<union> set (orDefault (optChannels options) []) \<and>
   set (eventTypes (snd (subscribe options s))) =
     set (eventTypes s) \<union> set (orDefault (optEventTypes options) []) \<and>
   subscribedToAll (snd (unsubscribe options s)) = subscribedToAll s \<and>
   set (channels (snd (unsubscribe options s))) =
     set (channels s) - set (orDefault (optChannels options) []) \<and>
   set (eventTypes (snd (unsubscribe options s))) =
     set (eventTypes s) - set (orDefault (optEventTypes options) []) \<and>
   (ws s = None \<or> state s \<noteq> Connected \<longrightarrow>
      subPromises (snd (subscribeAll s)) (fst (subscribeAll s)) = Some (Rejected ''Not connected'') \<and>
      subPromises (snd (unsubscribeAll s)) (fst (unsubscribeAll s)) =
        Some (Rejected ''Not connected'') \<and>
      subPromises (snd (subscribeChannels ids s)) (fst (subscribeChannels ids s)) =
        Some (Rejected ''Not connected'') \<and>
      subPromises (snd (unsubscribeChannels ids s)) (fst (unsubscribeChannels ids s)) =
        Some (Rejected ''Not connected'') \<and>
      subPromises (snd (subscribeEventTypes ts s)) (fst (subscribeEventTypes ts s)) =
        Some (Rejected ''Not connected'') \<and>
      subPromises (snd (unsubscribeEventTypes ts s)) (fst (unsubscribeEventTypes ts s)) =
        Some (Rejected ''Not connected'') \<and>
      sent (snd (subscribeAll s)) = sent s \<and>
      sent (snd (unsubscribeAll s)) = sent s \<and>
      sent (snd (subscribeChannels ids s)) = sent s \<and>
      sent (snd (unsubscribeChannels ids s)) = sent s \<and>
      sent (snd (subscribeEventTypes ts s)) = sent s \<and>
      sent (snd (unsubscribeEventTypes ts s)) = sent s) \<and>
   activeSubscriptions (handleMessage (ConfirmationFrame c) s') = activeSubscriptions s' \<and>
   activeSubscriptions (fireTimer t s') = activeSubscriptions s' \<and>
   (\<not> isSubscriptionCall e \<longrightarrow> activeSubscriptions (step e s') = activeSubscriptions s')"
proof -
  have sub: "subscribedToAll (snd (subscribe options s)) = subscribedToAll s"
    "channels (snd (subscribe options s)) =
       fold setAdd (orDefault (optChannels options) []) (channels s)"
    "eventTypes (snd (subscribe options s)) =
       fold setAdd (orDefault (optEventTypes options) []) (eventTypes s)"
    using active_subscribe [of options s] by (simp_all add: activeSubscriptions_def)
  have unsub: "subscribedToAll (snd (unsubscribe options s)) = subscribedToAll s"
    "channels (snd (unsubscribe options s)) =
       fold setDelete (orDefault (optChannels options) []) (channels s)"
    "eventTypes (snd (unsubscribe options s)) =
       fold setDelete (orDefault (optEventTypes options) []) (eventTypes s)"
    using active_unsubscribe [of options s] by (simp_all add: activeSubscriptions_def)
  show ?thesis
    using active_step [of e s']
    by (simp add: active_calls call_fields sub unsub set_fold_setAdd set_fold_setDelete
        calls_not_connected)
qed

theorem registry_is_desired_state_witness:
  "ws (createRealtimeResource Browser defaultConfig) = None \<and>
   channels (snd (subscribeChannels [''a'', ''b''] (createRealtimeResource Browser defaultConfig))) =
     [''a'', ''b''] \<and>
   subPromises (snd (subscribeChannels [''a'', ''b''] (createRealtimeResource Browser defaultConfig)))
     (fst (subscribeChannels [''a'', ''b''] (createRealtimeResource Browser defaultConfig))) =
     Some (Rejected ''Not connected'') \<and>
   sent (snd (subscribeChannels [''a'', ''b''] (createRealtimeResource Browser defaultConfig))) = [] \<and>
   \<not> isSubscriptionCall (FireTimer 3) \<and>
   activeSubscriptions
     (step (FireTimer 3)
        (snd (subscribeChannels [''a'', ''b''] (createRealtimeResource Browser defaultConfig)))) =
     (False, [''a'', ''b''], [])"
  using registry_is_desired_state
    [where s = "createRealtimeResource Browser defaultConfig" and ids = "[''a'', ''b'']"
       and s' = "snd (subscribeChannels [''a'', ''b''] (createRealtimeResource Browser defaultConfig))"
       and e = "FireTimer 3"]
  by (simp add: run_defs isSubscriptionCall_def activeSubscriptions_def)

subsection \<open>resubscribe after the socket opens\<close>

text \<open>
  On a connected object a send, and with it a step of \<open>resubscribe\<close>, is one record
  update; so is a confirmation frame that settles the promise a run is waiting for.
\<close>

lemma sendSubscription_connected_eq:
  "ws s = Some k \<Longrightarrow> state s = Connected \<Longrightarrow> readyState s k \<noteq> Some CONNECTING \<Longrightarrow>
     sendSubscription command s =
       (nextId s + 1,
        s\<lparr>timers := (timers s)(nextId s \<mapsto>
               (10000, SubscriptionTimeout (commandKey command) (nextId s + 1))),
          pendingSubscriptions := (pendingSubscriptions s)(commandKey command \<mapsto>
               (nextId s, nextId s + 1)),
          subPromises := (subPromises s)(nextId s + 1 \<mapsto> Pending),
          sent := sent s @ [(k, command)],
          nextId := nextId s + 2\<rparr>)"
  by (simp add: sendSubscription_def Let_def SUBSCRIPTION_TIMEOUT_def)

lemma awaitResubscribe_pending:
  "subPromises s p = Some Pending \<Longrightarrow>
     awaitResubscribe a k (p, s) = s\<lparr>awaiters := (awaiters s)(p \<mapsto> a)\<rparr>"
  by (simp add: awaitResubscribe_def)

lemma awaitResubscribe_rejected:
  "subPromises s p = Some (Rejected e) \<Longrightarrow>
     awaitResubscribe a k (p, s) = emitError (resubscribeError e) s"
  by (simp add: awaitResubscribe_def)

lemma channels_self [simp]: "s\<lparr>channels := channels s\<rparr> = s"
  by simp

lemma eventTypes_self [simp]: "s\<lparr>eventTypes := eventTypes s\<rparr> = s"
  by simp

lemma resubscribeEventTypes_connected:
  assumes "ws s = Some k" "state s = Connected" "eventTypes s \<noteq> []"
    and "readyState s k \<noteq> Some CONNECTING"
  shows "resubscribeEventTypes s =
     s\<lparr>timers := (timers s)(nextId s \<mapsto>
            (10000, SubscriptionTimeout ''subscribe:event_type'' (nextId s + 1))),
       pendingSubscriptions := (pendingSubscriptions s)(''subscribe:event_type'' \<mapsto>
            (nextId s, nextId s + 1)),
       subPromises := (subPromises s)(nextId s + 1 \<mapsto> Pending),
       sent := sent s @ [(k, \<lparr>cmdType = Subscribe, cmdSubscriptionType = EventType,
                              cmdEventTypes = Some (eventTypes s), cmdChannels = None\<rparr>)],
       nextId := nextId s + 2,
       awaiters := (awaiters s)(nextId s + 1 \<mapsto> AfterEventTypes)\<rparr>"
  using assms
  by (simp add: resubscribeEventTypes_def subscribeEventTypes_def fold_setAdd_known
      sendSubscription_connected_eq awaitResubscribe_pending
      commandKey_def getSubscriptionKey_def commandTypeText_def subscriptionTypeText_def)

lemma resubscribeChannels_connected:
  assumes "ws s = Some k" "state s = Connected" "channels s \<noteq> []"
    and "readyState s k \<noteq> Some CONNECTING"
  shows "resubscribeChannels s =
     s\<lparr>timers := (timers s)(nextId s \<mapsto>
            (10000, SubscriptionTimeout ''subscribe:channel'' (nextId s + 1))),
       pendingSubscriptions := (pendingSubscriptions s)(''subscribe:channel'' \<mapsto>
            (nextId s, nextId s + 1)),
       subPromises := (subPromises s)(nextId s + 1 \<mapsto> Pending),
       sent := sent s @ [(k, \<lparr>cmdType = Subscribe, cmdSubscriptionType = Channel,
                              cmdEventTypes = None, cmdChannels = Some (channels s)\<rparr>)],
       nextId := nextId s + 2,
       awaiters := (awaiters s)(nextId s + 1 \<mapsto> AfterChannels)\<rparr>"
  using assms
  by (simp add: resubscribeChannels_def subscribeChannels_def fold_setAdd_known
      sendSubscription_connected_eq awaitResubscribe_pending
      commandKey_def getSubscriptionKey_def commandTypeText_def subscriptionTypeText_def)

lemma resubscribe_all_connected:
  assumes "ws s = Some k" "state s = Connected" "subscribedToAll s"
    and "readyState s k \<noteq> Some CONNECTING"
  shows "resubscribe s =
     s\<lparr>timers := (timers s)(nextId s \<mapsto>
            (10000, SubscriptionTimeout ''subscribe:all'' (nextId s + 1))),
       pendingSubscriptions := (pendingSubscriptions s)(''subscribe:all'' \<mapsto>
            (nextId s, nextId s + 1)),
       subPromises := (subPromises s)(nextId s + 1 \<mapsto> Pending),
       sent := sent s @ [(k, \<lparr>cmdType = Subscribe, cmdSubscriptionType = All,
                              cmdEventTypes = None, cmdChannels = None\<rparr>)],
       nextId := nextId s + 2,
       awaiters := (awaiters s)(nextId s + 1 \<mapsto> AfterAll)\<rparr>"
proof -
  have "s\<lparr>subscribedToAll := True\<rparr> = s"
    using assms(3) by simp
  then show ?thesis
    using assms
    by (simp add: resubscribe_def subscribeAll_def
      sendSubscription_connected_eq awaitResubscribe_pending
      commandKey_def getSubscriptionKey_def commandTypeText_def subscriptionTypeText_def)
qed

lemma handleMessage_confirmed:
  assumes "pendingSubscriptions s (getSubscriptionKey (action c) (subscriptionType c)) = Some (t, p)"
    and "subPromises s p = Some Pending" "awaiters s p = Some a" "\<not> confError c"
  shows "handleMessage (ConfirmationFrame c) s =
     resumeResubscribe a
       (s\<lparr>pendingSubscriptions :=
            (pendingSubscriptions s)(getSubscriptionKey (action c) (subscriptionType c) := None),
          timers := (timers s)(t := None),
          subPromises := (subPromises s)(p \<mapsto> Fulfilled c),
          awaiters := (awaiters s)(p := None)\<rparr>)"
  using assms
  by (simp add: handleMessage_def pendingResolve_def resolveSubscription_def Let_def)

lemma handleMessage_rejected:
  assumes "pendingSubscriptions s (getSubscriptionKey (action c) (subscriptionType c)) = Some (t, p)"
    and "subPromises s p = Some Pending" "awaiters s p = Some a" "confError c"
  shows "handleMessage (ConfirmationFrame c) s =
     emitError (resubscribeError (orElse (error c) ''Subscription failed''))
       (s\<lparr>pendingSubscriptions :=
            (pendingSubscriptions s)(getSubscriptionKey (action c) (subscriptionType c) := None),
          timers := (timers s)(t := None),
          subPromises := (subPromises s)(p \<mapsto> Rejected (orElse (error c) ''Subscription failed'')),
          awaiters := (awaiters s)(p := None)\<rparr>)"
  using assms
  by (simp add: handleMessage_def pendingReject_def rejectSubscription_def Let_def)

lemma fireTimer_awaited:
  assumes "timers s t = Some (d, SubscriptionTimeout key p)"
    and "subPromises s p = Some Pending" "awaiters s p = Some a"
  shows "fireTimer t s =
     emitError (resubscribeError ''Subscription timeout'')
       (s\<lparr>timers := (timers s)(t := None),
          pendingSubscriptions := (pendingSubscriptions s)(key := None),
          subPromises := (subPromises s)(p \<mapsto> Rejected ''Subscription timeout''),
          awaiters := (awaiters s)(p := None)\<rparr>)"
  using assms
  by (simp add: fireTimer_def rejectSubscription_def Let_def)

lemma resolveConnect_frame [simp]:
  "url (resolveConnect c s) = url s"
  "autoReconnect (resolveConnect c s) = autoReconnect s"
  "reconnectInterval (resolveConnect c s) = reconnectInterval s"
  "maxReconnectAttempts (resolveConnect c s) = maxReconnectAttempts s"
  "heartbeatIntervalMs (resolveConnect c s) = heartbeatIntervalMs s"
  "ws (resolveConnect c s) = ws s"
  "state (resolveConnect c s) = state s"
  "reconnectAttempts (resolveConnect c s) = reconnectAttempts s"
  "reconnectTimeout (resolveConnect c s) = reconnectTimeout s"
  "heartbeatInterval (resolveConnect c s) = heartbeatInterval s"
  "eventHandlers (resolveConnect c s) = eventHandlers s"
  "stateHandlers (resolveConnect c s) = stateHandlers s"
  "errorHandlers (resolveConnect c s) = errorHandlers s"
  "eventTypes (resolveConnect c s) = eventTypes s"
  "channels (resolveConnect c s) = channels s"
  "subscribedToAll (resolveConnect c s) = subscribedToAll s"
  "pendingSubscriptions (resolveConnect c s) = pendingSubscriptions s"
  "runtimeEnv (resolveConnect c s) = runtimeEnv s"
  "nextId (resolveConnect c s) = nextId s"
  "timers (resolveConnect c s) = timers s"
  "subPromises (resolveConnect c s) = subPromises s"
  "awaiters (resolveConnect c s) = awaiters s"
  "connects (resolveConnect c s) = connects s"
  "sockets (resolveConnect c s) = sockets s"
  "opened (resolveConnect c s) = opened s"
  "tokenFetches (resolveConnect c s) = tokenFetches s"
  "sent (resolveConnect c s) = sent s"
  "closeCalls (resolveConnect c s) = closeCalls s"
  "pings (resolveConnect c s) = pings s"
  "stateLog (resolveConnect c s) = stateLog s"
  "errorLog (resolveConnect c s) = errorLog s"
  "eventLog (resolveConnect c s) = eventLog s"
  by (simp_all add: resolveConnect_def split: option.splits promise.splits)

lemma startHeartbeat_frame [simp]:
  "url (startHeartbeat s) = url s"
  "autoReconnect (startHeartbeat s) = autoReconnect s"
  "reconnectInterval (startHeartbeat s) = reconnectInterval s"
  "maxReconnectAttempts (startHeartbeat s) = maxReconnectAttempts s"
  "heartbeatIntervalMs (startHeartbeat s) = heartbeatIntervalMs s"
  "ws (startHeartbeat s) = ws s"
  "state (startHeartbeat s) = state s"
  "reconnectAttempts (startHeartbeat s) = reconnectAttempts s"
  "reconnectTimeout (startHeartbeat s) = reconnectTimeout s"
  "eventHandlers (startHeartbeat s) = eventHandlers s"
  "stateHandlers (startHeartbeat s) = stateHandlers s"
  "errorHandlers (startHeartbeat s) = errorHandlers s"
  "eventTypes (startHeartbeat s) = eventTypes s"
  "channels (startHeartbeat s) = channels s"
  "subscribedToAll (startHeartbeat s) = subscribedToAll s"
  "pendingSubscriptions (startHeartbeat s) = pendingSubscriptions s"
  "runtimeEnv (startHeartbeat s) = runtimeEnv s"
  "subPromises (startHeartbeat s) = subPromises s"
  "awaiters (startHeartbeat s) = awaiters s"
  "connectPromises (startHeartbeat s) = connectPromises s"
  "connects (startHeartbeat s) = connects s"
  "sockets (startHeartbeat s) = sockets s"
  "opened (startHeartbeat s) = opened s"
  "tokenFetches (startHeartbeat s) = tokenFetches s"
  "sent (startHeartbeat s) = sent s"
  "closeCalls (startHeartbeat s) = closeCalls s"
  "pings (startHeartbeat s) = pings s"
  "stateLog (startHeartbeat s) = stateLog s"
  "errorLog (startHeartbeat s) = errorLog s"
  "eventLog (startHeartbeat s) = eventLog s"
  by (simp_all add: startHeartbeat_def stopHeartbeat_def Let_def split: option.splits)


lemma setState_frame_more [simp]:
  "subscribedToAll (setState st s) = subscribedToAll s"
  "channels (setState st s) = channels s"
  "eventTypes (setState st s) = eventTypes s"
  "sent (setState st s) = sent s"
  "pendingSubscriptions (setState st s) = pendingSubscriptions s"
  "subPromises (setState st s) = subPromises s"
  "awaiters (setState st s) = awaiters s"
  "errorLog (setState st s) = errorLog s"
  "errorHandlers (setState st s) = errorHandlers s"
  "closeCalls (setState st s) = closeCalls s"
  "autoReconnect (setState st s) = autoReconnect s"
  by (simp_all add: setState_def)

lemma startHeartbeat_nextId [simp]: "nextId (startHeartbeat s) = nextId s + 1"
  by (simp add: startHeartbeat_def stopHeartbeat_def Let_def split: option.splits)

lemma readyState_frame [simp]:
  "readyState (setState st s) = readyState s"
  "readyState (startHeartbeat s) = readyState s"
  "readyState (stopHeartbeat s) = readyState s"
  "readyState (clearReconnectTimeout s) = readyState s"
  "readyState (emitError m s) = readyState s"
  "readyState (resolveConnect c s) = readyState s"
  "readyState (rejectConnect c e s) = readyState s"
  by (simp_all add: setState_def startHeartbeat_def stopHeartbeat_def clearReconnectTimeout_def
      emitError_def resolveConnect_def rejectConnect_def Let_def
      split: option.splits promise.splits)

lemma onopen_unfold:
  "sockets s k = Some info \<Longrightarrow>
     onopen k s =
       resolveConnect (sockConnect info)
         (resubscribe (startHeartbeat
            (setState Connected (s\<lparr>readyState := (readyState s)(k \<mapsto> OPEN)\<rparr>)
               \<lparr>reconnectAttempts := 0\<rparr>)))"
  by (simp add: onopen_def Let_def)


lemma resubscribe_at_open:
  assumes reg: "\<not> subscribedToAll s" "channels s = [''a'', ''b'']"
    and sock: "sockets s k = Some info" "ws s = Some k"
  shows "sent (onopen k s) =
           sent s @ [(k, \<lparr>cmdType = Subscribe, cmdSubscriptionType = Channel, cmdEventTypes = None,
                         cmdChannels = Some [''a'', ''b'']\<rparr>)]"
    and "pendingSubscriptions (onopen k s) ''subscribe:channel'' =
           Some (nextId s + 1, nextId s + 2)"
    and "subPromises (onopen k s) (nextId s + 2) = Some Pending"
    and "awaiters (onopen k s) (nextId s + 2) = Some AfterChannels"
    and "ws (onopen k s) = Some k"
    and "state (onopen k s) = Connected"
    and "readyState (onopen k s) k = Some OPEN"
    and "eventTypes (onopen k s) = eventTypes s"
    and "nextId (onopen k s) = nextId s + 3"
proof -
  let ?m = "startHeartbeat
      (setState Connected (s\<lparr>readyState := (readyState s)(k \<mapsto> OPEN)\<rparr>)
         \<lparr>reconnectAttempts := 0\<rparr>)"
  have n: "nextId ?m = nextId s + 1" by simp
  have m: "ws ?m = Some k" "state ?m = Connected" "channels ?m \<noteq> []"
    "readyState ?m k \<noteq> Some CONNECTING"
    using reg sock by simp_all
  have "\<not> subscribedToAll ?m" using reg by simp
  then have r: "resubscribe ?m = resubscribeChannels ?m"
    by (simp add: resubscribe_def)
  note r1 = resubscribeChannels_connected [OF m]
  have o: "onopen k s = resolveConnect (sockConnect info) (resubscribeChannels ?m)"
    using onopen_unfold [OF sock(1)] r by simp
  show "sent (onopen k s) =
           sent s @ [(k, \<lparr>cmdType = Subscribe, cmdSubscriptionType = Channel, cmdEventTypes = None,
                         cmdChannels = Some [''a'', ''b'']\<rparr>)]"
    and "pendingSubscriptions (onopen k s) ''subscribe:channel'' =
           Some (nextId s + 1, nextId s + 2)"
    and "subPromises (onopen k s) (nextId s + 2) = Some Pending"
    and "awaiters (onopen k s) (nextId s + 2) = Some AfterChannels"
    and "ws (onopen k s) = Some k"
    and "state (onopen k s) = Connected"
    and "readyState (onopen k s) k = Some OPEN"
    and "eventTypes (onopen k s) = eventTypes s"
    and "nextId (onopen k s) = nextId s + 3"
    unfolding o r1 using reg sock by (simp_all add: n)
qed

lemma resubscribe_after_channels:
  assumes e: "pendingSubscriptions r ''subscribe:channel'' = Some (t, p)"
    "subPromises r p = Some Pending" "awaiters r p = Some AfterChannels"
    and conn: "ws r = Some k" "state r = Connected" "readyState r k \<noteq> Some CONNECTING"
    and reg: "eventTypes r = [''x'']"
    and c: "\<not> confError c" "action c = ''subscribe''" "subscriptionType c = ''channel''"
  shows "sent (handleMessage (ConfirmationFrame c) r) =
           sent r @ [(k, \<lparr>cmdType = Subscribe, cmdSubscriptionType = EventType,
                           cmdEventTypes = Some [''x''], cmdChannels = None\<rparr>)]"
    and "pendingSubscriptions (handleMessage (ConfirmationFrame c) r) ''subscribe:event_type'' =
           Some (nextId r, nextId r + 1)"
    and "subPromises (handleMessage (ConfirmationFrame c) r) (nextId r + 1) = Some Pending"
    and "awaiters (handleMessage (ConfirmationFrame c) r) (nextId r + 1) = Some AfterEventTypes"
proof -
  have key: "getSubscriptionKey (action c) (subscriptionType c) = ''subscribe:channel''"
    using c by (simp add: getSubscriptionKey_def)
  let ?m = "r\<lparr>pendingSubscriptions := (pendingSubscriptions r)(''subscribe:channel'' := None),
          timers := (timers r)(t := None),
          subPromises := (subPromises r)(p \<mapsto> Fulfilled c),
          awaiters := (awaiters r)(p := None)\<rparr>"
  have h: "handleMessage (ConfirmationFrame c) r = resubscribeEventTypes ?m"
    using handleMessage_confirmed [of r c t p AfterChannels] e c(1) key
    by (simp add: resumeResubscribe_def)
  have m: "ws ?m = Some k" "state ?m = Connected" "eventTypes ?m \<noteq> []"
    "readyState ?m k \<noteq> Some CONNECTING"
    using conn reg by simp_all
  note r2 = resubscribeEventTypes_connected [OF m]
  show "sent (handleMessage (ConfirmationFrame c) r) =
           sent r @ [(k, \<lparr>cmdType = Subscribe, cmdSubscriptionType = EventType,
                           cmdEventTypes = Some [''x''], cmdChannels = None\<rparr>)]"
    and "pendingSubscriptions (handleMessage (ConfirmationFrame c) r) ''subscribe:event_type'' =
           Some (nextId r, nextId r + 1)"
    and "subPromises (handleMessage (ConfirmationFrame c) r) (nextId r + 1) = Some Pending"
    and "awaiters (handleMessage (ConfirmationFrame c) r) (nextId r + 1) = Some AfterEventTypes"
    unfolding h r2 using reg by simp_all
qed

lemma resubscribe_after_eventTypes:
  assumes e: "pendingSubscriptions r ''subscribe:event_type'' = Some (t, p)"
    "subPromises r p = Some Pending" "awaiters r p = Some AfterEventTypes"
    and c: "\<not> confError c" "action c = ''subscribe''" "subscriptionType c = ''event_type''"
  shows "sent (handleMessage (ConfirmationFrame c) r) = sent r"
    and "subPromises (handleMessage (ConfirmationFrame c) r) p = Some (Fulfilled c)"
    and "awaiters (handleMessage (ConfirmationFrame c) r) p = None"
proof -
  have key: "getSubscriptionKey (action c) (subscriptionType c) = ''subscribe:event_type''"
    using c by (simp add: getSubscriptionKey_def)
  have h: "handleMessage (ConfirmationFrame c) r =
      r\<lparr>pendingSubscriptions := (pendingSubscriptions r)(''subscribe:event_type'' := None),
          timers := (timers r)(t := None),
          subPromises := (subPromises r)(p \<mapsto> Fulfilled c),
          awaiters := (awaiters r)(p := None)\<rparr>"
    using handleMessage_confirmed [of r c t p AfterEventTypes] e c(1) key
    by (simp add: resumeResubscribe_def)
  show "sent (handleMessage (ConfirmationFrame c) r) = sent r"
    and "subPromises (handleMessage (ConfirmationFrame c) r) p = Some (Fulfilled c)"
    and "awaiters (handleMessage (ConfirmationFrame c) r) p = None"
    by (simp_all add: h)
qed

lemma resubscribe_both_confirmed:
  assumes reg: "\<not> subscribedToAll s" "channels s = [''a'', ''b'']" "eventTypes s = [''x'']"
    and sock: "sockets s k = Some info" "ws s = Some k"
    and c: "\<not> confError c" "action c = ''subscribe''" "subscriptionType c = ''channel''"
    and c': "\<not> confError c'" "action c' = ''subscribe''" "subscriptionType c' = ''event_type''"
  shows "sent (handleMessage (ConfirmationFrame c')
                 (handleMessage (ConfirmationFrame c) (onopen k s))) =
           sent s @ [(k, \<lparr>cmdType = Subscribe, cmdSubscriptionType = Channel, cmdEventTypes = None,
             cmdChannels = Some [''a'', ''b'']\<rparr>),
                     (k, \<lparr>cmdType = Subscribe, cmdSubscriptionType = EventType,
             cmdEventTypes = Some [''x''], cmdChannels = None\<rparr>)]"
    and "awaiters (handleMessage (ConfirmationFrame c')
                 (handleMessage (ConfirmationFrame c) (onopen k s))) (nextId s + 4) = None"
proof -
  let ?r = "onopen k s"
  let ?q = "handleMessage (ConfirmationFrame c) ?r"
  note o = resubscribe_at_open [OF reg(1,2) sock]
  have ne: "readyState ?r k \<noteq> Some CONNECTING" using o(7) by simp
  have et: "eventTypes ?r = [''x'']" using o(8) reg(3) by simp
  note m = resubscribe_after_channels [OF o(2,3,4,5,6) ne et c]
  have e: "pendingSubscriptions ?q ''subscribe:event_type'' = Some (nextId s + 3, nextId s + 4)"
    "subPromises ?q (nextId s + 4) = Some Pending"
    "awaiters ?q (nextId s + 4) = Some AfterEventTypes"
    using m(2,3,4) o(9) by (simp_all add: numeral_eq_Suc)
  note f = resubscribe_after_eventTypes [OF e c']
  show "sent (handleMessage (ConfirmationFrame c') ?q) =
           sent s @ [(k, \<lparr>cmdType = Subscribe, cmdSubscriptionType = Channel, cmdEventTypes = None,
             cmdChannels = Some [''a'', ''b'']\<rparr>),
                     (k, \<lparr>cmdType = Subscribe, cmdSubscriptionType = EventType,
             cmdEventTypes = Some [''x''], cmdChannels = None\<rparr>)]"
    using f(1) m(1) o(1) by simp
  show "awaiters (handleMessage (ConfirmationFrame c') ?q) (nextId s + 4) = None"
    by (rule f(3))
qed

text \<open>
  C1 (as amended).  Take a socket that \<open>connect\<close> constructed and that \<open>this.ws\<close> still
  holds, and let it open while \<open>subscribedToAll = false\<close>, the channels are
  \<open>{"a","b"}\<close> (inserted in this order) and the event types are \<open>{"x"}\<close>.  At the open
  the \<open>resubscribe\<close> run sends exactly one command, the \<open>channel\<close> command carrying
  \<open>["a","b"]\<close>, and waits for that command's promise.  If the confirmations of the
  \<open>channel\<close> and of the \<open>event_type\<close> command are the next two events, the run has sent
  exactly two commands, that one and then the \<open>event_type\<close> command carrying \<open>["x"]\<close>,
  no \<open>all\<close> command, and is over.

  The two later steps hold wherever they are taken.  A \<open>subscription_confirmed\<close> frame
  for \<open>subscribe\<close>/\<open>channel\<close> that finds the entry of the key with a pending promise
  and a run waiting for it after the channels, while the object is connected, the
  socket in \<open>this.ws\<close> is past \<open>CONNECTING\<close> and the event types are \<open>{"x"}\<close>, makes the
  run send exactly one command, the \<open>event_type\<close> command carrying \<open>["x"]\<close>, and wait
  for its promise.  A \<open>subscription_confirmed\<close> frame for \<open>subscribe\<close>/\<open>event_type\<close>
  that finds the entry of the key with a pending promise and a run waiting for it after
  the event types fulfils the promise and ends the run; nothing is sent.
\<close>

theorem resubscribe_channel_then_event_type:
  "(\<not> subscribedToAll s \<and> channels s = [''a'', ''b''] \<and> eventTypes s = [''x''] \<and>
    sockets s k = Some info \<and> ws s = Some k \<longrightarrow>
      sent (onopen k s) =
        sent s @ [(k, \<lparr>cmdType = Subscribe, cmdSubscriptionType = Channel, cmdEventTypes = None,
             cmdChannels = Some [''a'', ''b'']\<rparr>)] \<and>
      pendingSubscriptions (onopen k s) ''subscribe:channel'' = Some (nextId s + 1, nextId s + 2) \<and>
      subPromises (onopen k s) (nextId s + 2) = Some Pending \<and>
      awaiters (onopen k s) (nextId s + 2) = Some AfterChannels \<and>
      (\<not> confError c \<and> action c = ''subscribe'' \<and> subscriptionType c = ''channel'' \<and>
       \<not> confError c' \<and> action c' = ''subscribe'' \<and> subscriptionType c' = ''event_type'' \<longrightarrow>
         sent (handleMessage (ConfirmationFrame c')
                (handleMessage (ConfirmationFrame c) (onopen k s))) =
           sent s @ [(k, \<lparr>cmdType = Subscribe, cmdSubscriptionType = Channel, cmdEventTypes = None,
             cmdChannels = Some [''a'', ''b'']\<rparr>),
                     (k, \<lparr>cmdType = Subscribe, cmdSubscriptionType = EventType,
             cmdEventTypes = Some [''x''], cmdChannels = None\<rparr>)] \<and>
         awaiters (handleMessage (ConfirmationFrame c')
                (handleMessage (ConfirmationFrame c) (onopen k s))) (nextId s + 4) = None)) \<and>
   (pendingSubscriptions r ''subscribe:channel'' = Some (t, p) \<and>
    subPromises r p = Some Pending \<and> awaiters r p = Some AfterChannels \<and>
    ws r = Some j \<and> state r = Connected \<and> readyState r j \<noteq> Some CONNECTING \<and>
    eventTypes r = [''x''] \<and>
    \<not> confError d \<and> action d = ''subscribe'' \<and> subscriptionType d = ''channel'' \<longrightarrow>
      sent (handleMessage (ConfirmationFrame d) r) =
        sent r @ [(j, \<lparr>cmdType = Subscribe, cmdSubscriptionType = EventType,
             cmdEventTypes = Some [''x''], cmdChannels = None\<rparr>)] \<and>
      pendingSubscriptions (handleMessage (ConfirmationFrame d) r) ''subscribe:event_type'' =
        Some (nextId r, nextId r + 1) \<and>
      subPromises (handleMessage (ConfirmationFrame d) r) (nextId r + 1) = Some Pending \<and>
      awaiters (handleMessage (ConfirmationFrame d) r) (nextId r + 1) = Some AfterEventTypes) \<and>
   (pendingSubscriptions r' ''subscribe:event_type'' = Some (t', p') \<and>
    subPromises r' p' = Some Pending \<and> awaiters r' p' = Some AfterEventTypes \<and>
    \<not> confError d' \<and> action d' = ''subscribe'' \<and> subscriptionType d' = ''event_type'' \<longrightarrow>
      sent (handleMessage (ConfirmationFrame d') r') = sent r' \<and>
      subPromises (handleMessage (ConfirmationFrame d') r') p' = Some (Fulfilled d') \<and>
      awaiters (handleMessage (ConfirmationFrame d') r') p' = None)"
proof (intro conjI impI; elim conjE)
  assume "\<not> subscribedToAll s" "channels s = [''a'', ''b'']" "eventTypes s = [''x'']"
    "sockets s k = Some info" "ws s = Some k"
  note o = resubscribe_at_open [OF this(1,2,4,5)]
  show "sent (onopen k s) =
        sent s @ [(k, \<lparr>cmdType = Subscribe, cmdSubscriptionType = Channel, cmdEventTypes = None,
             cmdChannels = Some [''a'', ''b'']\<rparr>)]"
    by (rule o(1))
  show "pendingSubscriptions (onopen k s) ''subscribe:channel'' = Some (nextId s + 1, nextId s + 2)"
    by (rule o(2))
  show "subPromises (onopen k s) (nextId s + 2) = Some Pending" by (rule o(3))
  show "awaiters (onopen k s) (nextId s + 2) = Some AfterChannels" by (rule o(4))
next
  assume "\<not> subscribedToAll s" "channels s = [''a'', ''b'']" "eventTypes s = [''x'']"
    "sockets s k = Some info" "ws s = Some k"
    "\<not> confError c" "action c = ''subscribe''" "subscriptionType c = ''channel''"
    "\<not> confError c'" "action c' = ''subscribe''" "subscriptionType c' = ''event_type''"
  note b = resubscribe_both_confirmed [OF this]
  show "sent (handleMessage (ConfirmationFrame c')
                (handleMessage (ConfirmationFrame c) (onopen k s))) =
           sent s @ [(k, \<lparr>cmdType = Subscribe, cmdSubscriptionType = Channel, cmdEventTypes = None,
             cmdChannels = Some [''a'', ''b'']\<rparr>),
                     (k, \<lparr>cmdType = Subscribe, cmdSubscriptionType = EventType,
             cmdEventTypes = Some [''x''], cmdChannels = None\<rparr>)]"
    by (rule b(1))
  show "awaiters (handleMessage (ConfirmationFrame c')
                (handleMessage (ConfirmationFrame c) (onopen k s))) (nextId s + 4) = None"
    by (rule b(2))
next
  assume "pendingSubscriptions r ''subscribe:channel'' = Some (t, p)"
    "subPromises r p = Some Pending" "awaiters r p = Some AfterChannels"
    "ws r = Some j" "state r = Connected" "readyState r j \<noteq> Some CONNECTING"
    "eventTypes r = [''x'']"
    "\<not> confError d" "action d = ''subscribe''" "subscriptionType d = ''channel''"
  note m = resubscribe_after_channels [OF this]
  show "sent (handleMessage (ConfirmationFrame d) r) =
        sent r @ [(j, \<lparr>cmdType = Subscribe, cmdSubscriptionType = EventType,
             cmdEventTypes = Some [''x''], cmdChannels = None\<rparr>)]"
    by (rule m(1))
  show "pendingSubscriptions (handleMessage (ConfirmationFrame d) r) ''subscribe:event_type'' =
        Some (nextId r, nextId r + 1)"
    by (rule m(2))
  show "subPromises (handleMessage (ConfirmationFrame d) r) (nextId r + 1) = Some Pending"
    by (rule m(3))
  show "awaiters (handleMessage (ConfirmationFrame d) r) (nextId r + 1) = Some AfterEventTypes"
    by (rule m(4))
next
  assume "pendingSubscriptions r' ''subscribe:event_type'' = Some (t', p')"
    "subPromises r' p' = Some Pending" "awaiters r' p' = Some AfterEventTypes"
    "\<not> confError d'" "action d' = ''subscribe''" "subscriptionType d' = ''event_type''"
  note f = resubscribe_after_eventTypes [OF this]
  show "sent (handleMessage (ConfirmationFrame d') r') = sent r'" by (rule f(1))
  show "subPromises (handleMessage (ConfirmationFrame d') r') p' = Some (Fulfilled d')"
    by (rule f(2))
  show "awaiters (handleMessage (ConfirmationFrame d') r') p' = None" by (rule f(3))
qed


theorem resubscribe_channel_then_event_type_witness:
  "subscribedToAll (run [SubscribeChannels [''a'', ''b''], SubscribeEventTypes [''x''], Connect,
           TokenFetched 2 (Inr ''tok''), WebSocketReady 2 None]
        (createRealtimeResource (Node True) defaultConfig)) = False \<and>
   channels (run [SubscribeChannels [''a'', ''b''], SubscribeEventTypes [''x''], Connect,
           TokenFetched 2 (Inr ''tok''), WebSocketReady 2 None]
        (createRealtimeResource (Node True) defaultConfig)) = [''a'', ''b''] \<and>
   eventTypes (run [SubscribeChannels [''a'', ''b''], SubscribeEventTypes [''x''], Connect,
           TokenFetched 2 (Inr ''tok''), WebSocketReady 2 None]
        (createRealtimeResource (Node True) defaultConfig)) = [''x''] \<and>
   sockets (run [SubscribeChannels [''a'', ''b''], SubscribeEventTypes [''x''], Connect,
           TokenFetched 2 (Inr ''tok''), WebSocketReady 2 None]
        (createRealtimeResource (Node True) defaultConfig)) 3 =
     Some \<lparr>sockUrl = ''wss://wss.veroai.dev/ws'', sockToken = ''tok'', sockConnect = 2,
           sockPing = True\<rparr> \<and>
   ws (run [SubscribeChannels [''a'', ''b''], SubscribeEventTypes [''x''], Connect,
           TokenFetched 2 (Inr ''tok''), WebSocketReady 2 None]
        (createRealtimeResource (Node True) defaultConfig)) = Some 3 \<and>
   sent (run [SubscribeChannels [''a'', ''b''], SubscribeEventTypes [''x''], Connect,
           TokenFetched 2 (Inr ''tok''), WebSocketReady 2 None]
        (createRealtimeResource (Node True) defaultConfig)) = [] \<and>
   sent (run [SubscribeChannels [''a'', ''b''], SubscribeEventTypes [''x''], Connect,
           TokenFetched 2 (Inr ''tok''), WebSocketReady 2 None, OnOpen 3]
        (createRealtimeResource (Node True) defaultConfig)) =
     [(3, \<lparr>cmdType = Subscribe, cmdSubscriptionType = Channel, cmdEventTypes = None,
           cmdChannels = Some [''a'', ''b'']\<rparr>)] \<and>
   sent (run [SubscribeChannels [''a'', ''b''], SubscribeEventTypes [''x''], Connect,
           TokenFetched 2 (Inr ''tok''), WebSocketReady 2 None, OnOpen 3,
           OnMessage 3 (ConfirmationFrame \<lparr>confError = False, action = ''subscribe'',
             subscriptionType = ''channel'', items = [''a'', ''b''], error = None\<rparr>),
           OnMessage 3 (ConfirmationFrame \<lparr>confError = False, action = ''subscribe'',
             subscriptionType = ''event_type'', items = [''x''], error = None\<rparr>)]
        (createRealtimeResource (Node True) defaultConfig)) =
     [(3, \<lparr>cmdType = Subscribe, cmdSubscriptionType = Channel, cmdEventTypes = None,
           cmdChannels = Some [''a'', ''b'']\<rparr>),
      (3, \<lparr>cmdType = Subscribe, cmdSubscriptionType = EventType,
           cmdEventTypes = Some [''x''], cmdChannels = None\<rparr>)] \<and>
   pendingSubscriptions (run [SubscribeChannels [''a'', ''b''], SubscribeEventTypes [''x''],
         Connect,
           TokenFetched 2 (Inr ''tok''), WebSocketReady 2 None, OnOpen 3, FireTimer 4]
        (createRealtimeResource (Node True) defaultConfig)) ''subscribe:channel'' = Some (5, 6) \<and>
   subPromises (run [SubscribeChannels [''a'', ''b''], SubscribeEventTypes [''x''], Connect,
           TokenFetched 2 (Inr ''tok''), WebSocketReady 2 None, OnOpen 3, FireTimer 4]
        (createRealtimeResource (Node True) defaultConfig)) 6 = Some Pending \<and>
   awaiters (run [SubscribeChannels [''a'', ''b''], SubscribeEventTypes [''x''], Connect,
           TokenFetched 2 (Inr ''tok''), WebSocketReady 2 None, OnOpen 3, FireTimer 4]
        (createRealtimeResource (Node True) defaultConfig)) 6 = Some AfterChannels \<and>
   ws (run [SubscribeChannels [''a'', ''b''], SubscribeEventTypes [''x''], Connect,
           TokenFetched 2 (Inr ''tok''), WebSocketReady 2 None, OnOpen 3, FireTimer 4]
        (createRealtimeResource (Node True) defaultConfig)) = Some 3 \<and>
   state (run [SubscribeChannels [''a'', ''b''], SubscribeEventTypes [''x''], Connect,
           TokenFetched 2 (Inr ''tok''), WebSocketReady 2 None, OnOpen 3, FireTimer 4]
        (createRealtimeResource (Node True) defaultConfig)) = Connected \<and>
   readyState (run [SubscribeChannels [''a'', ''b''], SubscribeEventTypes [''x''], Connect,
           TokenFetched 2 (Inr ''tok''), WebSocketReady 2 None, OnOpen 3, FireTimer 4]
        (createRealtimeResource (Node True) defaultConfig)) 3 = Some OPEN \<and>
   eventTypes (run [SubscribeChannels [''a'', ''b''], SubscribeEventTypes [''x''], Connect,
           TokenFetched 2 (Inr ''tok''), WebSocketReady 2 None, OnOpen 3, FireTimer 4]
        (createRealtimeResource (Node True) defaultConfig)) = [''x''] \<and>
   sent (run [SubscribeChannels [''a'', ''b''], SubscribeEventTypes [''x''], Connect,
           TokenFetched 2 (Inr ''tok''), WebSocketReady 2 None, OnOpen 3, FireTimer 4,
           OnMessage 3 (ConfirmationFrame \<lparr>confError = False, action = ''subscribe'',
             subscriptionType = ''channel'', items = [''a'', ''b''], error = None\<rparr>)]
        (createRealtimeResource (Node True) defaultConfig)) =
     [(3, \<lparr>cmdType = Subscribe, cmdSubscriptionType = Channel, cmdEventTypes = None,
           cmdChannels = Some [''a'', ''b'']\<rparr>),
      (3, \<lparr>cmdType = Subscribe, cmdSubscriptionType = EventType,
           cmdEventTypes = Some [''x''], cmdChannels = None\<rparr>)] \<and>
   pendingSubscriptions (run [SubscribeChannels [''a'', ''b''], SubscribeEventTypes [''x''],
         Connect,
           TokenFetched 2 (Inr ''tok''), WebSocketReady 2 None, OnOpen 3, FireTimer 4,
           OnMessage 3 (ConfirmationFrame \<lparr>confError = False, action = ''subscribe'',
             subscriptionType = ''channel'', items = [''a'', ''b''], error = None\<rparr>)]
        (createRealtimeResource (Node True) defaultConfig)) ''subscribe:event_type'' = Some (7, 8) \<and>
   subPromises (run [SubscribeChannels [''a'', ''b''], SubscribeEventTypes [''x''], Connect,
           TokenFetched 2 (Inr ''tok''), WebSocketReady 2 None, OnOpen 3, FireTimer 4,
           OnMessage 3 (ConfirmationFrame \<lparr>confError = False, action = ''subscribe'',
             subscriptionType = ''channel'', items = [''a'', ''b''], error = None\<rparr>)]
        (createRealtimeResource (Node True) defaultConfig)) 8 = Some Pending \<and>
   awaiters (run [SubscribeChannels [''a'', ''b''], SubscribeEventTypes [''x''], Connect,
           TokenFetched 2 (Inr ''tok''), WebSocketReady 2 None, OnOpen 3, FireTimer 4,
           OnMessage 3 (ConfirmationFrame \<lparr>confError = False, action = ''subscribe'',
             subscriptionType = ''channel'', items = [''a'', ''b''], error = None\<rparr>)]
        (createRealtimeResource (Node True) defaultConfig)) 8 = Some AfterEventTypes \<and>
   sent (run [SubscribeChannels [''a'', ''b''], SubscribeEventTypes [''x''], Connect,
           TokenFetched 2 (Inr ''tok''), WebSocketReady 2 None, OnOpen 3, FireTimer 4,
           OnMessage 3 (ConfirmationFrame \<lparr>confError = False, action = ''subscribe'',
             subscriptionType = ''channel'', items = [''a'', ''b''], error = None\<rparr>),
           OnMessage 3 (ConfirmationFrame \<lparr>confError = False, action = ''subscribe'',
             subscriptionType = ''event_type'', items = [''x''], error = None\<rparr>)]
        (createRealtimeResource (Node True) defaultConfig)) =
     [(3, \<lparr>cmdType = Subscribe, cmdSubscriptionType = Channel, cmdEventTypes = None,
           cmdChannels = Some [''a'', ''b'']\<rparr>),
      (3, \<lparr>cmdType = Subscribe, cmdSubscriptionType = EventType,
           cmdEventTypes = Some [''x''], cmdChannels = None\<rparr>)] \<and>
   awaiters (run [SubscribeChannels [''a'', ''b''], SubscribeEventTypes [''x''], Connect,
           TokenFetched 2 (Inr ''tok''), WebSocketReady 2 None, OnOpen 3, FireTimer 4,
           OnMessage 3 (ConfirmationFrame \<lparr>confError = False, action = ''subscribe'',
             subscriptionType = ''channel'', items = [''a'', ''b''], error = None\<rparr>),
           OnMessage 3 (ConfirmationFrame \<lparr>confError = False, action = ''subscribe'',
             subscriptionType = ''event_type'', items = [''x''], error = None\<rparr>)]
        (createRealtimeResource (Node True) defaultConfig)) 8 = None"
  using resubscribe_channel_then_event_type
    [where s = "run [SubscribeChannels [''a'', ''b''], SubscribeEventTypes [''x''], Connect,
           TokenFetched 2 (Inr ''tok''), WebSocketReady 2 None]
        (createRealtimeResource (Node True) defaultConfig)"
       and k = 3
       and info = "\<lparr>sockUrl = ''wss://wss.veroai.dev/ws'', sockToken = ''tok'', sockConnect = 2,
           sockPing = True\<rparr>"
       and c = "\<lparr>confError = False, action = ''subscribe'',
             subscriptionType = ''channel'', items = [''a'', ''b''], error = None\<rparr>"
       and c' = "\<lparr>confError = False, action = ''subscribe'',
             subscriptionType = ''event_type'', items = [''x''], error = None\<rparr>"
       and r = "run [SubscribeChannels [''a'', ''b''], SubscribeEventTypes [''x''], Connect,
           TokenFetched 2 (Inr ''tok''), WebSocketReady 2 None, OnOpen 3, FireTimer 4]
        (createRealtimeResource (Node True) defaultConfig)"
       and t = 5 and p = 6 and j = 3
       and d = "\<lparr>confError = False, action = ''subscribe'',
             subscriptionType = ''channel'', items = [''a'', ''b''], error = None\<rparr>"
       and r' = "run [SubscribeChannels [''a'', ''b''], SubscribeEventTypes [''x''], Connect,
           TokenFetched 2 (Inr ''tok''), WebSocketReady 2 None, OnOpen 3, FireTimer 4,
           OnMessage 3 (ConfirmationFrame \<lparr>confError = False, action = ''subscribe'',
             subscriptionType = ''channel'', items = [''a'', ''b''], error = None\<rparr>)]
        (createRealtimeResource (Node True) defaultConfig)"
       and t' = 7 and p' = 8
       and d' = "\<lparr>confError = False, action = ''subscribe'',
             subscriptionType = ''event_type'', items = [''x''], error = None\<rparr>"]
  by (simp add: run_defs)

text \<open>
  Four runs from the constructor, each with the registry of the claim when the
  connection succeeds.  Both confirmations arrive: two commands were sent, not three.
  The server answers the \<open>channel\<close> command with \<open>subscription_error\<close>: one command was
  sent and the run is over.  \<open>disconnect\<close> is called between the open and the
  confirmation: one command.  \<open>disconnect\<close> and \<open>connect\<close> are called while the first
  socket is connecting, and the close event of the first socket arrives after the second
  socket is constructed: the close handler sets \<open>this.ws\<close> to \<open>null\<close>, the second socket
  opens, the \<open>connect\<close> promise is fulfilled, the state is \<open>connected\<close>, and no command
  is sent.
\<close>

theorem resubscribe_three_commands_counterexample:
  "subscribedToAll (run [SubscribeChannels [''a'', ''b''], SubscribeEventTypes [''x''], Connect,
           TokenFetched 2 (Inr ''tok''), WebSocketReady 2 None]
        (createRealtimeResource (Node True) defaultConfig)) = False \<and>
   channels (run [SubscribeChannels [''a'', ''b''], SubscribeEventTypes [''x''], Connect,
           TokenFetched 2 (Inr ''tok''), WebSocketReady 2 None]
        (createRealtimeResource (Node True) defaultConfig)) = [''a'', ''b''] \<and>
   eventTypes (run [SubscribeChannels [''a'', ''b''], SubscribeEventTypes [''x''], Connect,
           TokenFetched 2 (Inr ''tok''), WebSocketReady 2 None]
        (createRealtimeResource (Node True) defaultConfig)) = [''x''] \<and>
   sent (run [SubscribeChannels [''a'', ''b''], SubscribeEventTypes [''x''], Connect,
           TokenFetched 2 (Inr ''tok''), WebSocketReady 2 None]
        (createRealtimeResource (Node True) defaultConfig)) = [] \<and>
   connectPromises (run [SubscribeChannels [''a'', ''b''], SubscribeEventTypes [''x''], Connect,
           TokenFetched 2 (Inr ''tok''), WebSocketReady 2 None, OnOpen 3]
        (createRealtimeResource (Node True) defaultConfig)) 2 = Some (Fulfilled ()) \<and>
   sent (run [SubscribeChannels [''a'', ''b''], SubscribeEventTypes [''x''], Connect,
           TokenFetched 2 (Inr ''tok''), WebSocketReady 2 None, OnOpen 3,
           OnMessage 3 (ConfirmationFrame \<lparr>confError = False, action = ''subscribe'',
             subscriptionType = ''channel'', items = [''a'', ''b''], error = None\<rparr>),
           OnMessage 3 (ConfirmationFrame \<lparr>confError = False, action = ''subscribe'',
             subscriptionType = ''event_type'', items = [''x''], error = None\<rparr>)]
        (createRealtimeResource (Node True) defaultConfig)) =
     [(3, \<lparr>cmdType = Subscribe, cmdSubscriptionType = Channel, cmdEventTypes = None,
           cmdChannels = Some [''a'', ''b'']\<rparr>),
      (3, \<lparr>cmdType = Subscribe, cmdSubscriptionType = EventType,
           cmdEventTypes = Some [''x''], cmdChannels = None\<rparr>)] \<and>
   length (sent (run [SubscribeChannels [''a'', ''b''], SubscribeEventTypes [''x''], Connect,
           TokenFetched 2 (Inr ''tok''), WebSocketReady 2 None, OnOpen 3,
           OnMessage 3 (ConfirmationFrame \<lparr>confError = False, action = ''subscribe'',
             subscriptionType = ''channel'', items = [''a'', ''b''], error = None\<rparr>),
           OnMessage 3 (ConfirmationFrame \<lparr>confError = False, action = ''subscribe'',
             subscriptionType = ''event_type'', items = [''x''], error = None\<rparr>)]
        (createRealtimeResource (Node True) defaultConfig))) \<noteq> 3 \<and>
   awaiters (run [SubscribeChannels [''a'', ''b''], SubscribeEventTypes [''x''], Connect,
           TokenFetched 2 (Inr ''tok''), WebSocketReady 2 None, OnOpen 3,
           OnMessage 3 (ConfirmationFrame \<lparr>confError = False, action = ''subscribe'',
             subscriptionType = ''channel'', items = [''a'', ''b''], error = None\<rparr>),
           OnMessage 3 (ConfirmationFrame \<lparr>confError = False, action = ''subscribe'',
             subscriptionType = ''event_type'', items = [''x''], error = None\<rparr>)]
        (createRealtimeResource (Node True) defaultConfig)) = Map.empty \<and>
   sent (run [SubscribeChannels [''a'', ''b''], SubscribeEventTypes [''x''], Connect,
           TokenFetched 2 (Inr ''tok''), WebSocketReady 2 None, OnOpen 3,
           OnMessage 3 (ConfirmationFrame \<lparr>confError = True, action = ''subscribe'',
             subscriptionType = ''channel'', items = [''a'', ''b''], error = None\<rparr>)]
        (createRealtimeResource (Node True) defaultConfig)) =
     [(3, \<lparr>cmdType = Subscribe, cmdSubscriptionType = Channel, cmdEventTypes = None,
           cmdChannels = Some [''a'', ''b'']\<rparr>)] \<and>
   awaiters (run [SubscribeChannels [''a'', ''b''], SubscribeEventTypes [''x''], Connect,
           TokenFetched 2 (Inr ''tok''), WebSocketReady 2 None, OnOpen 3,
           OnMessage 3 (ConfirmationFrame \<lparr>confError = True, action = ''subscribe'',
             subscriptionType = ''channel'', items = [''a'', ''b''], error = None\<rparr>)]
        (createRealtimeResource (Node True) defaultConfig)) = Map.empty \<and>
   state (run [SubscribeChannels [''a'', ''b''], SubscribeEventTypes [''x''], Connect,
           TokenFetched 2 (Inr ''tok''), WebSocketReady 2 None, OnOpen 3,
           OnMessage 3 (ConfirmationFrame \<lparr>confError = True, action = ''subscribe'',
             subscriptionType = ''channel'', items = [''a'', ''b''], error = None\<rparr>)]
        (createRealtimeResource (Node True) defaultConfig)) = Connected \<and>
   sent (run [SubscribeChannels [''a'', ''b''], SubscribeEventTypes [''x''], Connect,
           TokenFetched 2 (Inr ''tok''), WebSocketReady 2 None, OnOpen 3, Disconnect,
           OnMessage 3 (ConfirmationFrame \<lparr>confError = False, action = ''subscribe'',
             subscriptionType = ''channel'', items = [''a'', ''b''], error = None\<rparr>)]
        (createRealtimeResource (Node True) defaultConfig)) =
     [(3, \<lparr>cmdType = Subscribe, cmdSubscriptionType = Channel, cmdEventTypes = None,
           cmdChannels = Some [''a'', ''b'']\<rparr>)] \<and>
   awaiters (run [SubscribeChannels [''a'', ''b''], SubscribeEventTypes [''x''], Connect,
           TokenFetched 2 (Inr ''tok''), WebSocketReady 2 None, OnOpen 3, Disconnect,
           OnMessage 3 (ConfirmationFrame \<lparr>confError = False, action = ''subscribe'',
             subscriptionType = ''channel'', items = [''a'', ''b''], error = None\<rparr>)]
        (createRealtimeResource (Node True) defaultConfig)) = Map.empty \<and>
   subscribedToAll (run [SubscribeChannels [''a'', ''b''], SubscribeEventTypes [''x''], Connect,
           TokenFetched 2 (Inr ''tok''), WebSocketReady 2 None, Disconnect, Connect,
           TokenFetched 4 (Inr ''tok''), WebSocketReady 4 None, OnClose 3 None, OnOpen 5]
        (createRealtimeResource (Node True) defaultConfig)) = False \<and>
   channels (run [SubscribeChannels [''a'', ''b''], SubscribeEventTypes [''x''], Connect,
           TokenFetched 2 (Inr ''tok''), WebSocketReady 2 None, Disconnect, Connect,
           TokenFetched 4 (Inr ''tok''), WebSocketReady 4 None, OnClose 3 None, OnOpen 5]
        (createRealtimeResource (Node True) defaultConfig)) = [''a'', ''b''] \<and>
   eventTypes (run [SubscribeChannels [''a'', ''b''], SubscribeEventTypes [''x''], Connect,
           TokenFetched 2 (Inr ''tok''), WebSocketReady 2 None, Disconnect, Connect,
           TokenFetched 4 (Inr ''tok''), WebSocketReady 4 None, OnClose 3 None, OnOpen 5]
        (createRealtimeResource (Node True) defaultConfig)) = [''x''] \<and>
   state (run [SubscribeChannels [''a'', ''b''], SubscribeEventTypes [''x''], Connect,
           TokenFetched 2 (Inr ''tok''), WebSocketReady 2 None, Disconnect, Connect,
           TokenFetched 4 (Inr ''tok''), WebSocketReady 4 None, OnClose 3 None, OnOpen 5]
        (createRealtimeResource (Node True) defaultConfig)) = Connected \<and>
   connectPromises (run [SubscribeChannels [''a'', ''b''], SubscribeEventTypes [''x''], Connect,
           TokenFetched 2 (Inr ''tok''), WebSocketReady 2 None, Disconnect, Connect,
           TokenFetched 4 (Inr ''tok''), WebSocketReady 4 None, OnClose 3 None, OnOpen 5]
        (createRealtimeResource (Node True) defaultConfig)) 4 = Some (Fulfilled ()) \<and>
   ws (run [SubscribeChannels [''a'', ''b''], SubscribeEventTypes [''x''], Connect,
           TokenFetched 2 (Inr ''tok''), WebSocketReady 2 None, Disconnect, Connect,
           TokenFetched 4 (Inr ''tok''), WebSocketReady 4 None, OnClose 3 None, OnOpen 5]
        (createRealtimeResource (Node True) defaultConfig)) = None \<and>
   awaiters (run [SubscribeChannels [''a'', ''b''], SubscribeEventTypes [''x''], Connect,
           TokenFetched 2 (Inr ''tok''), WebSocketReady 2 None, Disconnect, Connect,
           TokenFetched 4 (Inr ''tok''), WebSocketReady 4 None, OnClose 3 None, OnOpen 5]
        (createRealtimeResource (Node True) defaultConfig)) = Map.empty \<and>
   sent (run [SubscribeChannels [''a'', ''b''], SubscribeEventTypes [''x''], Connect,
           TokenFetched 2 (Inr ''tok''), WebSocketReady 2 None, Disconnect, Connect,
           TokenFetched 4 (Inr ''tok''), WebSocketReady 4 None, OnClose 3 None, OnOpen 5]
        (createRealtimeResource (Node True) defaultConfig)) = []"
  by (simp add: run_defs)


lemma resubscribe_failure_by_frame:
  assumes "pendingSubscriptions s (getSubscriptionKey (action c) (subscriptionType c)) = Some (t, p)"
    and "subPromises s p = Some Pending" "awaiters s p = Some a" "confError c"
  shows "errorLog (handleMessage (ConfirmationFrame c) s) =
           errorLog s @
           map (\<lambda>h. (h, ''Failed to resubscribe: Error: '' @ orElse (error c) ''Subscription failed''))
             (errorHandlers s)"
    and "sent (handleMessage (ConfirmationFrame c) s) = sent s"
    and "awaiters (handleMessage (ConfirmationFrame c) s) = (awaiters s)(p := None)"
    and "state (handleMessage (ConfirmationFrame c) s) = state s"
    and "ws (handleMessage (ConfirmationFrame c) s) = ws s"
    and "closeCalls (handleMessage (ConfirmationFrame c) s) = closeCalls s"
  by (simp_all add: handleMessage_rejected [OF assms] resubscribeError_def)

lemma resubscribe_failure_by_timeout:
  assumes "timers s t = Some (d, SubscriptionTimeout key p)"
    and "subPromises s p = Some Pending" "awaiters s p = Some a"
  shows "errorLog (fireTimer t s) =
           errorLog s @
           map (\<lambda>h. (h, ''Failed to resubscribe: Error: Subscription timeout'')) (errorHandlers s)"
    and "sent (fireTimer t s) = sent s"
    and "awaiters (fireTimer t s) = (awaiters s)(p := None)"
    and "state (fireTimer t s) = state s"
    and "ws (fireTimer t s) = ws s"
    and "closeCalls (fireTimer t s) = closeCalls s"
  by (simp_all add: fireTimer_awaited [OF assms] resubscribeError_def)

text \<open>
  C2 (as amended).  When the command a \<open>resubscribe\<close> run is waiting for fails, by an
  error frame of the server or by its timeout, every registered error listener is told
  \<open>Failed to resubscribe\<close> with the cause, and the connection is left alone: state,
  socket handle and the calls of \<open>close\<close> are as before.  The run ends there: it waits
  for nothing any more, and the failure sends no further command.
\<close>

theorem resubscribe_failure_ends_run:
  "(pendingSubscriptions s (getSubscriptionKey (action c) (subscriptionType c)) = Some (t, p) \<and>
    subPromises s p = Some Pending \<and> awaiters s p = Some a \<and> confError c \<longrightarrow>
      errorLog (handleMessage (ConfirmationFrame c) s) =
        errorLog s @
        map (\<lambda>h. (h, ''Failed to resubscribe: Error: '' @ orElse (error c) ''Subscription failed''))
          (errorHandlers s) \<and>
      sent (handleMessage (ConfirmationFrame c) s) = sent s \<and>
      awaiters (handleMessage (ConfirmationFrame c) s) = (awaiters s)(p := None) \<and>
      state (handleMessage (ConfirmationFrame c) s) = state s \<and>
      ws (handleMessage (ConfirmationFrame c) s) = ws s \<and>
      closeCalls (handleMessage (ConfirmationFrame c) s) = closeCalls s) \<and>
   (timers s t' = Some (d, SubscriptionTimeout key p) \<and>
    subPromises s p = Some Pending \<and> awaiters s p = Some a \<longrightarrow>
      errorLog (fireTimer t' s) =
        errorLog s @
        map (\<lambda>h. (h, ''Failed to resubscribe: Error: Subscription timeout'')) (errorHandlers s) \<and>
      sent (fireTimer t' s) = sent s \<and>
      awaiters (fireTimer t' s) = (awaiters s)(p := None) \<and>
      state (fireTimer t' s) = state s \<and>
      ws (fireTimer t' s) = ws s \<and>
      closeCalls (fireTimer t' s) = closeCalls s)"
  using resubscribe_failure_by_frame [of s c t p a] resubscribe_failure_by_timeout [of s t' d key p a]
  by blast

theorem resubscribe_failure_ends_run_witness:
  "pendingSubscriptions
     (run [SubscribeAll, SubscribeChannels [''a''], Connect, TokenFetched 2 (Inr ''tok''),
           WebSocketReady 2 None, OnOpen 3]
        (onError 9 (createRealtimeResource (Node True) defaultConfig))) ''subscribe:all'' =
     Some (5, 6) \<and>
   timers
     (run [SubscribeAll, SubscribeChannels [''a''], Connect, TokenFetched 2 (Inr ''tok''),
           WebSocketReady 2 None, OnOpen 3]
        (onError 9 (createRealtimeResource (Node True) defaultConfig))) 5 =
     Some (10000, SubscriptionTimeout ''subscribe:all'' 6) \<and>
   subPromises
     (run [SubscribeAll, SubscribeChannels [''a''], Connect, TokenFetched 2 (Inr ''tok''),
           WebSocketReady 2 None, OnOpen 3]
        (onError 9 (createRealtimeResource (Node True) defaultConfig))) 6 = Some Pending \<and>
   awaiters
     (run [SubscribeAll, SubscribeChannels [''a''], Connect, TokenFetched 2 (Inr ''tok''),
           WebSocketReady 2 None, OnOpen 3]
        (onError 9 (createRealtimeResource (Node True) defaultConfig))) 6 = Some AfterAll \<and>
   errorLog
     (run [SubscribeAll, SubscribeChannels [''a''], Connect, TokenFetched 2 (Inr ''tok''),
           WebSocketReady 2 None, OnOpen 3,
           OnMessage 3 (ConfirmationFrame \<lparr>confError = True, action = ''subscribe'',
             subscriptionType = ''all'', items = [], error = Some ''denied''\<rparr>)]
        (onError 9 (createRealtimeResource (Node True) defaultConfig))) =
     [(9, ''Failed to resubscribe: Error: denied'')] \<and>
   errorLog
     (run [SubscribeAll, SubscribeChannels [''a''], Connect, TokenFetched 2 (Inr ''tok''),
           WebSocketReady 2 None, OnOpen 3, FireTimer 5]
        (onError 9 (createRealtimeResource (Node True) defaultConfig))) =
     [(9, ''Failed to resubscribe: Error: Subscription timeout'')] \<and>
   state
     (run [SubscribeAll, SubscribeChannels [''a''], Connect, TokenFetched 2 (Inr ''tok''),
           WebSocketReady 2 None, OnOpen 3, FireTimer 5]
        (onError 9 (createRealtimeResource (Node True) defaultConfig))) = Connected"
  using resubscribe_failure_ends_run
    [of "run [SubscribeAll, SubscribeChannels [''a''], Connect, TokenFetched 2 (Inr ''tok''),
           WebSocketReady 2 None, OnOpen 3]
        (onError 9 (createRealtimeResource (Node True) defaultConfig))"
        "\<lparr>confError = True, action = ''subscribe'',
             subscriptionType = ''all'', items = [], error = Some ''denied''\<rparr>"
        5 6 AfterAll 5 10000 "''subscribe:all''"]
  by (simp add: run_defs onError_def)

text \<open>
  A client subscribed to all events and to channel \<open>a\<close> reconnects, and the server
  rejects the \<open>all\<close> command: the \<open>channel\<close> command is never sent, and no run is left
  that could send it.
\<close>

theorem resubscribe_isolation_counterexample:
  "subscribedToAll
     (run [SubscribeAll, SubscribeChannels [''a''], Connect, TokenFetched 2 (Inr ''tok''),
           WebSocketReady 2 None]
        (onError 9 (createRealtimeResource (Node True) defaultConfig))) \<and>
   channels
     (run [SubscribeAll, SubscribeChannels [''a''], Connect, TokenFetched 2 (Inr ''tok''),
           WebSocketReady 2 None]
        (onError 9 (createRealtimeResource (Node True) defaultConfig))) = [''a''] \<and>
   sent
     (run [SubscribeAll, SubscribeChannels [''a''], Connect, TokenFetched 2 (Inr ''tok''),
           WebSocketReady 2 None, OnOpen 3,
           OnMessage 3 (ConfirmationFrame \<lparr>confError = True, action = ''subscribe'',
             subscriptionType = ''all'', items = [], error = Some ''denied''\<rparr>)]
        (onError 9 (createRealtimeResource (Node True) defaultConfig))) =
     [(3, \<lparr>cmdType = Subscribe, cmdSubscriptionType = All, cmdEventTypes = None,
           cmdChannels = None\<rparr>)] \<and>
   (3, \<lparr>cmdType = Subscribe, cmdSubscriptionType = Channel, cmdEventTypes = None,
        cmdChannels = Some [''a'']\<rparr>) \<notin>
     set (sent
       (run [SubscribeAll, SubscribeChannels [''a''], Connect, TokenFetched 2 (Inr ''tok''),
             WebSocketReady 2 None, OnOpen 3,
             OnMessage 3 (ConfirmationFrame \<lparr>confError = True, action = ''subscribe'',
               subscriptionType = ''all'', items = [], error = Some ''denied''\<rparr>)]
          (onError 9 (createRealtimeResource (Node True) defaultConfig)))) \<and>
   awaiters
     (run [SubscribeAll, SubscribeChannels [''a''], Connect, TokenFetched 2 (Inr ''tok''),
           WebSocketReady 2 None, OnOpen 3,
           OnMessage 3 (ConfirmationFrame \<lparr>confError = True, action = ''subscribe'',
             subscriptionType = ''all'', items = [], error = Some ''denied''\<rparr>)]
        (onError 9 (createRealtimeResource (Node True) defaultConfig))) 6 = None \<and>
   dom (awaiters
     (run [SubscribeAll, SubscribeChannels [''a''], Connect, TokenFetched 2 (Inr ''tok''),
           WebSocketReady 2 None, OnOpen 3,
           OnMessage 3 (ConfirmationFrame \<lparr>confError = True, action = ''subscribe'',
             subscriptionType = ''all'', items = [], error = Some ''denied''\<rparr>)]
        (onError 9 (createRealtimeResource (Node True) defaultConfig)))) = {}"
  by (simp add: run_defs onError_def)

subsection \<open>disconnect\<close>

lemma stopHeartbeat_frame_more [simp]:
  "url (stopHeartbeat s) = url s"
  "autoReconnect (stopHeartbeat s) = autoReconnect s"
  "reconnectInterval (stopHeartbeat s) = reconnectInterval s"
  "maxReconnectAttempts (stopHeartbeat s) = maxReconnectAttempts s"
  "heartbeatIntervalMs (stopHeartbeat s) = heartbeatIntervalMs s"
  "reconnectAttempts (stopHeartbeat s) = reconnectAttempts s"
  "eventHandlers (stopHeartbeat s) = eventHandlers s"
  "errorHandlers (stopHeartbeat s) = errorHandlers s"
  "eventTypes (stopHeartbeat s) = eventTypes s"
  "channels (stopHeartbeat s) = channels s"
  "subscribedToAll (stopHeartbeat s) = subscribedToAll s"
  "pendingSubscriptions (stopHeartbeat s) = pendingSubscriptions s"
  "runtimeEnv (stopHeartbeat s) = runtimeEnv s"
  "nextId (stopHeartbeat s) = nextId s"
  "subPromises (stopHeartbeat s) = subPromises s"
  "awaiters (stopHeartbeat s) = awaiters s"
  "connectPromises (stopHeartbeat s) = connectPromises s"
  "connects (stopHeartbeat s) = connects s"
  "sockets (stopHeartbeat s) = sockets s"
  "opened (stopHeartbeat s) = opened s"
  "tokenFetches (stopHeartbeat s) = tokenFetches s"
  "sent (stopHeartbeat s) = sent s"
  "closeCalls (stopHeartbeat s) = closeCalls s"
  "pings (stopHeartbeat s) = pings s"
  "errorLog (stopHeartbeat s) = errorLog s"
  "eventLog (stopHeartbeat s) = eventLog s"
  by (simp_all add: stopHeartbeat_def split: option.splits)

lemma clearReconnectTimeout_frame_more [simp]:
  "url (clearReconnectTimeout s) = url s"
  "autoReconnect (clearReconnectTimeout s) = autoReconnect s"
  "reconnectInterval (clearReconnectTimeout s) = reconnectInterval s"
  "maxReconnectAttempts (clearReconnectTimeout s) = maxReconnectAttempts s"
  "heartbeatIntervalMs (clearReconnectTimeout s) = heartbeatIntervalMs s"
  "reconnectAttempts (clearReconnectTimeout s) = reconnectAttempts s"
  "eventHandlers (clearReconnectTimeout s) = eventHandlers s"
  "errorHandlers (clearReconnectTimeout s) = errorHandlers s"
  "eventTypes (clearReconnectTimeout s) = eventTypes s"
  "channels (clearReconnectTimeout s) = channels s"
  "subscribedToAll (clearReconnectTimeout s) = subscribedToAll s"
  "pendingSubscriptions (clearReconnectTimeout s) = pendingSubscriptions s"
  "runtimeEnv (clearReconnectTimeout s) = runtimeEnv s"
  "nextId (clearReconnectTimeout s) = nextId s"
  "subPromises (clearReconnectTimeout s) = subPromises s"
  "awaiters (clearReconnectTimeout s) = awaiters s"
  "connectPromises (clearReconnectTimeout s) = connectPromises s"
  "connects (clearReconnectTimeout s) = connects s"
  "sockets (clearReconnectTimeout s) = sockets s"
  "opened (clearReconnectTimeout s) = opened s"
  "tokenFetches (clearReconnectTimeout s) = tokenFetches s"
  "sent (clearReconnectTimeout s) = sent s"
  "closeCalls (clearReconnectTimeout s) = closeCalls s"
  "pings (clearReconnectTimeout s) = pings s"
  "errorLog (clearReconnectTimeout s) = errorLog s"
  "eventLog (clearReconnectTimeout s) = eventLog s"
  by (simp_all add: clearReconnectTimeout_def split: option.splits)

text \<open>
  What \<open>disconnect\<close> does achieve: auto-reconnect is off, the reconnect timer it knew
  of is cleared, and a close event of the old socket arriving later changes neither the
  state nor the reconnect timer.
\<close>

lemma disconnect_effect:
  "autoReconnect (disconnect s) = False"
  "reconnectTimeout (disconnect s) = None"
  "heartbeatInterval (disconnect s) = None"
  "ws (disconnect s) = None"
  "state (disconnect s) = Disconnected"
  by (simp_all add: disconnect_def Let_def split: option.splits)

lemma disconnect_clears_reconnect_timer:
  "reconnectTimeout s = Some t \<Longrightarrow> timers (disconnect s) t = None"
  by (simp add: disconnect_def Let_def clearReconnectTimeout_def stopHeartbeat_def
      split: option.splits)

lemma stale_close_after_disconnect:
  assumes "state s = Disconnected" "\<not> autoReconnect s"
  shows "state (onclose k reason s) = Disconnected"
    and "reconnectTimeout (onclose k reason s) = reconnectTimeout s"
    and "autoReconnect (onclose k reason s) = autoReconnect s"
  using assms by (simp_all add: onclose_def Let_def split: option.splits)

text \<open>
  C5.  \<open>disconnect\<close> does not stop a \<open>connect\<close> that is waiting for its token.  First
  run: \<open>connect\<close>, then \<open>disconnect\<close> (state \<open>disconnected\<close>, auto-reconnect off), then
  the token arrives, the socket is constructed and opens: the state is \<open>connected\<close>,
  with a socket and a heartbeat, and no \<open>connect\<close> was called after \<open>disconnect\<close>.
  Second run: the same through a reconnect: the connection closes, the reconnect timer of
  1000 ms fires and calls \<open>connect\<close>; \<open>disconnect\<close> is called while that attempt waits
  for its token; the attempt completes and the state is \<open>connected\<close>.
\<close>

theorem disconnect_in_flight_connect:
  "getState (run [Connect, Disconnect] (createRealtimeResource (Node True) defaultConfig)) =
     Disconnected \<and>
   autoReconnect (run [Connect, Disconnect] (createRealtimeResource (Node True) defaultConfig)) =
     False \<and>
   getState
     (run [Connect, Disconnect, TokenFetched 0 (Inr ''tok''), WebSocketReady 0 None, OnOpen 1]
        (createRealtimeResource (Node True) defaultConfig)) = Connected \<and>
   ws
     (run [Connect, Disconnect, TokenFetched 0 (Inr ''tok''), WebSocketReady 0 None, OnOpen 1]
        (createRealtimeResource (Node True) defaultConfig)) = Some 1 \<and>
   heartbeatInterval
     (run [Connect, Disconnect, TokenFetched 0 (Inr ''tok''), WebSocketReady 0 None, OnOpen 1]
        (createRealtimeResource (Node True) defaultConfig)) = Some 2 \<and>
   timers
     (run [Connect, TokenFetched 0 (Inr ''tok''), WebSocketReady 0 None, OnOpen 1, OnClose 1 None]
        (createRealtimeResource (Node True) defaultConfig)) 3 = Some (1000, ReconnectTimer) \<and>
   getState
     (run [Connect, TokenFetched 0 (Inr ''tok''), WebSocketReady 0 None, OnOpen 1, OnClose 1 None,
           FireTimer 3, Disconnect]
        (createRealtimeResource (Node True) defaultConfig)) = Disconnected \<and>
   getState
     (run [Connect, TokenFetched 0 (Inr ''tok''), WebSocketReady 0 None, OnOpen 1, OnClose 1 None,
           FireTimer 3, Disconnect, TokenFetched 4 (Inr ''tok''), WebSocketReady 4 None, OnOpen 5]
        (createRealtimeResource (Node True) defaultConfig)) = Connected"
  by (simp add: run_defs getState_def)

subsection \<open>An invariant of timers, entries and promises\<close>

lemma wellFormed_cong:
  assumes "timers s' = timers s" "subPromises s' = subPromises s"
    "pendingSubscriptions s' = pendingSubscriptions s" "nextId s' = nextId s"
    "heartbeatInterval s' = heartbeatInterval s" "reconnectTimeout s' = reconnectTimeout s"
  shows "wellFormed s' = wellFormed s"
  by (simp add: wellFormed_def assms)

lemma wellFormed_init: "wellFormed (createRealtimeResource env config)"
  by (simp add: wellFormed_def createRealtimeResource_def)

lemma wellFormed_setState [simp]: "wellFormed (setState st s) = wellFormed s"
  by (rule wellFormed_cong) simp_all

lemma wellFormed_emitError [simp]: "wellFormed (emitError m s) = wellFormed s"
  by (rule wellFormed_cong) (simp_all add: emitError_def)

lemma wellFormed_emitEvent [simp]: "wellFormed (emitEvent ev s) = wellFormed s"
  by (rule wellFormed_cong) (simp_all add: emitEvent_def)

lemma wellFormed_resolveConnect [simp]: "wellFormed (resolveConnect c s) = wellFormed s"
  by (rule wellFormed_cong) simp_all

lemma wellFormed_rejectConnect [simp]: "wellFormed (rejectConnect c e s) = wellFormed s"
  by (rule wellFormed_cong) (simp_all add: rejectConnect_def split: option.splits promise.splits)

lemma wellFormed_connectCatch [simp]: "wellFormed (connectCatch c e s) = wellFormed s"
  by (simp add: connectCatch_def)

lemma wellFormed_stopHeartbeat: "wellFormed s \<Longrightarrow> wellFormed (stopHeartbeat s)"
  unfolding wellFormed_def stopHeartbeat_def
  by (cases "heartbeatInterval s") (auto split: if_splits)

lemma wellFormed_clearReconnectTimeout: "wellFormed s \<Longrightarrow> wellFormed (clearReconnectTimeout s)"
  unfolding wellFormed_def clearReconnectTimeout_def
  by (cases "reconnectTimeout s") (auto split: if_splits)


lemma wellFormed_fresh_timer:
  assumes "wellFormed s" "\<forall>key p. cb \<noteq> SubscriptionTimeout key p"
  shows "wellFormed (s\<lparr>timers := (timers s)(nextId s \<mapsto> (d, cb)), nextId := nextId s + 1\<rparr>)"
  using assms unfolding wellFormed_def
  by (auto split: if_splits) (fastforce+)

lemma wellFormed_startHeartbeat: "wellFormed s \<Longrightarrow> wellFormed (startHeartbeat s)"
proof -
  assume "wellFormed s"
  then have w: "wellFormed (stopHeartbeat s)" by (rule wellFormed_stopHeartbeat)
  let ?s1 = "stopHeartbeat s"
  have "wellFormed (?s1\<lparr>timers := (timers ?s1)(nextId ?s1 \<mapsto> (heartbeatIntervalMs ?s1, HeartbeatTimer)),
     nextId := nextId ?s1 + 1\<rparr>)"
    using w by (rule wellFormed_fresh_timer) simp
  then have "wellFormed (?s1\<lparr>timers := (timers ?s1)(nextId ?s1 \<mapsto> (heartbeatIntervalMs ?s1, HeartbeatTimer)),
     nextId := nextId ?s1 + 1, heartbeatInterval := Some (nextId ?s1)\<rparr>)"
    unfolding wellFormed_def by simp
  moreover have "startHeartbeat s = ?s1\<lparr>timers := (timers ?s1)(nextId ?s1 \<mapsto> (heartbeatIntervalMs ?s1, HeartbeatTimer)),
     nextId := nextId ?s1 + 1, heartbeatInterval := Some (nextId ?s1)\<rparr>"
    by (simp add: startHeartbeat_def Let_def)
  ultimately show ?thesis by simp
qed

lemma wellFormed_scheduleReconnect: "wellFormed s \<Longrightarrow> wellFormed (scheduleReconnect s)"
proof (cases "reconnectTimeout s")
  case (Some r)
  assume "wellFormed s"
  then show ?thesis using Some by (simp add: scheduleReconnect_def)
next
  case None
  assume w: "wellFormed s"
  let ?s2 = "(setState Reconnecting s)\<lparr>reconnectAttempts := reconnectAttempts (setState Reconnecting s) + 1\<rparr>"
  have w2: "wellFormed ?s2"
    using w wellFormed_cong [of ?s2 "setState Reconnecting s"] by simp
  let ?d = "reconnectDelay (reconnectInterval ?s2) (reconnectAttempts ?s2)"
  have "wellFormed (?s2\<lparr>timers := (timers ?s2)(nextId ?s2 \<mapsto> (?d, ReconnectTimer)),
     nextId := nextId ?s2 + 1\<rparr>)"
    using w2 by (rule wellFormed_fresh_timer) simp
  then have "wellFormed (?s2\<lparr>timers := (timers ?s2)(nextId ?s2 \<mapsto> (?d, ReconnectTimer)),
     nextId := nextId ?s2 + 1, reconnectTimeout := Some (nextId ?s2)\<rparr>)"
    unfolding wellFormed_def by simp
  moreover have "scheduleReconnect s = ?s2\<lparr>timers := (timers ?s2)(nextId ?s2 \<mapsto> (?d, ReconnectTimer)),
     nextId := nextId ?s2 + 1, reconnectTimeout := Some (nextId ?s2)\<rparr>"
    using None by (simp add: scheduleReconnect_def Let_def)
  ultimately show ?thesis by simp
qed

lemma wellFormed_sendSubscription:
  "wellFormed s \<Longrightarrow> wellFormed (snd (sendSubscription command s))"
  unfolding wellFormed_def sendSubscription_def Let_def
  by (auto split: if_splits) (fastforce+)


lemma wellFormed_registry [simp]:
  "wellFormed (s\<lparr>subscribedToAll := a\<rparr>) = wellFormed s"
  "wellFormed (s\<lparr>channels := b\<rparr>) = wellFormed s"
  "wellFormed (s\<lparr>eventTypes := c\<rparr>) = wellFormed s"
  "wellFormed (s\<lparr>awaiters := d\<rparr>) = wellFormed s"
  by (simp_all add: wellFormed_def)

lemma wellFormed_calls:
  assumes "wellFormed s"
  shows "wellFormed (snd (subscribeAll s))"
    and "wellFormed (snd (unsubscribeAll s))"
    and "wellFormed (snd (subscribeChannels ids s))"
    and "wellFormed (snd (unsubscribeChannels ids s))"
    and "wellFormed (snd (subscribeEventTypes ts s))"
    and "wellFormed (snd (unsubscribeEventTypes ts s))"
  using assms
  by (simp_all add: subscribeAll_def unsubscribeAll_def subscribeChannels_def
      unsubscribeChannels_def subscribeEventTypes_def unsubscribeEventTypes_def
      wellFormed_sendSubscription)

lemma wellFormed_awaitResubscribe:
  assumes "wellFormed (snd r)" "\<And>s'. wellFormed s' \<Longrightarrow> wellFormed (k s')"
  shows "wellFormed (awaitResubscribe a k r)"
  using assms
  by (cases r) (simp add: awaitResubscribe_def split: option.splits promise.splits)

lemma wellFormed_resubscribeEventTypes:
  "wellFormed s \<Longrightarrow> wellFormed (resubscribeEventTypes s)"
  by (simp add: resubscribeEventTypes_def wellFormed_awaitResubscribe wellFormed_calls)

lemma wellFormed_resubscribeChannels:
  "wellFormed s \<Longrightarrow> wellFormed (resubscribeChannels s)"
  by (simp add: resubscribeChannels_def wellFormed_awaitResubscribe wellFormed_calls
      wellFormed_resubscribeEventTypes)

lemma wellFormed_resubscribe: "wellFormed s \<Longrightarrow> wellFormed (resubscribe s)"
  by (simp add: resubscribe_def wellFormed_awaitResubscribe wellFormed_calls
      wellFormed_resubscribeChannels)

lemma wellFormed_resumeResubscribe: "wellFormed s \<Longrightarrow> wellFormed (resumeResubscribe a s)"
  by (cases a)
    (simp_all add: resumeResubscribe_def wellFormed_resubscribeChannels
      wellFormed_resubscribeEventTypes)

text \<open>Settling a promise that no armed timer refers to.\<close>

lemma wellFormed_settled:
  assumes "wellFormed s" "\<forall>t d key. timers s t \<noteq> Some (d, SubscriptionTimeout key p)"
  shows "wellFormed (s\<lparr>subPromises := (subPromises s)(p \<mapsto> v)\<rparr>)"
  using assms unfolding wellFormed_def by auto

lemma wellFormed_resolveSubscription:
  assumes "wellFormed s" "\<forall>t d key. timers s t \<noteq> Some (d, SubscriptionTimeout key p)"
  shows "wellFormed (resolveSubscription p c s)"
proof (cases "subPromises s p = Some Pending")
  case False
  then show ?thesis
    using assms(1) by (simp add: resolveSubscription_def split: option.splits promise.splits)
next
  case True
  have "wellFormed (s\<lparr>subPromises := (subPromises s)(p \<mapsto> Fulfilled c)\<rparr>)"
    using assms by (rule wellFormed_settled)
  then show ?thesis
    using True
    by (simp add: resolveSubscription_def Let_def wellFormed_resumeResubscribe split: option.splits)
qed

lemma wellFormed_rejectSubscription:
  assumes "wellFormed s" "\<forall>t d key. timers s t \<noteq> Some (d, SubscriptionTimeout key p)"
  shows "wellFormed (rejectSubscription p e s)"
proof (cases "subPromises s p = Some Pending")
  case False
  then show ?thesis
    using assms(1) by (simp add: rejectSubscription_def split: option.splits promise.splits)
next
  case True
  have "wellFormed (s\<lparr>subPromises := (subPromises s)(p \<mapsto> Rejected e)\<rparr>)"
    using assms by (rule wellFormed_settled)
  then show ?thesis
    using True
    by (simp add: rejectSubscription_def Let_def split: option.splits)
qed


lemma wellFormed_timerD:
  "wellFormed s \<Longrightarrow> timers s t = Some (d, SubscriptionTimeout key p) \<Longrightarrow>
     d = SUBSCRIPTION_TIMEOUT \<and> p = t + 1 \<and> p < nextId s"
  unfolding wellFormed_def by blast

lemma wellFormed_entryD:
  "wellFormed s \<Longrightarrow> pendingSubscriptions s key = Some (t, p) \<Longrightarrow>
     timers s t = Some (SUBSCRIPTION_TIMEOUT, SubscriptionTimeout key p)"
  unfolding wellFormed_def by blast

lemma wellFormed_boundD: "wellFormed s \<Longrightarrow> timers s t = Some x \<Longrightarrow> t < nextId s"
  unfolding wellFormed_def by blast

lemma wellFormed_heartbeatD:
  "wellFormed s \<Longrightarrow> heartbeatInterval s = Some h \<Longrightarrow> \<exists>d. timers s h = Some (d, HeartbeatTimer)"
  unfolding wellFormed_def by blast

lemma wellFormed_reconnectD:
  "wellFormed s \<Longrightarrow> reconnectTimeout s = Some r \<Longrightarrow> \<exists>d. timers s r = Some (d, ReconnectTimer)"
  unfolding wellFormed_def by blast

lemma wellFormedI:
  assumes "\<And>t d key p. timers s t = Some (d, SubscriptionTimeout key p) \<Longrightarrow>
          d = SUBSCRIPTION_TIMEOUT \<and> p = t + 1 \<and> p < nextId s"
    and "\<And>key t p. pendingSubscriptions s key = Some (t, p) \<Longrightarrow>
          timers s t = Some (SUBSCRIPTION_TIMEOUT, SubscriptionTimeout key p)"
    and "\<And>t x. timers s t = Some x \<Longrightarrow> t < nextId s"
    and "\<And>h. heartbeatInterval s = Some h \<Longrightarrow> \<exists>d. timers s h = Some (d, HeartbeatTimer)"
    and "\<And>r. reconnectTimeout s = Some r \<Longrightarrow> \<exists>d. timers s r = Some (d, ReconnectTimer)"
  shows "wellFormed s"
  unfolding wellFormed_def using assms by blast

text \<open>Removing a subscription timer together with whatever entry its key has.\<close>

lemma wellFormed_timer_removed:
  assumes w: "wellFormed s" and tm: "timers s t = Some (d, SubscriptionTimeout key p)"
  shows "wellFormed (s\<lparr>timers := (timers s)(t := None),
                        pendingSubscriptions := (pendingSubscriptions s)(key := None)\<rparr>)"
    (is "wellFormed ?s'")
proof (rule wellFormedI)
  fix t' d' key' p'
  assume "timers ?s' t' = Some (d', SubscriptionTimeout key' p')"
  then have "timers s t' = Some (d', SubscriptionTimeout key' p')"
    by (simp split: if_splits)
  from wellFormed_timerD [OF w this]
  show "d' = SUBSCRIPTION_TIMEOUT \<and> p' = t' + 1 \<and> p' < nextId ?s'"
    by auto
next
  fix key' t' p'
  assume a: "pendingSubscriptions ?s' key' = Some (t', p')"
  then have k: "key' \<noteq> key" and e: "pendingSubscriptions s key' = Some (t', p')"
    by (simp_all split: if_splits)
  from wellFormed_entryD [OF w e]
  have tm': "timers s t' = Some (SUBSCRIPTION_TIMEOUT, SubscriptionTimeout key' p')" .
  with tm k have "t' \<noteq> t" by auto
  with tm' show "timers ?s' t' = Some (SUBSCRIPTION_TIMEOUT, SubscriptionTimeout key' p')"
    by simp
next
  fix t' x
  assume "timers ?s' t' = Some x"
  then have "timers s t' = Some x" by (simp split: if_splits)
  from wellFormed_boundD [OF w this] show "t' < nextId ?s'" by simp
next
  fix h
  assume "heartbeatInterval ?s' = Some h"
  then have "heartbeatInterval s = Some h" by simp
  from wellFormed_heartbeatD [OF w this] obtain d' where h: "timers s h = Some (d', HeartbeatTimer)" ..
  with tm have "h \<noteq> t" by auto
  with h show "\<exists>d. timers ?s' h = Some (d, HeartbeatTimer)" by simp
next
  fix r
  assume "reconnectTimeout ?s' = Some r"
  then have "reconnectTimeout s = Some r" by simp
  from wellFormed_reconnectD [OF w this] obtain d' where r: "timers s r = Some (d', ReconnectTimer)" ..
  with tm have "r \<noteq> t" by auto
  with r show "\<exists>d. timers ?s' r = Some (d, ReconnectTimer)" by simp
qed

lemma timer_removed_unreferenced:
  assumes w: "wellFormed s" and tm: "timers s t = Some (d, SubscriptionTimeout key p)"
  shows "\<forall>t' d' key'. ((timers s)(t := None)) t' \<noteq> Some (d', SubscriptionTimeout key' p)"
proof (intro allI notI)
  fix t' d' key'
  assume "((timers s)(t := None)) t' = Some (d', SubscriptionTimeout key' p)"
  then have n: "t' \<noteq> t" and a: "timers s t' = Some (d', SubscriptionTimeout key' p)"
    by (simp_all split: if_splits)
  from wellFormed_timerD [OF w a] wellFormed_timerD [OF w tm] have "t' = t" by simp
  with n show False by simp
qed


lemma wellFormed_handleMessage: "wellFormed s \<Longrightarrow> wellFormed (handleMessage data s)"
proof (cases data)
  case (ConfirmationFrame c)
  assume w: "wellFormed s"
  let ?key = "getSubscriptionKey (action c) (subscriptionType c)"
  show ?thesis
  proof (cases "pendingSubscriptions s ?key")
    case None
    then show ?thesis using w ConfirmationFrame by (simp add: handleMessage_def)
  next
    case (Some entry)
    obtain t p where entry: "entry = (t, p)" by (cases entry)
    have tm: "timers s t = Some (SUBSCRIPTION_TIMEOUT, SubscriptionTimeout ?key p)"
      using wellFormed_entryD [OF w] Some entry by simp
    let ?s0 = "s\<lparr>timers := (timers s)(t := None),
                  pendingSubscriptions := (pendingSubscriptions s)(?key := None)\<rparr>"
    let ?s' = "s\<lparr>pendingSubscriptions := (pendingSubscriptions s)(?key := None),
                  timers := (timers s)(t := None)\<rparr>"
    have "wellFormed ?s0"
      using w tm by (rule wellFormed_timer_removed)
    moreover have "?s' = ?s0" by simp
    ultimately have w': "wellFormed ?s'" by (simp only:)
    have un: "\<forall>t' d' key'. timers ?s' t' \<noteq> Some (d', SubscriptionTimeout key' p)"
      using timer_removed_unreferenced [OF w tm] by simp
    have "wellFormed (resolveSubscription p c ?s')"
      using w' un by (rule wellFormed_resolveSubscription)
    moreover have "wellFormed (rejectSubscription p e ?s')" for e
      using w' un by (rule wellFormed_rejectSubscription)
    ultimately show ?thesis
      using ConfirmationFrame Some entry
      by (simp add: handleMessage_def pendingResolve_def pendingReject_def Let_def)
  qed
qed (simp_all add: handleMessage_def split: option.splits)

lemma wellFormed_connect: "wellFormed s \<Longrightarrow> wellFormed (snd (connect s))"
  by (simp add: connect_def Let_def) (auto simp: wellFormed_def intro: less_SucI)

lemma wellFormed_fireTimer: "wellFormed s \<Longrightarrow> wellFormed (fireTimer t s)"
proof (cases "timers s t")
  case None
  assume "wellFormed s"
  then show ?thesis using None by (simp add: fireTimer_def)
next
  case (Some x)
  assume w: "wellFormed s"
  obtain d cb where x: "x = (d, cb)" by (cases x)
  show ?thesis
  proof (cases cb)
    case (SubscriptionTimeout key p)
    have tm: "timers s t = Some (d, SubscriptionTimeout key p)"
      using Some x SubscriptionTimeout by simp
    let ?s' = "s\<lparr>timers := (timers s)(t := None),
                  pendingSubscriptions := (pendingSubscriptions s)(key := None)\<rparr>"
    have w': "wellFormed ?s'"
      using w tm by (rule wellFormed_timer_removed)
    have un: "\<forall>t' d' key'. timers ?s' t' \<noteq> Some (d', SubscriptionTimeout key' p)"
      using timer_removed_unreferenced [OF w tm] by simp
    have "wellFormed (rejectSubscription p ''Subscription timeout'' ?s')"
      using w' un by (rule wellFormed_rejectSubscription)
    then show ?thesis
      using tm by (simp add: fireTimer_def)
  next
    case ReconnectTimer
    let ?s' = "s\<lparr>timers := (timers s)(t := None), reconnectTimeout := None\<rparr>"
    have tm: "timers s t = Some (d, ReconnectTimer)"
      using Some x ReconnectTimer by simp
    have "wellFormed ?s'"
    proof (rule wellFormedI)
      fix t' d' key' p'
      assume "timers ?s' t' = Some (d', SubscriptionTimeout key' p')"
      then have "timers s t' = Some (d', SubscriptionTimeout key' p')"
        by (simp split: if_splits)
      from wellFormed_timerD [OF w this]
      show "d' = SUBSCRIPTION_TIMEOUT \<and> p' = t' + 1 \<and> p' < nextId ?s'"
        by auto
    next
      fix key' t' p'
      assume "pendingSubscriptions ?s' key' = Some (t', p')"
      then have "pendingSubscriptions s key' = Some (t', p')" by simp
      from wellFormed_entryD [OF w this]
      have tm': "timers s t' = Some (SUBSCRIPTION_TIMEOUT, SubscriptionTimeout key' p')" .
      with tm have "t' \<noteq> t" by auto
      with tm' show "timers ?s' t' = Some (SUBSCRIPTION_TIMEOUT, SubscriptionTimeout key' p')"
        by simp
    next
      fix t' x'
      assume "timers ?s' t' = Some x'"
      then have "timers s t' = Some x'" by (simp split: if_splits)
      from wellFormed_boundD [OF w this] show "t' < nextId ?s'" by simp
    next
      fix h
      assume "heartbeatInterval ?s' = Some h"
      then have "heartbeatInterval s = Some h" by simp
      from wellFormed_heartbeatD [OF w this]
      obtain d' where h: "timers s h = Some (d', HeartbeatTimer)" ..
      with tm have "h \<noteq> t" by auto
      with h show "\<exists>d. timers ?s' h = Some (d, HeartbeatTimer)" by simp
    next
      fix r
      assume "reconnectTimeout ?s' = Some r"
      then show "\<exists>d. timers ?s' r = Some (d, ReconnectTimer)" by simp
    qed
    then have "wellFormed (snd (connect ?s'))"
      by (rule wellFormed_connect)
    then show ?thesis
      using tm by (simp add: fireTimer_def)
  next
    case HeartbeatTimer
    have "wellFormed (s\<lparr>pings := ps\<rparr>)" for ps
      using w wellFormed_cong [of "s\<lparr>pings := ps\<rparr>" s] by simp
    then show ?thesis
      using Some x HeartbeatTimer w by (simp add: fireTimer_def split: option.splits)
  qed
qed


lemma wellFormed_plain [simp]:
  "wellFormed (s\<lparr>readyState := rs\<rparr>) = wellFormed s"
  "wellFormed (s\<lparr>connects := a\<rparr>) = wellFormed s"
  "wellFormed (s\<lparr>reconnectAttempts := b\<rparr>) = wellFormed s"
  "wellFormed (s\<lparr>ws := c\<rparr>) = wellFormed s"
  "wellFormed (s\<lparr>autoReconnect := d\<rparr>) = wellFormed s"
  "wellFormed (s\<lparr>closeCalls := e\<rparr>) = wellFormed s"
  by (simp_all add: wellFormed_def)

lemma wellFormed_tokenFetched: "wellFormed s \<Longrightarrow> wellFormed (tokenFetched c r s)"
  by (simp add: tokenFetched_def split: option.splits connect_await.splits sum.splits)

lemma rejectConnect_frame_more [simp]:
  "subPromises (rejectConnect c e s) = subPromises s"
  "pendingSubscriptions (rejectConnect c e s) = pendingSubscriptions s"
  "awaiters (rejectConnect c e s) = awaiters s"
  "sent (rejectConnect c e s) = sent s"
  by (simp_all add: rejectConnect_def split: option.splits promise.splits)

lemma wellFormed_mono:
  assumes w: "wellFormed s" and eq: "timers s' = timers s" "subPromises s' = subPromises s"
    "pendingSubscriptions s' = pendingSubscriptions s"
    "heartbeatInterval s' = heartbeatInterval s" "reconnectTimeout s' = reconnectTimeout s"
    and le: "nextId s \<le> nextId s'"
  shows "wellFormed s'"
proof (rule wellFormedI)
  fix t d key p
  assume "timers s' t = Some (d, SubscriptionTimeout key p)"
  then have "timers s t = Some (d, SubscriptionTimeout key p)" by (simp add: eq)
  from wellFormed_timerD [OF w this] le
  show "d = SUBSCRIPTION_TIMEOUT \<and> p = t + 1 \<and> p < nextId s'"
    by (auto simp: eq)
next
  fix key t p
  assume "pendingSubscriptions s' key = Some (t, p)"
  then show "timers s' t = Some (SUBSCRIPTION_TIMEOUT, SubscriptionTimeout key p)"
    using wellFormed_entryD [OF w, of key t p] by (simp add: eq)
next
  fix t x
  assume "timers s' t = Some x"
  then show "t < nextId s'"
    using wellFormed_boundD [OF w, of t x] le by (simp add: eq)
next
  fix h
  assume "heartbeatInterval s' = Some h"
  then show "\<exists>d. timers s' h = Some (d, HeartbeatTimer)"
    using wellFormed_heartbeatD [OF w, of h] by (simp add: eq)
next
  fix r
  assume "reconnectTimeout s' = Some r"
  then show "\<exists>d. timers s' r = Some (d, ReconnectTimer)"
    using wellFormed_reconnectD [OF w, of r] by (simp add: eq)
qed

lemma wellFormed_webSocketReady: "wellFormed s \<Longrightarrow> wellFormed (webSocketReady c ctor s)"
  by (erule wellFormed_mono)
    (simp_all add: webSocketReady_def Let_def connectCatch_def
      split: option.splits connect_await.splits sum.splits)

lemma wellFormed_onopen: "wellFormed s \<Longrightarrow> wellFormed (onopen k s)"
  by (simp add: onopen_def Let_def wellFormed_resubscribe wellFormed_startHeartbeat
      split: option.splits)

lemma wellFormed_onclose: "wellFormed s \<Longrightarrow> wellFormed (onclose k reason s)"
  by (simp add: onclose_def Let_def wellFormed_stopHeartbeat wellFormed_scheduleReconnect
      split: option.splits)

lemma wellFormed_onerror: "wellFormed s \<Longrightarrow> wellFormed (onerror k message s)"
  by (simp add: onerror_def Let_def split: option.splits)

lemma wellFormed_onmessage: "wellFormed s \<Longrightarrow> wellFormed (onmessage k data s)"
  by (simp add: onmessage_def wellFormed_handleMessage split: option.splits)

lemma wellFormed_disconnect: "wellFormed s \<Longrightarrow> wellFormed (disconnect s)"
  by (simp add: disconnect_def Let_def wellFormed_stopHeartbeat wellFormed_clearReconnectTimeout
      split: option.splits)

lemma wellFormed_step: "wellFormed s \<Longrightarrow> wellFormed (step e s)"
  by (cases e)
    (simp_all add: step_def wellFormed_connect wellFormed_disconnect wellFormed_calls
      wellFormed_tokenFetched wellFormed_webSocketReady wellFormed_onopen wellFormed_onclose
      wellFormed_onerror wellFormed_onmessage wellFormed_fireTimer)

lemma wellFormed_run: "wellFormed s \<Longrightarrow> wellFormed (run es s)"
  by (induction es arbitrary: s) (simp_all add: wellFormed_step)

lemma wellFormed_reachable: "wellFormed (run es (createRealtimeResource env config))"
  by (rule wellFormed_run) (rule wellFormed_init)

subsection \<open>Subscription timers stay armed\<close>

text \<open>An armed subscription timer survives everything but its own firing and its entry's frame.\<close>

lemma keep_stopHeartbeat:
  assumes "wellFormed s" "timers s t = Some (d, SubscriptionTimeout key p)"
  shows "timers (stopHeartbeat s) t = timers s t"
proof (cases "heartbeatInterval s")
  case None
  then show ?thesis by (simp add: stopHeartbeat_def)
next
  case (Some h)
  with wellFormed_heartbeatD [OF assms(1)] assms(2) have "h \<noteq> t" by auto
  then show ?thesis using Some by (simp add: stopHeartbeat_def)
qed

lemma keep_clearReconnectTimeout:
  assumes "wellFormed s" "timers s t = Some (d, SubscriptionTimeout key p)"
  shows "timers (clearReconnectTimeout s) t = timers s t"
proof (cases "reconnectTimeout s")
  case None
  then show ?thesis by (simp add: clearReconnectTimeout_def)
next
  case (Some r)
  with wellFormed_reconnectD [OF assms(1)] assms(2) have "r \<noteq> t" by auto
  then show ?thesis using Some by (simp add: clearReconnectTimeout_def)
qed

lemma nextId_stopHeartbeat [simp]: "nextId (stopHeartbeat s) = nextId s"
  by (simp add: stopHeartbeat_def split: option.splits)

lemma keep_startHeartbeat:
  assumes "wellFormed s" "timers s t = Some (d, SubscriptionTimeout key p)"
  shows "timers (startHeartbeat s) t = timers s t"
proof -
  have "t < nextId s" using wellFormed_boundD [OF assms] .
  then show ?thesis
    using keep_stopHeartbeat [OF assms] by (simp add: startHeartbeat_def Let_def)
qed

lemma keep_scheduleReconnect:
  assumes "wellFormed s" "timers s t = Some (d, SubscriptionTimeout key p)"
  shows "timers (scheduleReconnect s) t = timers s t"
proof -
  have "t < nextId s" using wellFormed_boundD [OF assms] .
  then show ?thesis
    by (simp add: scheduleReconnect_def Let_def)
qed

lemma keep_sendSubscription:
  assumes "wellFormed s" "timers s t = Some (d, SubscriptionTimeout key p)"
  shows "timers (snd (sendSubscription command s)) t = timers s t"
proof -
  have "t < nextId s" using wellFormed_boundD [OF assms] .
  then show ?thesis
    by (simp add: sendSubscription_def Let_def)
qed

lemma keep_calls:
  assumes "wellFormed s" "timers s t = Some (d, SubscriptionTimeout key p)"
  shows "timers (snd (subscribeAll s)) t = timers s t"
    and "timers (snd (unsubscribeAll s)) t = timers s t"
    and "timers (snd (subscribeChannels ids s)) t = timers s t"
    and "timers (snd (unsubscribeChannels ids s)) t = timers s t"
    and "timers (snd (subscribeEventTypes ts s)) t = timers s t"
    and "timers (snd (unsubscribeEventTypes ts s)) t = timers s t"
proof -
  have *: "wellFormed s' \<Longrightarrow> timers s' = timers s \<Longrightarrow>
           timers (snd (sendSubscription command s')) t = timers s t" for s' command
    using keep_sendSubscription [of s' t d key p command] assms(2) by simp
  show "timers (snd (subscribeAll s)) t = timers s t"
    and "timers (snd (unsubscribeAll s)) t = timers s t"
    and "timers (snd (subscribeChannels ids s)) t = timers s t"
    and "timers (snd (unsubscribeChannels ids s)) t = timers s t"
    and "timers (snd (subscribeEventTypes ts s)) t = timers s t"
    and "timers (snd (unsubscribeEventTypes ts s)) t = timers s t"
    using assms(1)
    by (simp_all add: subscribeAll_def unsubscribeAll_def subscribeChannels_def
      unsubscribeChannels_def subscribeEventTypes_def unsubscribeEventTypes_def *)
qed

lemma keep_awaitResubscribe:
  assumes "\<And>s'. wellFormed s' \<Longrightarrow> timers s' t = Some (d, SubscriptionTimeout key p) \<Longrightarrow>
             timers (k s') t = timers s' t"
    and "wellFormed (snd r)" "timers (snd r) t = Some (d, SubscriptionTimeout key p)"
  shows "timers (awaitResubscribe a k r) t = timers (snd r) t"
  using assms
  by (cases r) (simp add: awaitResubscribe_def split: option.splits promise.splits)

lemma keep_resubscribeEventTypes:
  assumes "wellFormed s" "timers s t = Some (d, SubscriptionTimeout key p)"
  shows "timers (resubscribeEventTypes s) t = timers s t"
proof (cases "eventTypes s = []")
  case True
  then show ?thesis by (simp add: resubscribeEventTypes_def)
next
  case False
  let ?r = "subscribeEventTypes (eventTypes s) s"
  have k: "timers (snd ?r) t = timers s t" using assms by (rule keep_calls)
  have "timers (awaitResubscribe AfterEventTypes (\<lambda>s'. s') ?r) t = timers (snd ?r) t"
    by (rule keep_awaitResubscribe [where d = d and key = key and p = p])
      (simp_all add: k assms wellFormed_calls)
  then show ?thesis using False k by (simp add: resubscribeEventTypes_def)
qed

lemma keep_resubscribeChannels:
  assumes "wellFormed s" "timers s t = Some (d, SubscriptionTimeout key p)"
  shows "timers (resubscribeChannels s) t = timers s t"
proof (cases "channels s = []")
  case True
  then show ?thesis using keep_resubscribeEventTypes [OF assms] by (simp add: resubscribeChannels_def)
next
  case False
  let ?r = "subscribeChannels (channels s) s"
  have k: "timers (snd ?r) t = timers s t" using assms by (rule keep_calls)
  have "timers (awaitResubscribe AfterChannels resubscribeEventTypes ?r) t = timers (snd ?r) t"
    by (rule keep_awaitResubscribe [where d = d and key = key and p = p])
      (simp_all add: k assms wellFormed_calls keep_resubscribeEventTypes)
  then show ?thesis using False k by (simp add: resubscribeChannels_def)
qed

lemma keep_resubscribe:
  assumes "wellFormed s" "timers s t = Some (d, SubscriptionTimeout key p)"
  shows "timers (resubscribe s) t = timers s t"
proof (cases "subscribedToAll s")
  case False
  then show ?thesis using keep_resubscribeChannels [OF assms] by (simp add: resubscribe_def)
next
  case True
  let ?r = "subscribeAll s"
  have k: "timers (snd ?r) t = timers s t" using assms by (rule keep_calls)
  have "timers (awaitResubscribe AfterAll resubscribeChannels ?r) t = timers (snd ?r) t"
    by (rule keep_awaitResubscribe [where d = d and key = key and p = p])
      (simp_all add: k assms wellFormed_calls keep_resubscribeChannels)
  then show ?thesis using True k by (simp add: resubscribe_def)
qed

lemma keep_resumeResubscribe:
  assumes "wellFormed s" "timers s t = Some (d, SubscriptionTimeout key p)"
  shows "timers (resumeResubscribe a s) t = timers s t"
  using keep_resubscribeChannels [OF assms] keep_resubscribeEventTypes [OF assms]
  by (cases a) (simp_all add: resumeResubscribe_def)


lemma keep_resolveSubscription:
  assumes w: "wellFormed s" and tm: "timers s t = Some (d, SubscriptionTimeout key p)"
    and un: "\<forall>t' d' key'. timers s t' \<noteq> Some (d', SubscriptionTimeout key' p')"
  shows "timers (resolveSubscription p' c s) t = timers s t"
proof (cases "subPromises s p' = Some Pending")
  case False
  then show ?thesis
    by (simp add: resolveSubscription_def split: option.splits promise.splits)
next
  case True
  let ?s1 = "s\<lparr>subPromises := (subPromises s)(p' \<mapsto> Fulfilled c)\<rparr>"
  have w1: "wellFormed ?s1" using w un by (rule wellFormed_settled)
  have "timers (resumeResubscribe a (?s1\<lparr>awaiters := (awaiters ?s1)(p' := None)\<rparr>)) t =
        timers s t" for a
    using keep_resumeResubscribe [of "?s1\<lparr>awaiters := (awaiters ?s1)(p' := None)\<rparr>" t d key p a]
      w1 tm by simp
  then show ?thesis
    using True by (simp add: resolveSubscription_def Let_def split: option.splits)
qed

lemma keep_handleMessage:
  assumes w: "wellFormed s" and tm: "timers s t = Some (d, SubscriptionTimeout key p)"
    and other: "\<And>c. data = ConfirmationFrame c \<Longrightarrow>
                  getSubscriptionKey (action c) (subscriptionType c) \<noteq> key \<or>
                  pendingSubscriptions s key \<noteq> Some (t, p)"
  shows "timers (handleMessage data s) t = timers s t"
proof (cases data)
  case (ConfirmationFrame c)
  let ?key = "getSubscriptionKey (action c) (subscriptionType c)"
  show ?thesis
  proof (cases "pendingSubscriptions s ?key")
    case None
    then show ?thesis using ConfirmationFrame by (simp add: handleMessage_def)
  next
    case (Some entry)
    obtain t' p' where entry: "entry = (t', p')" by (cases entry)
    have tm': "timers s t' = Some (SUBSCRIPTION_TIMEOUT, SubscriptionTimeout ?key p')"
      using wellFormed_entryD [OF w] Some entry by simp
    have ne: "t' \<noteq> t"
    proof
      assume "t' = t"
      with tm tm' have "?key = key" "p' = p" by simp_all
      with Some entry \<open>t' = t\<close> other [OF ConfirmationFrame] show False by simp
    qed
    let ?s0 = "s\<lparr>timers := (timers s)(t' := None),
                  pendingSubscriptions := (pendingSubscriptions s)(?key := None)\<rparr>"
    let ?s' = "s\<lparr>pendingSubscriptions := (pendingSubscriptions s)(?key := None),
                  timers := (timers s)(t' := None)\<rparr>"
    have "wellFormed ?s0"
      using w tm' by (rule wellFormed_timer_removed)
    moreover have "?s' = ?s0" by simp
    ultimately have w': "wellFormed ?s'" by (simp only:)
    have un: "\<forall>t'' d' key'. timers ?s' t'' \<noteq> Some (d', SubscriptionTimeout key' p')"
      using timer_removed_unreferenced [OF w tm'] by simp
    have tms: "timers ?s' t = Some (d, SubscriptionTimeout key p)"
      using tm ne by simp
    have a: "timers (resolveSubscription p' c ?s') t = timers ?s' t"
      using w' tms un by (rule keep_resolveSubscription)
    have b: "timers (rejectSubscription p' e ?s') t = timers ?s' t" for e
      by simp
    show ?thesis
      using ConfirmationFrame Some entry a b ne
      by (simp add: handleMessage_def pendingResolve_def pendingReject_def Let_def)
  qed
qed (simp_all add: handleMessage_def emitEvent_def split: option.splits)

lemma timers_connect [simp]: "timers (snd (connect s)) = timers s"
  by (simp add: connect_def Let_def)

lemma keep_fireTimer:
  assumes w: "wellFormed s" and tm: "timers s t = Some (d, SubscriptionTimeout key p)"
    and ne: "t' \<noteq> t"
  shows "timers (fireTimer t' s) t = timers s t"
proof (cases "timers s t'")
  case None
  then show ?thesis by (simp add: fireTimer_def)
next
  case (Some x)
  obtain d' cb where x: "x = (d', cb)" by (cases x)
  show ?thesis
    using Some x ne
    by (cases cb) (simp_all add: fireTimer_def split: option.splits)
qed

lemma keep_tokenFetched: "timers (tokenFetched c r s) = timers s"
  by (simp add: tokenFetched_def connectCatch_def split: option.splits connect_await.splits sum.splits)

lemma keep_webSocketReady: "timers (webSocketReady c ctor s) = timers s"
  by (simp add: webSocketReady_def connectCatch_def Let_def
      split: option.splits connect_await.splits sum.splits)

lemma keep_onopen:
  assumes w: "wellFormed s" and tm: "timers s t = Some (d, SubscriptionTimeout key p)"
  shows "timers (onopen k s) t = timers s t"
proof (cases "sockets s k")
  case None
  then show ?thesis by (simp add: onopen_def)
next
  case (Some info)
  let ?s2 = "(setState Connected (s\<lparr>readyState := (readyState s)(k \<mapsto> OPEN)\<rparr>))
               \<lparr>reconnectAttempts := 0\<rparr>"
  have w2: "wellFormed ?s2" using w by simp
  have t2: "timers ?s2 t = Some (d, SubscriptionTimeout key p)" using tm by simp
  have w3: "wellFormed (startHeartbeat ?s2)" using w2 by (rule wellFormed_startHeartbeat)
  have t3: "timers (startHeartbeat ?s2) t = Some (d, SubscriptionTimeout key p)"
    using keep_startHeartbeat [OF w2 t2] t2 by simp
  have "timers (resubscribe (startHeartbeat ?s2)) t = Some (d, SubscriptionTimeout key p)"
    using keep_resubscribe [OF w3 t3] t3 by simp
  then show ?thesis
    using Some tm by (simp add: onopen_def Let_def)
qed

lemma keep_onclose:
  assumes w: "wellFormed s" and tm: "timers s t = Some (d, SubscriptionTimeout key p)"
  shows "timers (onclose k reason s) t = timers s t"
proof (cases "sockets s k")
  case None
  then show ?thesis by (simp add: onclose_def)
next
  case (Some info)
  let ?r = "s\<lparr>readyState := (readyState s)(k \<mapsto> CLOSED)\<rparr>"
  let ?s2 = "(stopHeartbeat ?r)\<lparr>ws := None\<rparr>"
  have wr: "wellFormed ?r" using w by simp
  have tr: "timers ?r t = Some (d, SubscriptionTimeout key p)" using tm by simp
  have w1: "wellFormed (stopHeartbeat ?r)" using wr by (rule wellFormed_stopHeartbeat)
  have t1: "timers (stopHeartbeat ?r) t = Some (d, SubscriptionTimeout key p)"
    using keep_stopHeartbeat [OF wr tr] tm by simp
  let ?s3 = "setState Disconnected ?s2"
  have w3: "wellFormed ?s3" using w1 by simp
  have t3: "timers ?s3 t = Some (d, SubscriptionTimeout key p)" using t1 by simp
  have "timers (scheduleReconnect ?s3) t = Some (d, SubscriptionTimeout key p)"
    using keep_scheduleReconnect [OF w3 t3] t3 by simp
  then show ?thesis
    using Some tm t1 by (simp add: onclose_def Let_def)
qed

lemma keep_onerror: "timers (onerror k message s) = timers s"
  by (simp add: onerror_def Let_def split: option.splits)

lemma keep_disconnect:
  assumes w: "wellFormed s" and tm: "timers s t = Some (d, SubscriptionTimeout key p)"
  shows "timers (disconnect s) t = timers s t"
proof -
  let ?s1 = "s\<lparr>autoReconnect := False\<rparr>"
  have w1: "wellFormed ?s1" using w by simp
  have t1: "timers ?s1 t = Some (d, SubscriptionTimeout key p)" using tm by simp
  have w2: "wellFormed (clearReconnectTimeout ?s1)"
    using w1 by (rule wellFormed_clearReconnectTimeout)
  have t2: "timers (clearReconnectTimeout ?s1) t = Some (d, SubscriptionTimeout key p)"
    using keep_clearReconnectTimeout [OF w1 t1] t1 by simp
  have "timers (stopHeartbeat (clearReconnectTimeout ?s1)) t = Some (d, SubscriptionTimeout key p)"
    using keep_stopHeartbeat [OF w2 t2] t2 by simp
  then show ?thesis
    using tm by (simp add: disconnect_def Let_def split: option.splits)
qed


lemma keep_onmessage:
  assumes w: "wellFormed s" and tm: "timers s t = Some (d, SubscriptionTimeout key p)"
    and "\<not> confirms key (OnMessage k data)"
  shows "timers (onmessage k data s) t = timers s t"
proof (cases "sockets s k")
  case None
  then show ?thesis by (simp add: onmessage_def)
next
  case (Some info)
  have "timers (handleMessage data s) t = timers s t"
    using w tm
  proof (rule keep_handleMessage)
    fix c assume "data = ConfirmationFrame c"
    with assms(3)
    show "getSubscriptionKey (action c) (subscriptionType c) \<noteq> key \<or>
          pendingSubscriptions s key \<noteq> Some (t, p)"
      by (simp add: confirms_def)
  qed
  then show ?thesis using Some by (simp add: onmessage_def)
qed

lemma keep_step:
  assumes w: "wellFormed s" and tm: "timers s t = Some (d, SubscriptionTimeout key p)"
    and "e \<noteq> FireTimer t" "\<not> confirms key e"
  shows "timers (step e s) t = timers s t"
proof (cases e)
  case (OnMessage k data)
  then show ?thesis using keep_onmessage [OF w tm] assms(4) by (simp add: step_def)
next
  case (FireTimer t')
  then show ?thesis using keep_fireTimer [OF w tm, of t'] assms(3) by (simp add: step_def)
qed (simp_all add: step_def keep_calls [OF w tm] keep_disconnect [OF w tm] keep_onopen [OF w tm]
      keep_onclose [OF w tm] keep_onerror keep_tokenFetched keep_webSocketReady)

lemma keep_run:
  assumes "wellFormed s" "timers s t = Some (d, SubscriptionTimeout key p)"
    and "\<forall>e \<in> set es. e \<noteq> FireTimer t \<and> \<not> confirms key e"
  shows "timers (run es s) t = Some (d, SubscriptionTimeout key p)"
  using assms
proof (induction es arbitrary: s)
  case Nil
  then show ?case by simp
next
  case (Cons e es)
  have "timers (step e s) t = Some (d, SubscriptionTimeout key p)"
    using keep_step [OF Cons.prems(1,2), of e] Cons.prems by simp
  moreover have "wellFormed (step e s)"
    using Cons.prems(1) by (rule wellFormed_step)
  ultimately show ?case
    using Cons.IH [of "step e s"] Cons.prems(3) by simp
qed

subsection \<open>connect calls in flight\<close>

lemma connectsPending_init: "connectsPending (createRealtimeResource env config)"
  by (simp add: connectsPending_def createRealtimeResource_def)

lemma connectsPending_mono:
  assumes "connectsPending s" "connects s' = connects s" "connectPromises s' = connectPromises s"
    "sockets s' = sockets s" "nextId s \<le> nextId s'"
  shows "connectsPending s'"
  using assms unfolding connectsPending_def
  by (metis less_le_trans)

lemma aside_refl [simp]: "aside s s"
  by (simp add: aside_def)

lemma aside_trans: "aside s s' \<Longrightarrow> aside s' s'' \<Longrightarrow> aside s s''"
  by (auto simp: aside_def)

lemma connectsPending_aside: "connectsPending s \<Longrightarrow> aside s s' \<Longrightarrow> connectsPending s'"
  unfolding aside_def using connectsPending_mono by blast

lemma aside_small [simp]:
  "aside s (setState st s)"
  "aside s (emitError m s)"
  "aside s (emitEvent ev s)"
  "aside s (stopHeartbeat s)"
  "aside s (startHeartbeat s)"
  "aside s (clearReconnectTimeout s)"
  "aside s (scheduleReconnect s)"
  "aside s (snd (sendSubscription command s))"
  by (simp_all add: aside_def emitError_def emitEvent_def scheduleReconnect_def
      sendSubscription_def Let_def)


lemma aside_update [simp]:
  "aside s (s\<lparr>subscribedToAll := a\<rparr>)"
  "aside s (s\<lparr>channels := b\<rparr>)"
  "aside s (s\<lparr>eventTypes := b\<rparr>)"
  "aside s (s\<lparr>readyState := rs\<rparr>)"
  by (simp_all add: aside_def)

lemma aside_calls [simp]:
  "aside s (snd (subscribeAll s))"
  "aside s (snd (unsubscribeAll s))"
  "aside s (snd (subscribeChannels ids s))"
  "aside s (snd (unsubscribeChannels ids s))"
  "aside s (snd (subscribeEventTypes ts s))"
  "aside s (snd (unsubscribeEventTypes ts s))"
  by (simp_all add: aside_def subscribeAll_def unsubscribeAll_def subscribeChannels_def
      unsubscribeChannels_def subscribeEventTypes_def unsubscribeEventTypes_def
      sendSubscription_def Let_def)

lemma aside_awaitResubscribe:
  assumes "\<And>s'. aside s' (k s')"
  shows "aside (snd r) (awaitResubscribe a k r)"
  using assms
  by (cases r)
    (simp add: awaitResubscribe_def aside_def emitError_def split: option.splits promise.splits)

lemma aside_resubscribeEventTypes [simp]: "aside s (resubscribeEventTypes s)"
proof (cases "eventTypes s = []")
  case True
  then show ?thesis by (simp add: resubscribeEventTypes_def)
next
  case False
  have "aside (snd (subscribeEventTypes (eventTypes s) s))
          (awaitResubscribe AfterEventTypes (\<lambda>s'. s') (subscribeEventTypes (eventTypes s) s))"
    by (rule aside_awaitResubscribe) simp
  then show ?thesis
    using False aside_trans [OF aside_calls(5)] by (simp add: resubscribeEventTypes_def)
qed

lemma aside_resubscribeChannels [simp]: "aside s (resubscribeChannels s)"
proof (cases "channels s = []")
  case True
  then show ?thesis by (simp add: resubscribeChannels_def)
next
  case False
  have "aside (snd (subscribeChannels (channels s) s))
          (awaitResubscribe AfterChannels resubscribeEventTypes (subscribeChannels (channels s) s))"
    by (rule aside_awaitResubscribe) simp
  then show ?thesis
    using False aside_trans [OF aside_calls(3)] by (simp add: resubscribeChannels_def)
qed

lemma aside_resubscribe [simp]: "aside s (resubscribe s)"
proof (cases "subscribedToAll s")
  case False
  then show ?thesis by (simp add: resubscribe_def)
next
  case True
  have "aside (snd (subscribeAll s))
          (awaitResubscribe AfterAll resubscribeChannels (subscribeAll s))"
    by (rule aside_awaitResubscribe) simp
  then show ?thesis
    using True aside_trans [OF aside_calls(1)] by (simp add: resubscribe_def)
qed

lemma aside_resumeResubscribe [simp]: "aside s (resumeResubscribe a s)"
  by (cases a) (simp_all add: resumeResubscribe_def)

lemma aside_fields:
  "connects s' = connects s \<Longrightarrow> connectPromises s' = connectPromises s \<Longrightarrow>
   sockets s' = sockets s \<Longrightarrow> nextId s' = nextId s \<Longrightarrow> aside s' s'' \<Longrightarrow> aside s s''"
  by (simp add: aside_def)

lemma aside_resolveSubscription [simp]: "aside s (resolveSubscription p c s)"
proof (cases "subPromises s p = Some Pending")
  case False
  then show ?thesis by (simp add: resolveSubscription_def split: option.splits promise.splits)
next
  case True
  have "aside s (resumeResubscribe a
      (s\<lparr>subPromises := (subPromises s)(p \<mapsto> Fulfilled c),
         awaiters := (awaiters s)(p := None)\<rparr>))" for a
    by (rule aside_fields [OF _ _ _ _ aside_resumeResubscribe]) simp_all
  then show ?thesis
    using True by (simp add: resolveSubscription_def Let_def aside_def split: option.splits)
qed

lemma aside_rejectSubscription [simp]: "aside s (rejectSubscription p e s)"
  by (simp add: rejectSubscription_def Let_def aside_def emitError_def
      split: option.splits promise.splits)

lemma aside_handleMessage [simp]: "aside s (handleMessage data s)"
proof (cases data)
  case (ConfirmationFrame c)
  let ?key = "getSubscriptionKey (action c) (subscriptionType c)"
  show ?thesis
  proof (cases "pendingSubscriptions s ?key")
    case None
    then show ?thesis using ConfirmationFrame by (simp add: handleMessage_def)
  next
    case (Some entry)
    obtain t p where entry: "entry = (t, p)" by (cases entry)
    let ?s' = "s\<lparr>pendingSubscriptions := (pendingSubscriptions s)(?key := None),
                  timers := (timers s)(t := None)\<rparr>"
    have "aside s (resolveSubscription p c ?s')"
      by (rule aside_fields [OF _ _ _ _ aside_resolveSubscription]) simp_all
    moreover have "aside s (rejectSubscription p e ?s')" for e
      by (rule aside_fields [OF _ _ _ _ aside_rejectSubscription]) simp_all
    ultimately show ?thesis
      using ConfirmationFrame Some entry
      by (simp add: handleMessage_def pendingResolve_def pendingReject_def Let_def)
  qed
qed (simp_all add: handleMessage_def split: option.splits)

lemma aside_disconnect [simp]: "aside s (disconnect s)"
  by (simp add: disconnect_def Let_def aside_def split: option.splits)


lemma connectsPending_pendingD:
  "connectsPending s \<Longrightarrow> connects s c = Some a \<Longrightarrow> connectPromises s c = Some Pending"
  unfolding connectsPending_def by blast

lemma connectsPending_socketD:
  "connectsPending s \<Longrightarrow> sockets s k = Some info \<Longrightarrow> connects s (sockConnect info) = None"
  unfolding connectsPending_def by blast

lemma connectsPending_settled:
  assumes "connectsPending s" "connects s c = None"
  shows "connectsPending (rejectConnect c e s)" and "connectsPending (resolveConnect c s)"
  using assms unfolding connectsPending_def rejectConnect_def resolveConnect_def
  by (auto split: option.splits promise.splits)

lemma connectsPending_setState [simp]: "connectsPending (setState st s) = connectsPending s"
  by (simp add: connectsPending_def)

lemma connectsPending_connect: "connectsPending s \<Longrightarrow> connectsPending (snd (connect s))"
  unfolding connectsPending_def connect_def Let_def
  by (auto split: if_splits intro: less_SucI) (force+)

lemma connectsPending_tokenFetched:
  assumes "connectsPending s"
  shows "connectsPending (tokenFetched c r s)"
proof (cases "connects s c = Some AwaitToken")
  case False
  then show ?thesis
    using assms by (simp add: tokenFetched_def split: option.splits connect_await.splits)
next
  case True
  show ?thesis
  proof (cases r)
    case (Inl e)
    let ?s0 = "s\<lparr>connects := (connects s)(c := None)\<rparr>"
    have "connectsPending ?s0"
      using assms unfolding connectsPending_def by auto
    then have "connectsPending (rejectConnect c e (setState Disconnected ?s0))"
      by (intro connectsPending_settled) simp_all
    then show ?thesis
      using True Inl by (simp add: tokenFetched_def connectCatch_def)
  next
    case (Inr token)
    have "connectsPending (s\<lparr>connects := (connects s)(c \<mapsto> AwaitWebSocket token)\<rparr>)"
      using assms True unfolding connectsPending_def by auto
    then show ?thesis
      using True Inr by (simp add: tokenFetched_def)
  qed
qed

lemma connectsPending_webSocketReady:
  assumes "connectsPending s"
  shows "connectsPending (webSocketReady c ctor s)"
proof (cases "\<exists>token. connects s c = Some (AwaitWebSocket token)")
  case False
  then show ?thesis
    using assms by (simp add: webSocketReady_def split: option.splits connect_await.splits)
next
  case True
  then obtain token where tok: "connects s c = Some (AwaitWebSocket token)" ..
  let ?s0 = "s\<lparr>connects := (connects s)(c := None)\<rparr>"
  have p0: "connectsPending ?s0"
    using assms unfolding connectsPending_def by auto
  have fail: "connectsPending (connectCatch c e ?s0)" for e
    unfolding connectCatch_def using p0 by (intro connectsPending_settled) simp_all
  have c: "c < nextId s"
    using assms tok unfolding connectsPending_def by blast
  have made: "connectsPending (?s0\<lparr>ws := Some (nextId ?s0),
       sockets := (sockets ?s0)(nextId ?s0 \<mapsto>
         \<lparr>sockUrl = url ?s0, sockToken = token, sockConnect = c, sockPing = ping\<rparr>),
       readyState := (readyState ?s0)(nextId ?s0 \<mapsto> CONNECTING),
       opened := opened ?s0 @ [nextId ?s0], nextId := nextId ?s0 + 1\<rparr>)" for ping
    using p0 c unfolding connectsPending_def by (auto intro: less_SucI)
  show ?thesis
    using tok fail made
    by (simp add: webSocketReady_def Let_def split: sum.splits option.splits)
qed

lemma connectsPending_onopen:
  assumes "connectsPending s"
  shows "connectsPending (onopen k s)"
proof (cases "sockets s k")
  case None
  then show ?thesis using assms by (simp add: onopen_def)
next
  case (Some info)
  let ?s4 = "resubscribe (startHeartbeat
      (setState Connected (s\<lparr>readyState := (readyState s)(k \<mapsto> OPEN)\<rparr>)
         \<lparr>reconnectAttempts := 0\<rparr>))"
  have "aside s ?s4"
    by (rule aside_fields [OF _ _ _ _ aside_trans [OF aside_small(5) aside_resubscribe],
          of "setState Connected (s\<lparr>readyState := (readyState s)(k \<mapsto> OPEN)\<rparr>)
                \<lparr>reconnectAttempts := 0\<rparr>"]) simp_all
  then have a: "aside s ?s4" .
  have p4: "connectsPending ?s4"
    using assms a by (rule connectsPending_aside)
  have "connects ?s4 (sockConnect info) = None"
    using a connectsPending_socketD [OF assms Some] by (simp add: aside_def)
  with p4 have "connectsPending (resolveConnect (sockConnect info) ?s4)"
    by (rule connectsPending_settled)
  then show ?thesis
    using Some by (simp add: onopen_unfold)
qed

lemma connectsPending_onclose:
  assumes "connectsPending s"
  shows "connectsPending (onclose k reason s)"
proof (cases "sockets s k")
  case None
  then show ?thesis using assms by (simp add: onclose_def)
next
  case (Some info)
  let ?s2 = "(stopHeartbeat (s\<lparr>readyState := (readyState s)(k \<mapsto> CLOSED)\<rparr>))\<lparr>ws := None\<rparr>"
  have a2: "aside s ?s2" by (simp add: aside_def)
  have p2: "connectsPending ?s2" using assms a2 by (rule connectsPending_aside)
  have n2: "connects ?s2 (sockConnect info) = None"
    using connectsPending_socketD [OF assms Some] by simp
  have r: "connectsPending (rejectConnect (sockConnect info) e ?s2)" for e
    using p2 n2 by (rule connectsPending_settled)
  have "aside ?s2 (scheduleReconnect (setState Disconnected ?s2))"
    by (rule aside_trans [OF aside_small(1) aside_small(7)])
  with p2 have "connectsPending (scheduleReconnect (setState Disconnected ?s2))"
    by (rule connectsPending_aside)
  then show ?thesis
    using Some r p2 by (simp add: onclose_def Let_def)
qed

lemma connectsPending_onerror:
  assumes "connectsPending s"
  shows "connectsPending (onerror k message s)"
proof (cases "sockets s k")
  case None
  then show ?thesis using assms by (simp add: onerror_def)
next
  case (Some info)
  have p1: "connectsPending (emitError m s)" for m
    using assms aside_small(2) by (rule connectsPending_aside)
  have "connects (emitError m s) (sockConnect info) = None" for m
    using connectsPending_socketD [OF assms Some] by (simp add: emitError_def)
  with p1 have "connectsPending (rejectConnect (sockConnect info) e (emitError m s))" for e m
    by (rule connectsPending_settled)
  then show ?thesis
    using Some p1 by (simp add: onerror_def Let_def)
qed

lemma connectsPending_fireTimer:
  assumes "connectsPending s"
  shows "connectsPending (fireTimer t s)"
proof (cases "timers s t")
  case None
  then show ?thesis using assms by (simp add: fireTimer_def)
next
  case (Some x)
  obtain d cb where x: "x = (d, cb)" by (cases x)
  show ?thesis
  proof (cases cb)
    case (SubscriptionTimeout key p)
    let ?s' = "s\<lparr>timers := (timers s)(t := None),
                  pendingSubscriptions := (pendingSubscriptions s)(key := None)\<rparr>"
    have "aside s (rejectSubscription p ''Subscription timeout'' ?s')"
      by (rule aside_fields [OF _ _ _ _ aside_rejectSubscription]) simp_all
    with assms have "connectsPending (rejectSubscription p ''Subscription timeout'' ?s')"
      by (rule connectsPending_aside)
    then show ?thesis
      using Some x SubscriptionTimeout by (simp add: fireTimer_def)
  next
    case ReconnectTimer
    let ?s' = "s\<lparr>timers := (timers s)(t := None), reconnectTimeout := None\<rparr>"
    have "connectsPending ?s'"
      using assms by (simp add: connectsPending_def)
    then have "connectsPending (snd (connect ?s'))"
      by (rule connectsPending_connect)
    then show ?thesis
      using Some x ReconnectTimer by (simp add: fireTimer_def)
  next
    case HeartbeatTimer
    have "connectsPending (s\<lparr>pings := ps\<rparr>)" for ps
      using assms by (simp add: connectsPending_def)
    then show ?thesis
      using Some x HeartbeatTimer assms by (simp add: fireTimer_def split: option.splits)
  qed
qed

lemma connectsPending_step: "connectsPending s \<Longrightarrow> connectsPending (step e s)"
proof (cases e)
  case (OnMessage k data)
  assume "connectsPending s"
  then show ?thesis
    using OnMessage connectsPending_aside [OF _ aside_handleMessage]
    by (simp add: step_def onmessage_def split: option.splits)
qed (simp_all add: step_def connectsPending_connect connectsPending_tokenFetched
      connectsPending_webSocketReady connectsPending_onopen connectsPending_onclose
      connectsPending_onerror connectsPending_fireTimer
      connectsPending_aside [OF _ aside_disconnect] connectsPending_aside [OF _ aside_calls(1)]
      connectsPending_aside [OF _ aside_calls(2)] connectsPending_aside [OF _ aside_calls(3)]
      connectsPending_aside [OF _ aside_calls(4)] connectsPending_aside [OF _ aside_calls(5)]
      connectsPending_aside [OF _ aside_calls(6)])

lemma connectsPending_run: "connectsPending s \<Longrightarrow> connectsPending (run es s)"
  by (induction es arbitrary: s) (simp_all add: connectsPending_step)

lemma connectsPending_reachable: "connectsPending (run es (createRealtimeResource env config))"
  by (simp add: connectsPending_run connectsPending_init)


text \<open>
  C9.  A \<open>connect\<close> call that goes ahead waits for the token fetcher with a pending
  promise.  In any state the object can reach, a connect call that is waiting for its
  token still has its promise pending; if the token fetcher throws, the promise is
  rejected with that error and the state is \<open>disconnected\<close>, while the socket handle,
  the sockets constructed, the heartbeat handle, the reconnect timer handle, the attempt
  counter and the armed timers are all as before: no socket is stored, no heartbeat is
  started, no reconnect is scheduled.  The same holds for a call that has its token and
  waits for the WebSocket implementation, when the lookup throws.
\<close>

theorem connect_failure_before_socket:
  "(state s \<noteq> Connected \<and> state s \<noteq> Connecting \<longrightarrow>
      fst (connect s) = Some (nextId s) \<and>
      connects (snd (connect s)) (nextId s) = Some AwaitToken \<and>
      connectPromises (snd (connect s)) (nextId s) = Some Pending) \<and>
   (r = run es (createRealtimeResource env config) \<and> connects r c = Some AwaitToken \<longrightarrow>
      connectPromises r c = Some Pending \<and>
      connects (tokenFetched c (Inr token) r) c = Some (AwaitWebSocket token) \<and>
      connectPromises (tokenFetched c (Inr token) r) c = Some Pending \<and>
      connectPromises (tokenFetched c (Inl e) r) c = Some (Rejected e) \<and>
      state (tokenFetched c (Inl e) r) = Disconnected \<and>
      ws (tokenFetched c (Inl e) r) = ws r \<and>
      sockets (tokenFetched c (Inl e) r) = sockets r \<and>
      opened (tokenFetched c (Inl e) r) = opened r \<and>
      heartbeatInterval (tokenFetched c (Inl e) r) = heartbeatInterval r \<and>
      reconnectTimeout (tokenFetched c (Inl e) r) = reconnectTimeout r \<and>
      reconnectAttempts (tokenFetched c (Inl e) r) = reconnectAttempts r \<and>
      timers (tokenFetched c (Inl e) r) = timers r) \<and>
   (r' = run es' (createRealtimeResource env' config') \<and>
    connects r' c' = Some (AwaitWebSocket token') \<and> getWebSocket (runtimeEnv r') = Inl e' \<longrightarrow>
      connectPromises r' c' = Some Pending \<and>
      connectPromises (webSocketReady c' ctor r') c' = Some (Rejected e') \<and>
      state (webSocketReady c' ctor r') = Disconnected \<and>
      ws (webSocketReady c' ctor r') = ws r' \<and>
      sockets (webSocketReady c' ctor r') = sockets r' \<and>
      opened (webSocketReady c' ctor r') = opened r' \<and>
      heartbeatInterval (webSocketReady c' ctor r') = heartbeatInterval r' \<and>
      reconnectTimeout (webSocketReady c' ctor r') = reconnectTimeout r' \<and>
      reconnectAttempts (webSocketReady c' ctor r') = reconnectAttempts r' \<and>
      timers (webSocketReady c' ctor r') = timers r')"
proof -
  have one: "state s \<noteq> Connected \<and> state s \<noteq> Connecting \<longrightarrow>
      fst (connect s) = Some (nextId s) \<and>
      connects (snd (connect s)) (nextId s) = Some AwaitToken \<and>
      connectPromises (snd (connect s)) (nextId s) = Some Pending"
    using connect_starts [of s] by simp
  have two: "connectPromises r c = Some Pending \<and>
      connects (tokenFetched c (Inr token) r) c = Some (AwaitWebSocket token) \<and>
      connectPromises (tokenFetched c (Inr token) r) c = Some Pending \<and>
      connectPromises (tokenFetched c (Inl e) r) c = Some (Rejected e) \<and>
      state (tokenFetched c (Inl e) r) = Disconnected \<and>
      ws (tokenFetched c (Inl e) r) = ws r \<and>
      sockets (tokenFetched c (Inl e) r) = sockets r \<and>
      opened (tokenFetched c (Inl e) r) = opened r \<and>
      heartbeatInterval (tokenFetched c (Inl e) r) = heartbeatInterval r \<and>
      reconnectTimeout (tokenFetched c (Inl e) r) = reconnectTimeout r \<and>
      reconnectAttempts (tokenFetched c (Inl e) r) = reconnectAttempts r \<and>
      timers (tokenFetched c (Inl e) r) = timers r"
    if r: "r = run es (createRealtimeResource env config)" and w: "connects r c = Some AwaitToken"
  proof -
    have "connectsPending r" unfolding r by (rule connectsPending_reachable)
    then have p: "connectPromises r c = Some Pending"
      using w by (rule connectsPending_pendingD)
    show ?thesis
      using p tokenFetched_token [OF w, of token] tokenFetched_throws [OF w p, of e] by simp
  qed
  have three: "connectPromises r' c' = Some Pending \<and>
      connectPromises (webSocketReady c' ctor r') c' = Some (Rejected e') \<and>
      state (webSocketReady c' ctor r') = Disconnected \<and>
      ws (webSocketReady c' ctor r') = ws r' \<and>
      sockets (webSocketReady c' ctor r') = sockets r' \<and>
      opened (webSocketReady c' ctor r') = opened r' \<and>
      heartbeatInterval (webSocketReady c' ctor r') = heartbeatInterval r' \<and>
      reconnectTimeout (webSocketReady c' ctor r') = reconnectTimeout r' \<and>
      reconnectAttempts (webSocketReady c' ctor r') = reconnectAttempts r' \<and>
      timers (webSocketReady c' ctor r') = timers r'"
    if r: "r' = run es' (createRealtimeResource env' config')"
      and w: "connects r' c' = Some (AwaitWebSocket token')"
      and g: "getWebSocket (runtimeEnv r') = Inl e'"
  proof -
    have "connectsPending r'" unfolding r by (rule connectsPending_reachable)
    then have p: "connectPromises r' c' = Some Pending"
      using w by (rule connectsPending_pendingD)
    show ?thesis
      using p webSocketReady_throws [OF w p g, of ctor] by simp
  qed
  show ?thesis
    using one two three by blast
qed


theorem connect_failure_before_socket_witness:
  "state (createRealtimeResource (Node False) defaultConfig) = Disconnected \<and>
   connects (snd (connect (createRealtimeResource (Node False) defaultConfig))) 0 = Some AwaitToken \<and>
   connects (run [Connect, SubscribeAll] (createRealtimeResource (Node False) defaultConfig)) 0 =
     Some AwaitToken \<and>
   connectPromises
     (tokenFetched 0 (Inl ''unauthorized'')
        (run [Connect, SubscribeAll] (createRealtimeResource (Node False) defaultConfig))) 0 =
     Some (Rejected ''unauthorized'') \<and>
   state
     (tokenFetched 0 (Inl ''unauthorized'')
        (run [Connect, SubscribeAll] (createRealtimeResource (Node False) defaultConfig))) =
     Disconnected \<and>
   ws
     (tokenFetched 0 (Inl ''unauthorized'')
        (run [Connect,
              SubscribeAll] (createRealtimeResource (Node False) defaultConfig))) = None \<and>
   connects
     (run [Connect, TokenFetched 0 (Inr ''tok'')]
        (createRealtimeResource (Node False) defaultConfig)) 0 = Some (AwaitWebSocket ''tok'') \<and>
   getWebSocket (Node False) =
     Inl ''WebSocket is not available. In Node.js, install the \"ws\" package: npm install ws'' \<and>
   connectPromises
     (webSocketReady 0 None
        (run [Connect, TokenFetched 0 (Inr ''tok'')]
           (createRealtimeResource (Node False) defaultConfig))) 0 =
     Some (Rejected
       ''WebSocket is not available. In Node.js, install the \"ws\" package: npm install ws'') \<and>
   state
     (webSocketReady 0 None
        (run [Connect, TokenFetched 0 (Inr ''tok'')]
           (createRealtimeResource (Node False) defaultConfig))) = Disconnected \<and>
   ws
     (webSocketReady 0 None
        (run [Connect, TokenFetched 0 (Inr ''tok'')]
           (createRealtimeResource (Node False) defaultConfig))) = None \<and>
   timers
     (webSocketReady 0 None
        (run [Connect, TokenFetched 0 (Inr ''tok'')]
           (createRealtimeResource (Node False) defaultConfig))) = Map.empty"
  using connect_failure_before_socket
    [where s = "createRealtimeResource (Node False) defaultConfig"
       and r = "run [Connect, SubscribeAll] (createRealtimeResource (Node False) defaultConfig)"
       and es = "[Connect, SubscribeAll]" and env = "Node False" and config = defaultConfig
       and c = 0 and e = "''unauthorized''"
       and r' = "run [Connect, TokenFetched 0 (Inr ''tok'')]
                   (createRealtimeResource (Node False) defaultConfig)"
       and es' = "[Connect, TokenFetched 0 (Inr ''tok'')]" and env' = "Node False"
       and config' = defaultConfig and c' = 0 and token' = "''tok''"
       and e' = "''WebSocket is not available. In Node.js, install the \"ws\" package: npm install ws''"
       and ctor = None]
  by (simp add: run_defs)

subsection \<open>The confirmation timeout\<close>

lemma old_sendSubscription:
  "p < nextId s \<Longrightarrow> subPromises (snd (sendSubscription command s)) p = subPromises s p"
  by (simp add: sendSubscription_def Let_def)

lemma nextId_aside: "aside s s' \<Longrightarrow> p < nextId s \<Longrightarrow> p < nextId s'"
  by (simp add: aside_def)

lemma old_calls:
  assumes "p < nextId s"
  shows "subPromises (snd (subscribeAll s)) p = subPromises s p"
    and "subPromises (snd (unsubscribeAll s)) p = subPromises s p"
    and "subPromises (snd (subscribeChannels ids s)) p = subPromises s p"
    and "subPromises (snd (unsubscribeChannels ids s)) p = subPromises s p"
    and "subPromises (snd (subscribeEventTypes ts s)) p = subPromises s p"
    and "subPromises (snd (unsubscribeEventTypes ts s)) p = subPromises s p"
  using assms
  by (simp_all add: subscribeAll_def unsubscribeAll_def subscribeChannels_def
      unsubscribeChannels_def subscribeEventTypes_def unsubscribeEventTypes_def
      old_sendSubscription)

lemma old_awaitResubscribe:
  assumes "\<And>s'. p < nextId s' \<Longrightarrow> subPromises (k s') p = subPromises s' p"
    and "p < nextId (snd r)"
  shows "subPromises (awaitResubscribe a k r) p = subPromises (snd r) p"
  using assms
  by (cases r) (simp add: awaitResubscribe_def split: option.splits promise.splits)

lemma old_resubscribeEventTypes:
  assumes "p < nextId s"
  shows "subPromises (resubscribeEventTypes s) p = subPromises s p"
proof (cases "eventTypes s = []")
  case True
  then show ?thesis by (simp add: resubscribeEventTypes_def)
next
  case False
  let ?r = "subscribeEventTypes (eventTypes s) s"
  have n: "p < nextId (snd ?r)" using assms aside_calls(5) by (rule nextId_aside [rotated])
  have "subPromises (awaitResubscribe AfterEventTypes (\<lambda>s'. s') ?r) p = subPromises (snd ?r) p"
    using n by (intro old_awaitResubscribe) simp_all
  then show ?thesis using False old_calls(5) [OF assms] by (simp add: resubscribeEventTypes_def)
qed

lemma old_resubscribeChannels:
  assumes "p < nextId s"
  shows "subPromises (resubscribeChannels s) p = subPromises s p"
proof (cases "channels s = []")
  case True
  then show ?thesis using old_resubscribeEventTypes [OF assms] by (simp add: resubscribeChannels_def)
next
  case False
  let ?r = "subscribeChannels (channels s) s"
  have n: "p < nextId (snd ?r)" using assms aside_calls(3) by (rule nextId_aside [rotated])
  have "subPromises (awaitResubscribe AfterChannels resubscribeEventTypes ?r) p =
        subPromises (snd ?r) p"
    using n by (intro old_awaitResubscribe) (simp_all add: old_resubscribeEventTypes)
  then show ?thesis using False old_calls(3) [OF assms] by (simp add: resubscribeChannels_def)
qed

lemma old_resubscribe:
  assumes "p < nextId s"
  shows "subPromises (resubscribe s) p = subPromises s p"
proof (cases "subscribedToAll s")
  case False
  then show ?thesis using old_resubscribeChannels [OF assms] by (simp add: resubscribe_def)
next
  case True
  let ?r = "subscribeAll s"
  have n: "p < nextId (snd ?r)" using assms aside_calls(1) by (rule nextId_aside [rotated])
  have "subPromises (awaitResubscribe AfterAll resubscribeChannels ?r) p = subPromises (snd ?r) p"
    using n by (intro old_awaitResubscribe) (simp_all add: old_resubscribeChannels)
  then show ?thesis using True old_calls(1) [OF assms] by (simp add: resubscribe_def)
qed

lemma old_resumeResubscribe:
  "p < nextId s \<Longrightarrow> subPromises (resumeResubscribe a s) p = subPromises s p"
  by (cases a) (simp_all add: resumeResubscribe_def old_resubscribeChannels
      old_resubscribeEventTypes)

lemma old_resolveSubscription:
  assumes "p < nextId s" "p' \<noteq> p"
  shows "subPromises (resolveSubscription p' c s) p = subPromises s p"
proof (cases "subPromises s p' = Some Pending")
  case False
  then show ?thesis
    by (simp add: resolveSubscription_def split: option.splits promise.splits)
next
  case True
  let ?m = "s\<lparr>subPromises := (subPromises s)(p' \<mapsto> Fulfilled c)\<rparr>"
  have "subPromises (resumeResubscribe a (?m\<lparr>awaiters := (awaiters ?m)(p' := None)\<rparr>)) p =
        subPromises s p" for a
    using old_resumeResubscribe [of p "?m\<lparr>awaiters := (awaiters ?m)(p' := None)\<rparr>" a] assms
    by simp
  then show ?thesis
    using True assms(2) by (simp add: resolveSubscription_def Let_def split: option.splits)
qed

lemma old_rejectSubscription:
  "p' \<noteq> p \<Longrightarrow> subPromises (rejectSubscription p' e s) p = subPromises s p"
  by (simp add: rejectSubscription_def Let_def split: option.splits promise.splits)

lemma pending_handleMessage:
  assumes w: "wellFormed s" and tm: "timers s t = Some (d, SubscriptionTimeout key p)"
    and other: "\<And>c. data = ConfirmationFrame c \<Longrightarrow>
                  getSubscriptionKey (action c) (subscriptionType c) \<noteq> key \<or>
                  pendingSubscriptions s key \<noteq> Some (t, p)"
  shows "subPromises (handleMessage data s) p = subPromises s p"
proof (cases data)
  case (ConfirmationFrame c)
  let ?key = "getSubscriptionKey (action c) (subscriptionType c)"
  show ?thesis
  proof (cases "pendingSubscriptions s ?key")
    case None
    then show ?thesis using ConfirmationFrame by (simp add: handleMessage_def)
  next
    case (Some entry)
    obtain t' p' where entry: "entry = (t', p')" by (cases entry)
    have tm': "timers s t' = Some (SUBSCRIPTION_TIMEOUT, SubscriptionTimeout ?key p')"
      using wellFormed_entryD [OF w] Some entry by simp
    have ne: "t' \<noteq> t"
    proof
      assume "t' = t"
      with tm tm' have "?key = key" "p' = p" by simp_all
      with Some entry \<open>t' = t\<close> other [OF ConfirmationFrame] show False by simp
    qed
    have "p' = t' + 1" using wellFormed_timerD [OF w tm'] by simp
    moreover have pt: "p = t + 1" "p < nextId s" using wellFormed_timerD [OF w tm] by simp_all
    ultimately have pne: "p' \<noteq> p" using ne by simp
    let ?m = "s\<lparr>pendingSubscriptions := (pendingSubscriptions s)(?key := None),
                  timers := (timers s)(t' := None)\<rparr>"
    have a: "subPromises (resolveSubscription p' c ?m) p = subPromises s p"
      using old_resolveSubscription [of p ?m p' c] pt(2) pne by simp
    have b: "subPromises (rejectSubscription p' e ?m) p = subPromises s p" for e
      using old_rejectSubscription [of p' p e ?m] pne by simp
    show ?thesis
      using ConfirmationFrame Some entry a b
      by (simp add: handleMessage_def pendingResolve_def pendingReject_def Let_def)
  qed
qed (simp_all add: handleMessage_def emitEvent_def split: option.splits)

lemma subPromises_connect [simp]: "subPromises (snd (connect s)) = subPromises s"
  by (simp add: connect_def Let_def)

lemma pending_fireTimer:
  assumes w: "wellFormed s" and tm: "timers s t = Some (d, SubscriptionTimeout key p)"
    and ne: "t' \<noteq> t"
  shows "subPromises (fireTimer t' s) p = subPromises s p"
proof (cases "timers s t'")
  case None
  then show ?thesis by (simp add: fireTimer_def)
next
  case (Some x)
  obtain d' cb where x: "x = (d', cb)" by (cases x)
  show ?thesis
  proof (cases cb)
    case (SubscriptionTimeout key' p')
    have "p' = t' + 1" using wellFormed_timerD [OF w] Some x SubscriptionTimeout by simp
    moreover have "p = t + 1" using wellFormed_timerD [OF w tm] by simp
    ultimately have "p' \<noteq> p" using ne by simp
    then show ?thesis
      using Some x SubscriptionTimeout by (simp add: fireTimer_def old_rejectSubscription)
  qed (use Some x in \<open>simp_all add: fireTimer_def split: option.splits\<close>)
qed

lemma subPromises_plain:
  "subPromises (tokenFetched c r s) = subPromises s"
  "subPromises (webSocketReady c ctor s) = subPromises s"
  "subPromises (onclose k reason s) = subPromises s"
  "subPromises (onerror k message s) = subPromises s"
  "subPromises (disconnect s) = subPromises s"
  by (simp_all add: tokenFetched_def webSocketReady_def onclose_def onerror_def disconnect_def
      connectCatch_def rejectConnect_def setState_def scheduleReconnect_def Let_def
      split: option.splits connect_await.splits sum.splits promise.splits)

lemma pending_onopen:
  assumes "p < nextId s"
  shows "subPromises (onopen k s) p = subPromises s p"
proof (cases "sockets s k")
  case None
  then show ?thesis by (simp add: onopen_def)
next
  case (Some info)
  let ?m = "startHeartbeat
      (setState Connected (s\<lparr>readyState := (readyState s)(k \<mapsto> OPEN)\<rparr>)
         \<lparr>reconnectAttempts := 0\<rparr>)"
  have "p < nextId ?m" using assms by simp
  then have "subPromises (resubscribe ?m) p = subPromises ?m p" by (rule old_resubscribe)
  then show ?thesis using Some by (simp add: onopen_unfold)
qed

lemma pending_step:
  assumes w: "wellFormed s" and tm: "timers s t = Some (d, SubscriptionTimeout key p)"
    and "e \<noteq> FireTimer t" "\<not> confirms key e"
  shows "subPromises (step e s) p = subPromises s p"
proof -
  have n: "p < nextId s" using wellFormed_timerD [OF w tm] by simp
  show ?thesis
  proof (cases e)
    case (OnMessage k data)
    have "subPromises (handleMessage data s) p = subPromises s p"
      using w tm
    proof (rule pending_handleMessage)
      fix c assume "data = ConfirmationFrame c"
      with assms(4) OnMessage
      show "getSubscriptionKey (action c) (subscriptionType c) \<noteq> key \<or>
            pendingSubscriptions s key \<noteq> Some (t, p)"
        by (simp add: confirms_def)
    qed
    then show ?thesis using OnMessage by (simp add: step_def onmessage_def split: option.splits)
  next
    case (FireTimer t')
    then show ?thesis using pending_fireTimer [OF w tm, of t'] assms(3) by (simp add: step_def)
  qed (simp_all add: step_def old_calls [OF n] pending_onopen [OF n] subPromises_plain)
qed

lemma armed_run:
  assumes "wellFormed s" "timers s t = Some (d, SubscriptionTimeout key p)"
    and "\<forall>e \<in> set es. e \<noteq> FireTimer t \<and> \<not> confirms key e"
  shows "timers (run es s) t = Some (d, SubscriptionTimeout key p) \<and>
         subPromises (run es s) p = subPromises s p"
  using assms
proof (induction es arbitrary: s)
  case Nil
  then show ?case by simp
next
  case (Cons e es)
  have a: "timers (step e s) t = Some (d, SubscriptionTimeout key p)"
    using keep_step [OF Cons.prems(1,2), of e] Cons.prems by simp
  have b: "subPromises (step e s) p = subPromises s p"
    using pending_step [OF Cons.prems(1,2), of e] Cons.prems by simp
  have "wellFormed (step e s)"
    using Cons.prems(1) by (rule wellFormed_step)
  then show ?case
    using Cons.IH [of "step e s"] Cons.prems(3) a b by simp
qed

lemma pendingSubscriptions_plain:
  "pendingSubscriptions (snd (connect s)) = pendingSubscriptions s"
  "pendingSubscriptions (tokenFetched c r s) = pendingSubscriptions s"
  "pendingSubscriptions (webSocketReady c ctor s) = pendingSubscriptions s"
  "pendingSubscriptions (onclose k reason s) = pendingSubscriptions s"
  "pendingSubscriptions (onerror k message s) = pendingSubscriptions s"
  "pendingSubscriptions (disconnect s) = pendingSubscriptions s"
  by (simp_all add: connect_def tokenFetched_def webSocketReady_def onclose_def onerror_def
      disconnect_def connectCatch_def rejectConnect_def setState_def scheduleReconnect_def Let_def
      split: option.splits connect_await.splits sum.splits promise.splits)

lemma no_entry_fireTimer:
  "pendingSubscriptions s key = None \<Longrightarrow> pendingSubscriptions (fireTimer t s) key = None"
  by (simp add: fireTimer_def pendingSubscriptions_plain
      split: option.splits prod.splits timer_callback.splits)

lemma no_entry_step:
  assumes "\<not> maySend e" "pendingSubscriptions s key = None"
  shows "pendingSubscriptions (step e s) key = None"
proof (cases e)
  case (OnMessage k data)
  then have nc: "\<And>c. data \<noteq> ConfirmationFrame c" using assms(1) by (auto simp: maySend_def)
  have "pendingSubscriptions (handleMessage data s) = pendingSubscriptions s"
  proof (cases data)
    case (ConfirmationFrame c)
    then show ?thesis using nc by simp
  qed (simp_all add: handleMessage_def emitEvent_def split: option.splits)
  then show ?thesis
    using OnMessage assms(2) by (simp add: step_def onmessage_def split: option.splits)
next
  case (FireTimer t)
  then show ?thesis using assms(2) by (simp add: step_def no_entry_fireTimer)
qed (use assms in \<open>simp_all add: step_def maySend_def isSubscriptionCall_def
      pendingSubscriptions_plain\<close>)

lemma no_entry_run:
  assumes "\<forall>e \<in> set es. \<not> maySend e" "pendingSubscriptions s key = None"
  shows "pendingSubscriptions (run es s) key = None"
  using assms
  by (induction es arbitrary: s) (simp_all add: no_entry_step)

lemma onmessage_unmatched:
  "pendingSubscriptions s (getSubscriptionKey (action c) (subscriptionType c)) = None \<Longrightarrow>
     onmessage k (ConfirmationFrame c) s = s"
  by (simp add: onmessage_def handleMessage_unmatched split: option.splits)

lemma run_append: "run (xs @ ys) z = run ys (run xs z)"
  by (induction xs arbitrary: z) simp_all

text \<open>
  C4 (as amended).  A command sent on a connected object whose socket is past
  \<open>CONNECTING\<close> is handed to the socket; a timer of 10000 ms is armed for the key and the
  new promise, the entry is stored under the key, and the promise is pending.

  In any state the object can reach from its construction, take an armed subscription
  timer whose promise is pending; its delay is 10000 ms.  Whatever happens next, as long
  as the timer does not fire and no confirmation frame for the key arrives, the timer
  stays armed and the promise pending.  When the timer then fires, the promise is
  rejected with \<open>Subscription timeout\<close>, the key has no entry, and the timer is gone.
  From then on, over events in which no command can be sent (no call of a subscribe or
  unsubscribe method, no socket opening, no confirmation frame), the key stays without
  entry, and a confirmation frame for the key arriving then changes nothing at all.

  In every state, a confirmation frame whose key has no entry changes nothing.
\<close>

theorem confirmation_timeout:
  "(ws s = Some k \<and> state s = Connected \<and> readyState s k \<noteq> Some CONNECTING \<longrightarrow>
      fst (sendSubscription command s) = nextId s + 1 \<and>
      sent (snd (sendSubscription command s)) = sent s @ [(k, command)] \<and>
      timers (snd (sendSubscription command s)) (nextId s) =
        Some (10000, SubscriptionTimeout (commandKey command) (nextId s + 1)) \<and>
      pendingSubscriptions (snd (sendSubscription command s)) (commandKey command) =
        Some (nextId s, nextId s + 1) \<and>
      subPromises (snd (sendSubscription command s)) (nextId s + 1) = Some Pending) \<and>
   (timers (run es0 (createRealtimeResource env config)) t = Some (d, SubscriptionTimeout key p) \<and>
    subPromises (run es0 (createRealtimeResource env config)) p = Some Pending \<and>
    (\<forall>e \<in> set es. e \<noteq> FireTimer t \<and> \<not> confirms key e) \<longrightarrow>
      d = 10000 \<and>
      timers (run (es0 @ es) (createRealtimeResource env config)) t =
        Some (10000, SubscriptionTimeout key p) \<and>
      subPromises (run (es0 @ es) (createRealtimeResource env config)) p = Some Pending \<and>
      subPromises (run (es0 @ es @ [FireTimer t]) (createRealtimeResource env config)) p =
        Some (Rejected ''Subscription timeout'') \<and>
      pendingSubscriptions (run (es0 @ es @ [FireTimer t]) (createRealtimeResource env config)) key =
        None \<and>
      timers (run (es0 @ es @ [FireTimer t]) (createRealtimeResource env config)) t = None \<and>
      ((\<forall>e \<in> set es1. \<not> maySend e) \<and>
       getSubscriptionKey (action c) (subscriptionType c) = key \<longrightarrow>
         pendingSubscriptions
           (run (es0 @ es @ [FireTimer t] @ es1) (createRealtimeResource env config)) key = None \<and>
         run (es0 @ es @ [FireTimer t] @ es1 @ [OnMessage k1 (ConfirmationFrame c)])
           (createRealtimeResource env config) =
         run (es0 @ es @ [FireTimer t] @ es1) (createRealtimeResource env config))) \<and>
   (pendingSubscriptions r (getSubscriptionKey (action c2) (subscriptionType c2)) = None \<longrightarrow>
      step (OnMessage k2 (ConfirmationFrame c2)) r = r)"
proof (intro conjI)
  show "ws s = Some k \<and> state s = Connected \<and> readyState s k \<noteq> Some CONNECTING \<longrightarrow>
      fst (sendSubscription command s) = nextId s + 1 \<and>
      sent (snd (sendSubscription command s)) = sent s @ [(k, command)] \<and>
      timers (snd (sendSubscription command s)) (nextId s) =
        Some (10000, SubscriptionTimeout (commandKey command) (nextId s + 1)) \<and>
      pendingSubscriptions (snd (sendSubscription command s)) (commandKey command) =
        Some (nextId s, nextId s + 1) \<and>
      subPromises (snd (sendSubscription command s)) (nextId s + 1) = Some Pending"
    using sendSubscription_connected [of s k command] by simp
next
  show "pendingSubscriptions r (getSubscriptionKey (action c2) (subscriptionType c2)) = None \<longrightarrow>
      step (OnMessage k2 (ConfirmationFrame c2)) r = r"
    by (simp add: step_def onmessage_unmatched)
next
  let ?init = "createRealtimeResource env config"
  let ?r = "run es0 ?init"
  let ?s = "run es (run es0 ?init)"
  let ?f = "fireTimer t ?s"
  have r1: "run (es0 @ es) ?init = ?s" by (simp add: run_append)
  have r2: "run (es0 @ es @ [FireTimer t]) ?init = ?f" by (simp add: run_append step_def)
  have r3: "run (es0 @ es @ [FireTimer t] @ es1) ?init = run es1 ?f"
    by (simp add: run_append step_def)
  have r4: "run (es0 @ es @ [FireTimer t] @ es1 @ [OnMessage k1 (ConfirmationFrame c)]) ?init =
      onmessage k1 (ConfirmationFrame c) (run es1 ?f)"
    by (simp add: run_append step_def)
  show "timers ?r t = Some (d, SubscriptionTimeout key p) \<and>
    subPromises ?r p = Some Pending \<and>
    (\<forall>e \<in> set es. e \<noteq> FireTimer t \<and> \<not> confirms key e) \<longrightarrow>
      d = 10000 \<and>
      timers (run (es0 @ es) ?init) t = Some (10000, SubscriptionTimeout key p) \<and>
      subPromises (run (es0 @ es) ?init) p = Some Pending \<and>
      subPromises (run (es0 @ es @ [FireTimer t]) ?init) p =
        Some (Rejected ''Subscription timeout'') \<and>
      pendingSubscriptions (run (es0 @ es @ [FireTimer t]) ?init) key = None \<and>
      timers (run (es0 @ es @ [FireTimer t]) ?init) t = None \<and>
      ((\<forall>e \<in> set es1. \<not> maySend e) \<and>
       getSubscriptionKey (action c) (subscriptionType c) = key \<longrightarrow>
         pendingSubscriptions (run (es0 @ es @ [FireTimer t] @ es1) ?init) key = None \<and>
         run (es0 @ es @ [FireTimer t] @ es1 @ [OnMessage k1 (ConfirmationFrame c)]) ?init =
         run (es0 @ es @ [FireTimer t] @ es1) ?init)"
    unfolding r1 r2 r3 r4
  proof (intro impI, elim conjE)
    assume tm: "timers ?r t = Some (d, SubscriptionTimeout key p)"
      and pend0: "subPromises ?r p = Some Pending"
      and quiet: "\<forall>e \<in> set es. e \<noteq> FireTimer t \<and> \<not> confirms key e"
    have w0: "wellFormed ?r" by (rule wellFormed_reachable)
    have d: "d = 10000"
      using wellFormed_timerD [OF w0 tm] by (simp add: SUBSCRIPTION_TIMEOUT_def)
    have armed: "timers ?s t = Some (d, SubscriptionTimeout key p)"
      and pend: "subPromises ?s p = Some Pending"
      using armed_run [OF w0 tm quiet] pend0 by simp_all
    note fire = fireTimer_subscription [OF armed pend]
    have gone: "pendingSubscriptions ?f key = None"
      using fire(2) by simp
    have rej: "subPromises ?f p = Some (Rejected ''Subscription timeout'')"
      using fire(1) by simp
    have off: "timers ?f t = None"
      using fire(3) by simp
    have late: "pendingSubscriptions (run es1 ?f) key = None \<and>
        onmessage k1 (ConfirmationFrame c) (run es1 ?f) = run es1 ?f"
      if q: "\<forall>e \<in> set es1. \<not> maySend e"
        and c: "getSubscriptionKey (action c) (subscriptionType c) = key"
    proof -
      have "pendingSubscriptions (run es1 ?f) key = None"
        using q gone by (rule no_entry_run)
      then show ?thesis using c by (simp add: onmessage_unmatched)
    qed
    show "d = 10000 \<and>
      timers ?s t = Some (10000, SubscriptionTimeout key p) \<and>
      subPromises ?s p = Some Pending \<and>
      subPromises ?f p = Some (Rejected ''Subscription timeout'') \<and>
      pendingSubscriptions ?f key = None \<and>
      timers ?f t = None \<and>
      ((\<forall>e \<in> set es1. \<not> maySend e) \<and>
       getSubscriptionKey (action c) (subscriptionType c) = key \<longrightarrow>
         pendingSubscriptions (run es1 ?f) key = None \<and>
         onmessage k1 (ConfirmationFrame c) (run es1 ?f) = run es1 ?f)"
    proof (intro conjI impI)
      show "d = 10000" by (rule d)
      show "timers ?s t = Some (10000, SubscriptionTimeout key p)" using armed d by simp
      show "subPromises ?s p = Some Pending" by (rule pend)
      show "subPromises ?f p = Some (Rejected ''Subscription timeout'')" by (rule rej)
      show "pendingSubscriptions ?f key = None" by (rule gone)
      show "timers ?f t = None" by (rule off)
    next
      assume "(\<forall>e \<in> set es1. \<not> maySend e) \<and>
          getSubscriptionKey (action c) (subscriptionType c) = key"
      then have "\<forall>e \<in> set es1. \<not> maySend e"
        and "getSubscriptionKey (action c) (subscriptionType c) = key" by simp_all
      then have "pendingSubscriptions (run es1 ?f) key = None \<and>
        onmessage k1 (ConfirmationFrame c) (run es1 ?f) = run es1 ?f" by (rule late)
      then show "pendingSubscriptions (run es1 ?f) key = None" by simp
    next
      assume "(\<forall>e \<in> set es1. \<not> maySend e) \<and>
          getSubscriptionKey (action c) (subscriptionType c) = key"
      then have "\<forall>e \<in> set es1. \<not> maySend e"
        and "getSubscriptionKey (action c) (subscriptionType c) = key" by simp_all
      then have "pendingSubscriptions (run es1 ?f) key = None \<and>
        onmessage k1 (ConfirmationFrame c) (run es1 ?f) = run es1 ?f" by (rule late)
      then show "onmessage k1 (ConfirmationFrame c) (run es1 ?f) = run es1 ?f" by simp
    qed
  qed
qed


theorem confirmation_timeout_witness:
  "ws (run [Connect, TokenFetched 0 (Inr ''tok''), WebSocketReady 0 None, OnOpen 1]
        (createRealtimeResource (Node True) defaultConfig)) = Some 1 \<and>
   state (run [Connect, TokenFetched 0 (Inr ''tok''), WebSocketReady 0 None, OnOpen 1]
        (createRealtimeResource (Node True) defaultConfig)) = Connected \<and>
   readyState (run [Connect, TokenFetched 0 (Inr ''tok''), WebSocketReady 0 None, OnOpen 1]
        (createRealtimeResource (Node True) defaultConfig)) 1 = Some OPEN \<and>
   sent (run ([Connect, TokenFetched 0 (Inr ''tok''), WebSocketReady 0 None, OnOpen 1,
         SubscribeAll])
        (createRealtimeResource (Node True) defaultConfig)) =
     [(1, \<lparr>cmdType = Subscribe, cmdSubscriptionType = All, cmdEventTypes = None,
           cmdChannels = None\<rparr>)] \<and>
   timers (run ([Connect, TokenFetched 0 (Inr ''tok''), WebSocketReady 0 None, OnOpen 1,
         SubscribeAll])
        (createRealtimeResource (Node True) defaultConfig)) 3 = Some (10000, SubscriptionTimeout ''subscribe:all'' 4) \<and>
   subPromises (run ([Connect, TokenFetched 0 (Inr ''tok''), WebSocketReady 0 None, OnOpen 1,
         SubscribeAll])
        (createRealtimeResource (Node True) defaultConfig)) 4 = Some Pending \<and>
   \<not> confirms ''subscribe:all''
       (OnMessage 1 (ConfirmationFrame \<lparr>confError = False, action = ''subscribe'',
             subscriptionType = ''channel'', items = [], error = None\<rparr>)) \<and>
   \<not> confirms ''subscribe:all'' (SubscribeChannels [''a'']) \<and>
   \<not> maySend (FireTimer 2) \<and>
   \<not> maySend (OnMessage 1 (EventFrame (Some ''e''))) \<and>
   subPromises (run ([Connect, TokenFetched 0 (Inr ''tok''), WebSocketReady 0 None, OnOpen 1,
         SubscribeAll] @
         [OnMessage 1 (ConfirmationFrame \<lparr>confError = False, action = ''subscribe'',
             subscriptionType = ''channel'', items = [], error = None\<rparr>),
         SubscribeChannels [''a'']] @ [FireTimer 3])
        (createRealtimeResource (Node True) defaultConfig)) 4 = Some (Rejected ''Subscription timeout'') \<and>
   pendingSubscriptions (run ([Connect, TokenFetched 0 (Inr ''tok''), WebSocketReady 0 None,
         OnOpen 1, SubscribeAll] @
         [OnMessage 1 (ConfirmationFrame \<lparr>confError = False, action = ''subscribe'',
             subscriptionType = ''channel'', items = [], error = None\<rparr>),
         SubscribeChannels [''a'']] @ [FireTimer 3])
        (createRealtimeResource (Node True) defaultConfig)) ''subscribe:all'' = None \<and>
   timers (run ([Connect, TokenFetched 0 (Inr ''tok''), WebSocketReady 0 None, OnOpen 1,
         SubscribeAll] @
         [OnMessage 1 (ConfirmationFrame \<lparr>confError = False, action = ''subscribe'',
             subscriptionType = ''channel'', items = [], error = None\<rparr>),
         SubscribeChannels [''a'']] @ [FireTimer 3])
        (createRealtimeResource (Node True) defaultConfig)) 3 = None \<and>
   pendingSubscriptions (run ([Connect, TokenFetched 0 (Inr ''tok''), WebSocketReady 0 None,
         OnOpen 1, SubscribeAll] @
         [OnMessage 1 (ConfirmationFrame \<lparr>confError = False, action = ''subscribe'',
             subscriptionType = ''channel'', items = [], error = None\<rparr>),
         SubscribeChannels [''a'']] @ [FireTimer 3] @
         [FireTimer 2, OnMessage 1 (EventFrame (Some ''e''))])
        (createRealtimeResource (Node True) defaultConfig)) ''subscribe:all'' = None \<and>
   run ([Connect, TokenFetched 0 (Inr ''tok''), WebSocketReady 0 None, OnOpen 1, SubscribeAll] @
         [OnMessage 1 (ConfirmationFrame \<lparr>confError = False, action = ''subscribe'',
             subscriptionType = ''channel'', items = [], error = None\<rparr>),
         SubscribeChannels [''a'']] @ [FireTimer 3] @
         [FireTimer 2, OnMessage 1 (EventFrame (Some ''e''))] @
         [OnMessage 1 (ConfirmationFrame \<lparr>confError = False, action = ''subscribe'',
             subscriptionType = ''all'', items = [], error = None\<rparr>)])
        (createRealtimeResource (Node True) defaultConfig) =
   run ([Connect, TokenFetched 0 (Inr ''tok''), WebSocketReady 0 None, OnOpen 1, SubscribeAll] @
         [OnMessage 1 (ConfirmationFrame \<lparr>confError = False, action = ''subscribe'',
             subscriptionType = ''channel'', items = [], error = None\<rparr>),
         SubscribeChannels [''a'']] @ [FireTimer 3] @
         [FireTimer 2, OnMessage 1 (EventFrame (Some ''e''))])
        (createRealtimeResource (Node True) defaultConfig)"
  using confirmation_timeout
    [where s = "run [Connect, TokenFetched 0 (Inr ''tok''), WebSocketReady 0 None, OnOpen 1]
        (createRealtimeResource (Node True) defaultConfig)"
       and k = 1
       and command = "\<lparr>cmdType = Subscribe, cmdSubscriptionType = All, cmdEventTypes = None,
           cmdChannels = None\<rparr>"
       and ?es0.0 = "[Connect, TokenFetched 0 (Inr ''tok''), WebSocketReady 0 None, OnOpen 1,
             SubscribeAll]"
       and env = "Node True" and config = defaultConfig
       and t = 3 and d = 10000 and key = "''subscribe:all''" and p = 4
       and es = "[OnMessage 1 (ConfirmationFrame \<lparr>confError = False, action = ''subscribe'',
             subscriptionType = ''channel'', items = [], error = None\<rparr>),
         SubscribeChannels [''a'']]"
       and ?es1.0 = "[FireTimer 2, OnMessage 1 (EventFrame (Some ''e''))]"
       and c = "\<lparr>confError = False, action = ''subscribe'',
             subscriptionType = ''all'', items = [], error = None\<rparr>"
       and ?k1.0 = 1
       and r = "run ([Connect, TokenFetched 0 (Inr ''tok''), WebSocketReady 0 None, OnOpen 1,
             SubscribeAll] @
         [OnMessage 1 (ConfirmationFrame \<lparr>confError = False, action = ''subscribe'',
             subscriptionType = ''channel'', items = [], error = None\<rparr>),
         SubscribeChannels [''a'']] @ [FireTimer 3])
        (createRealtimeResource (Node True) defaultConfig)"
       and ?c2.0 = "\<lparr>confError = False, action = ''subscribe'',
             subscriptionType = ''all'', items = [], error = None\<rparr>"
       and ?k2.0 = 1]
  by (simp add: run_defs confirms_def maySend_def isSubscriptionCall_def)

text \<open>
  Two runs from the constructor.  In the first the command times out, the caller sends
  it again, and a confirmation frame for the key arrives: it is not dropped, it fulfils
  the promise of the second command.  In the second, \<open>connect\<close>, \<open>disconnect\<close> and
  \<open>connect\<close> are called before the first token is there; both sockets are constructed and
  the first one opens, so the state is \<open>connected\<close> while \<open>this.ws\<close> holds the second
  socket, which is still connecting.  \<open>send\<close> throws, and the promise of the command
  fails at once with that error; the timer is armed all the same, and when it fires it
  removes the entry and the promise keeps the error of \<open>send\<close>, not
  \<open>Subscription timeout\<close>.
\<close>

theorem confirmation_timeout_counterexample:
  "subPromises (run ([Connect, TokenFetched 0 (Inr ''tok''), WebSocketReady 0 None, OnOpen 1,
        SubscribeAll, FireTimer 3])
        (createRealtimeResource (Node True) defaultConfig)) 4 = Some (Rejected ''Subscription timeout'') \<and>
   pendingSubscriptions (run ([Connect, TokenFetched 0 (Inr ''tok''), WebSocketReady 0 None,
         OnOpen 1, SubscribeAll, FireTimer 3])
        (createRealtimeResource (Node True) defaultConfig)) ''subscribe:all'' = None \<and>
   subPromises (run ([Connect, TokenFetched 0 (Inr ''tok''), WebSocketReady 0 None, OnOpen 1,
         SubscribeAll, FireTimer 3, SubscribeAll])
        (createRealtimeResource (Node True) defaultConfig)) 6 = Some Pending \<and>
   subPromises (run ([Connect, TokenFetched 0 (Inr ''tok''), WebSocketReady 0 None, OnOpen 1,
         SubscribeAll, FireTimer 3, SubscribeAll] @
         [OnMessage 1 (ConfirmationFrame \<lparr>confError = False, action = ''subscribe'',
             subscriptionType = ''all'', items = [], error = None\<rparr>)])
        (createRealtimeResource (Node True) defaultConfig)) 6 =
     Some (Fulfilled \<lparr>confError = False, action = ''subscribe'',
             subscriptionType = ''all'', items = [], error = None\<rparr>) \<and>
   state (run [Connect, Disconnect, Connect, TokenFetched 0 (Inr ''tok''), WebSocketReady 0 None,
           TokenFetched 1 (Inr ''tok''), WebSocketReady 1 None, OnOpen 2]
        (createRealtimeResource (Node True) defaultConfig)) = Connected \<and>
   ws (run [Connect, Disconnect, Connect, TokenFetched 0 (Inr ''tok''), WebSocketReady 0 None,
           TokenFetched 1 (Inr ''tok''), WebSocketReady 1 None, OnOpen 2]
        (createRealtimeResource (Node True) defaultConfig)) = Some 3 \<and>
   readyState (run [Connect, Disconnect, Connect, TokenFetched 0 (Inr ''tok''),
         WebSocketReady 0 None,
           TokenFetched 1 (Inr ''tok''), WebSocketReady 1 None, OnOpen 2]
        (createRealtimeResource (Node True) defaultConfig)) 3 = Some CONNECTING \<and>
   subPromises (run [Connect, Disconnect, Connect, TokenFetched 0 (Inr ''tok''),
         WebSocketReady 0 None,
           TokenFetched 1 (Inr ''tok''), WebSocketReady 1 None, OnOpen 2, SubscribeAll]
        (createRealtimeResource (Node True) defaultConfig)) 6 =
     Some (Rejected ''WebSocket is not open: readyState 0 (CONNECTING)'') \<and>
   timers (run [Connect, Disconnect, Connect, TokenFetched 0 (Inr ''tok''), WebSocketReady 0 None,
           TokenFetched 1 (Inr ''tok''), WebSocketReady 1 None, OnOpen 2, SubscribeAll]
        (createRealtimeResource (Node True) defaultConfig)) 5 = Some (10000, SubscriptionTimeout ''subscribe:all'' 6) \<and>
   pendingSubscriptions (run [Connect, Disconnect, Connect, TokenFetched 0 (Inr ''tok''),
         WebSocketReady 0 None,
           TokenFetched 1 (Inr ''tok''), WebSocketReady 1 None, OnOpen 2, SubscribeAll]
        (createRealtimeResource (Node True) defaultConfig)) ''subscribe:all'' = Some (5, 6) \<and>
   sent (run [Connect, Disconnect, Connect, TokenFetched 0 (Inr ''tok''), WebSocketReady 0 None,
           TokenFetched 1 (Inr ''tok''), WebSocketReady 1 None, OnOpen 2, SubscribeAll]
        (createRealtimeResource (Node True) defaultConfig)) = [] \<and>
   subPromises (run [Connect, Disconnect, Connect, TokenFetched 0 (Inr ''tok''),
         WebSocketReady 0 None,
           TokenFetched 1 (Inr ''tok''), WebSocketReady 1 None, OnOpen 2, SubscribeAll, FireTimer 5]
        (createRealtimeResource (Node True) defaultConfig)) 6 =
     Some (Rejected ''WebSocket is not open: readyState 0 (CONNECTING)'') \<and>
   pendingSubscriptions (run [Connect, Disconnect, Connect, TokenFetched 0 (Inr ''tok''),
         WebSocketReady 0 None,
           TokenFetched 1 (Inr ''tok''), WebSocketReady 1 None, OnOpen 2, SubscribeAll, FireTimer 5]
        (createRealtimeResource (Node True) defaultConfig)) ''subscribe:all'' = None"
  by (simp add: run_defs)

end
